theory Spec2Isabelle
  imports Main "HOL-Library.Word"
begin

unbundle bit_operations_syntax

section \<open>The LoRaWAN stack controller (LoRaWANStack.cpp, LoRaWANInterface.cpp)\<close>

text \<open>
  A shallow embedding of \<^verbatim>\<open>LoRaWANStack\<close>. The object's members are the fields of the
  record \<open>lorawan_stack\<close>; every member function takes the state and returns the new
  one, together with its return value where it has one. The lower MAC
  (\<^verbatim>\<open>LoRaMac\<close>, the member \<^verbatim>\<open>_loramac\<close>) is not part of these sources: what the
  stack reads from it through getters is a field of the record \<open>loramac\<close>, and what
  its operations do and return is a parameter of the model (\<open>mac_effect\<close>,
  \<open>mac_status\<close>, ... of the environment record). Every operation the stack invokes on
  the MAC is also appended to \<open>mac_log\<close>, which exists only in the model.
\<close>

subsection \<open>Types of lorawan_types.h and lorawan_data_structures.h, as the stack uses them\<close>

type_synonym u8 = "8 word"
type_synonym u16 = "16 word"
type_synonym u32 = "32 word"
type_synonym u64 = "64 word"

datatype lorawan_status =
    LORAWAN_STATUS_OK
  | LORAWAN_STATUS_BUSY
  | LORAWAN_STATUS_WOULD_BLOCK
  | LORAWAN_STATUS_SERVICE_UNKNOWN
  | LORAWAN_STATUS_PARAMETER_INVALID
  | LORAWAN_STATUS_FREQUENCY_INVALID
  | LORAWAN_STATUS_DATARATE_INVALID
  | LORAWAN_STATUS_FREQ_AND_DR_INVALID
  | LORAWAN_STATUS_NO_NETWORK_JOINED
  | LORAWAN_STATUS_LENGTH_ERROR
  | LORAWAN_STATUS_DEVICE_OFF
  | LORAWAN_STATUS_NOT_INITIALIZED
  | LORAWAN_STATUS_UNSUPPORTED
  | LORAWAN_STATUS_CRYPTO_FAIL
  | LORAWAN_STATUS_PORT_INVALID
  | LORAWAN_STATUS_CONNECT_IN_PROGRESS
  | LORAWAN_STATUS_NO_ACTIVE_SESSIONS
  | LORAWAN_STATUS_IDLE
  | LORAWAN_STATUS_NO_OP
  | LORAWAN_STATUS_DUTYCYCLE_RESTRICTED
  | LORAWAN_STATUS_NO_CHANNEL_FOUND
  | LORAWAN_STATUS_NO_FREE_CHANNEL_FOUND
  | LORAWAN_STATUS_METADATA_NOT_AVAILABLE
  | LORAWAN_STATUS_ALREADY_CONNECTED
  | LORAWAN_STATUS_NO_BEACON_FOUND

text \<open>
  \<^verbatim>\<open>handle_tx\<close> and \<^verbatim>\<open>handle_rx\<close> return an \<^verbatim>\<open>int16_t\<close> that is either a status code
  (all of them negative) or a byte count. The numeric values of the status codes are not
  in these sources, so the two cases are kept apart: \<open>Count n\<close> carries the
  \<^verbatim>\<open>int16_t\<close> value of the count.
\<close>

datatype retval = Status lorawan_status | Count int

datatype device_states =
    DEVICE_STATE_NOT_INITIALIZED
  | DEVICE_STATE_JOINING
  | DEVICE_STATE_IDLE
  | DEVICE_STATE_CONNECTING
  | DEVICE_STATE_AWAITING_JOIN_ACCEPT
  | DEVICE_STATE_RECEIVING
  | DEVICE_STATE_CONNECTED
  | DEVICE_STATE_SCHEDULING
  | DEVICE_STATE_SENDING
  | DEVICE_STATE_AWAITING_ACK
  | DEVICE_STATE_STATUS_CHECK
  | DEVICE_STATE_SHUTDOWN

datatype lorawan_event =
    CONNECTED
  | DISCONNECTED
  | TX_DONE
  | TX_TIMEOUT
  | TX_ERROR
  | CRYPTO_ERROR
  | TX_SCHEDULING_ERROR
  | RX_DONE
  | RX_TIMEOUT
  | RX_ERROR
  | JOIN_FAILURE
  | UPLINK_REQUIRED
  | AUTOMATIC_UPLINK_ERROR
  | CLASS_CHANGED
  | SERVER_ACCEPTED_CLASS_IN_USE
  | SERVER_DOES_NOT_SUPPORT_CLASS_IN_USE
  | DEVICE_TIME_SYNCHED
  | PING_SLOT_INFO_SYNCHED
  | BEACON_FOUND
  | BEACON_NOT_FOUND
  | BEACON_LOCK
  | BEACON_MISS
  | SWITCH_CLASS_B_TO_A

datatype device_class = CLASS_A | CLASS_B | CLASS_C

datatype server_type = LW1_0_2 | LW1_0_3 | LW1_1

datatype mcps_type = MCPS_UNCONFIRMED | MCPS_CONFIRMED | MCPS_MULTICAST | MCPS_PROPRIETARY

datatype rx_slot =
    RX_SLOT_WIN_1
  | RX_SLOT_WIN_2
  | RX_SLOT_WIN_CLASS_C
  | RX_SLOT_WIN_BEACON
  | RX_SLOT_WIN_UNICAST_PING_SLOT
  | RX_SLOT_WIN_MULTICAST_PING_SLOT

datatype loramac_event_info_status =
    LORAMAC_EVENT_INFO_STATUS_OK
  | LORAMAC_EVENT_INFO_STATUS_ERROR
  | LORAMAC_EVENT_INFO_STATUS_TX_TIMEOUT
  | LORAMAC_EVENT_INFO_STATUS_TX_DR_PAYLOAD_SIZE_ERROR
  | LORAMAC_EVENT_INFO_STATUS_CRYPTO_FAIL
  | LORAMAC_EVENT_INFO_STATUS_BEACON_NOT_FOUND
  | LORAMAC_EVENT_INFO_STATUS_OTHER

datatype mlme_type =
    MLME_LINK_CHECK
  | MLME_RESET
  | MLME_REKEY
  | MLME_DEVICE_MODE
  | MLME_JOIN_ACCEPT
  | MLME_FORCE_REJOIN
  | MLME_PING_SLOT_INFO
  | MLME_BEACON_ACQUISITION
  | MLME_SCHEDULE_UPLINK
  | MLME_OTHER

datatype lorawan_connect_type = LORAWAN_CONNECTION_OTAA | LORAWAN_CONNECTION_ABP
  | LORAWAN_CONNECTION_INVALID

datatype timer_event = Forced_timer | Rejoin_type0_timer

text \<open>
  \<^verbatim>\<open>join_req_type_t\<close>: the stack compares it with \<^verbatim>\<open><=\<close>, so it is kept as its
  8-bit value. The enumerators' values are not in these sources; they are the
  rejoin-type numbers of LoRaWAN 1.1.
\<close>

type_synonym join_req_type = u8

definition REJOIN_REQUEST_TYPE0 :: join_req_type where "REJOIN_REQUEST_TYPE0 = 0"
definition REJOIN_REQUEST_TYPE1 :: join_req_type where "REJOIN_REQUEST_TYPE1 = 1"
definition REJOIN_REQUEST_TYPE2 :: join_req_type where "REJOIN_REQUEST_TYPE2 = 2"

record loramac_mcps_confirm =
  req_type :: mcps_type
  conf_status :: loramac_event_info_status
  conf_channel :: u32
  conf_data_rate :: u8
  tx_power :: u8
  tx_toa :: u32
  nb_retries :: u8
  ul_frame_counter :: u32

text \<open>
  \<open>buffer\<close> is a pointer into storage owned by the MAC: \<open>None\<close> is \<^verbatim>\<open>NULL\<close>,
  \<open>Some bs\<close> points at the bytes \<open>bs\<close> (all the bytes that lie at and after the
  address, of which the first \<open>buffer_size\<close> are the payload).
\<close>

record loramac_mcps_indication =
  ind_type :: mcps_type
  ind_status :: loramac_event_info_status
  ind_pending :: bool
  is_data_recvd :: bool
  is_ack_recvd :: bool
  fpending_status :: bool
  port :: u8
  buffer :: "u8 list option"
  buffer_size :: u16
  dl_frame_counter :: u32
  rx_datarate :: u8
  rssi :: int
  snr :: int
  ind_channel :: u32
  rx_toa :: u32

record loramac_mlme_indication =
  mlme_ind_pending :: bool
  indication_type :: mlme_type

record loramac_mlme_confirm =
  mlme_type :: mlme_type
  mlme_status :: loramac_event_info_status
  demod_margin :: u8
  nb_gateways :: u8
  classType :: device_class
  rejoin_type :: u8
  datarate :: u8
  period :: u8
  max_retries :: u8

record loramac_rx_message =
  receive_ready :: bool
  mcps_indication :: loramac_mcps_indication
  prev_read_size :: u16
  pending_size :: u16

record lorawan_session =
  active :: bool
  downlink_counter :: u32
  uplink_counter :: u32

record lorawan_tx_metadata =
  tx_stale :: bool
  txm_channel :: u32
  txm_data_rate :: u8
  txm_tx_power :: u8
  txm_tx_toa :: u32
  txm_nb_retries :: u8

record lorawan_rx_metadata =
  rx_stale :: bool
  rxm_rx_datarate :: u8
  rxm_rssi :: int
  rxm_snr :: int
  rxm_channel :: u32
  rxm_rx_toa :: u32

subsection \<open>The MAC as the stack sees it\<close>

text \<open>What the getters of \<^verbatim>\<open>LoRaMac\<close> return.\<close>

record loramac =
  get_device_class :: device_class
  get_server_type :: server_type
  nwk_joined :: bool
  tx_ongoing :: bool
  get_current_slot :: rx_slot
  get_mcps_confirmation :: loramac_mcps_confirm
  get_mcps_indication :: loramac_mcps_indication
  get_mlme_indication :: loramac_mlme_indication
  get_QOS_level :: u8
  get_prev_QOS_level :: u8
  get_current_adr_ack_limit :: u16
  get_rejoin_max_time :: u32
  get_rejoin_max_count :: u32
  get_current_time :: u32
  get_gps_time :: u64
  get_backoff_timer_event_id :: int

text \<open>The operations of \<^verbatim>\<open>LoRaMac\<close> and of its timer that the stack invokes.\<close>

datatype mac_call =
    Initialize
  | Disconnect
  | Remove_channel_plan
  | Prepare_join "lorawan_connect_type option" bool
  | Join bool
  | Continue_joining_process
  | Rejoin join_req_type bool u8
  | Prepare_ongoing_tx u8 "u8 list option" u16 u8 u8
  | Send_ongoing_tx
  | Continue_sending_process
  | Clear_tx_pipe
  | Set_tx_ongoing bool
  | Reset_ongoing_tx
  | Post_process_mcps_req
  | Post_process_mcps_ind
  | Post_process_mlme_ind
  | On_radio_tx_done u32
  | On_radio_tx_timeout
  | On_radio_rx_done "u8 list" u16 int int u32
  | On_radio_rx_timeout bool
  | Setup_link_check_request
  | Setup_device_time_request
  | Add_ping_slot_info_req
  | Setup_reset_indication
  | Setup_rekey_indication
  | Setup_device_mode_indication device_class
  | Set_device_class device_class
  | Set_gps_time u64
  | Timer_init timer_event
  | Timer_start timer_event u32
  | Timer_stop timer_event

text \<open>
  The environment: the behaviour of the MAC and the compile-time configuration.
  \<open>mac_effect c\<close> is what operation \<open>c\<close> does to the MAC, \<open>mac_status c\<close>,
  \<open>mac_bool c\<close> and \<open>mac_len c\<close> are what it returns (read before the effect), and
  \<open>mac_confirms c\<close> are the MLME confirmations that \<^verbatim>\<open>on_radio_rx_done\<close> hands to
  the callback \<^verbatim>\<open>mlme_confirm_handler\<close> it is given; the model runs the callback on
  them when the operation has returned. \<open>rand n\<close> is what the \<open>n\<close>-th call of the C
  library's \<^verbatim>\<open>rand()\<close> returns (\<open>rand_calls\<close> of the state counts the calls).
\<close>

record env =
  mac_effect :: "mac_call \<Rightarrow> loramac \<Rightarrow> loramac"
  mac_status :: "mac_call \<Rightarrow> loramac \<Rightarrow> lorawan_status"
  mac_bool :: "mac_call \<Rightarrow> loramac \<Rightarrow> bool"
  mac_len :: "mac_call \<Rightarrow> loramac \<Rightarrow> int"
  mac_confirms :: "mac_call \<Rightarrow> loramac \<Rightarrow> loramac_mlme_confirm list"
  rand :: "nat \<Rightarrow> nat"
  LORAWAN_COMPLIANCE_TEST :: bool
  MBED_CONF_LORA_VERSION_1_1 :: bool
  MBED_CONF_LORA_AUTOMATIC_UPLINK_MESSAGE :: bool
  MBED_CONF_LORA_OVER_THE_AIR_ACTIVATION :: bool
  MBED_CONF_LORA_REJOIN_TYPE1_SEND_PERIOD :: u32
  MBED_CONF_LORA_APP_PORT :: "u8 option"
  LORAWAN_DEFAULT_QOS :: u8
  MBED_CONF_LORA_CLASS_B_BEACONLESS_PERIOD :: u32

subsection \<open>The event queue\<close>

text \<open>
  \<^verbatim>\<open>_queue->call(...)\<close> defers a call; the model appends it to \<open>queue\<close>. The
  assertion that the queue accepted the call is not modelled.
\<close>

datatype queued_call =
    App_event lorawan_event
  | Link_check_resp u8 u8
  | Call_state_controller device_states
  | Call_send_automatic_uplink_message u8
  | Call_process_rejoin join_req_type bool
  | Call_process_rejoin_type0
  | Call_process_transmission
  | Call_process_reception "u8 list" u16 int int
  | Call_process_reception_timeout bool
  | Call_process_transmission_timeout

subsection \<open>The members of LoRaWANStack\<close>

record lorawan_stack =
  loramac :: loramac
  mac_log :: "mac_call list"
  queue :: "queued_call list"
  callbacks_events :: bool
  callbacks_link_check_resp :: bool
  device_current_state :: device_states
  lw_session :: lorawan_session
  rx_msg :: loramac_rx_message
  tx_metadata :: lorawan_tx_metadata
  rx_metadata :: lorawan_rx_metadata
  num_retry :: u8
  qos_cnt :: u8
  ctrl_flags :: u32
  app_port :: u8
  link_check_requested :: bool
  reset_ind_requested :: bool
  rekey_ind_needed :: bool
  rekey_ind_counter :: u8
  device_mode_ind_needed :: bool
  device_mode_ind_ongoing :: bool
  new_class_type :: device_class
  automatic_uplink_ongoing :: bool
  rx_payload_in_use :: bool
  rejoin_type1_send_period :: u32
  rejoin_type1_stamp :: u32
  rejoin_type0_counter :: u32
  forced_datarate :: u8
  forced_period :: u32
  forced_retry_count :: u8
  forced_rejoin_type :: join_req_type
  forced_counter :: u8
  ping_slot_info_requested :: bool
  device_time_requested :: bool
  last_beacon_rx_time :: u32
  tx_timestamp :: u32
  rx_timestamp :: u32
  rand_calls :: nat

subsection \<open>Constants of LoRaWANStack.cpp\<close>

definition INVALID_PORT :: u8 where "INVALID_PORT = 0xFF"
definition MAX_CONFIRMED_MSG_RETRIES :: u8 where "MAX_CONFIRMED_MSG_RETRIES = 255"
definition COMPLIANCE_TESTING_PORT :: u8 where "COMPLIANCE_TESTING_PORT = 224"

definition IDLE_FLAG :: u32 where "IDLE_FLAG = 0x00000000"
definition RETRY_EXHAUSTED_FLAG :: u32 where "RETRY_EXHAUSTED_FLAG = 0x00000001"
definition MSG_RECVD_FLAG :: u32 where "MSG_RECVD_FLAG = 0x00000002"
definition CONNECTED_FLAG :: u32 where "CONNECTED_FLAG = 0x00000004"
definition USING_OTAA_FLAG :: u32 where "USING_OTAA_FLAG = 0x00000008"
definition TX_DONE_FLAG :: u32 where "TX_DONE_FLAG = 0x00000010"
definition CONN_IN_PROGRESS_FLAG :: u32 where "CONN_IN_PROGRESS_FLAG = 0x00000020"
definition REJOIN_IN_PROGRESS :: u32 where "REJOIN_IN_PROGRESS = 0x00000040"

definition MSG_FLAG_MASK :: u32 where "MSG_FLAG_MASK = 0x0F"

text \<open>The message flags, with the values the header comments give.\<close>

definition MSG_UNCONFIRMED_FLAG :: u32 where "MSG_UNCONFIRMED_FLAG = 0x01"
definition MSG_CONFIRMED_FLAG :: u32 where "MSG_CONFIRMED_FLAG = 0x02"
definition MSG_MULTICAST_FLAG :: u32 where "MSG_MULTICAST_FLAG = 0x04"
definition MSG_PROPRIETARY_FLAG :: u32 where "MSG_PROPRIETARY_FLAG = 0x08"

text \<open>\<^verbatim>\<open>_ctrl_flags & F\<close> used as a condition.\<close>

definition flag_set :: "u32 \<Rightarrow> u32 \<Rightarrow> bool" where
  "flag_set f w = (w AND f \<noteq> 0)"

subsection \<open>Calling the MAC, queueing events\<close>

definition mac_do :: "env \<Rightarrow> mac_call \<Rightarrow> lorawan_stack \<Rightarrow> lorawan_stack" where
  "mac_do E c s = s\<lparr>loramac := mac_effect E c (loramac s), mac_log := mac_log s @ [c]\<rparr>"

definition enqueue :: "queued_call \<Rightarrow> lorawan_stack \<Rightarrow> lorawan_stack" where
  "enqueue c s = s\<lparr>queue := queue s @ [c]\<rparr>"

definition send_event_to_application :: "lorawan_event \<Rightarrow> lorawan_stack \<Rightarrow> lorawan_stack" where
  "send_event_to_application event s =
     (if callbacks_events s then enqueue (App_event event) s else s)"


subsection \<open>Metadata\<close>

definition make_tx_metadata_available :: "lorawan_stack \<Rightarrow> lorawan_stack" where
  "make_tx_metadata_available s =
     (let c = get_mcps_confirmation (loramac s) in
      s\<lparr>tx_metadata :=
          \<lparr>tx_stale = False,
           txm_channel = conf_channel c,
           txm_data_rate = conf_data_rate c,
           txm_tx_power = tx_power c,
           txm_tx_toa = tx_toa c,
           txm_nb_retries = nb_retries c\<rparr>\<rparr>)"

definition make_rx_metadata_available :: "lorawan_stack \<Rightarrow> lorawan_stack" where
  "make_rx_metadata_available s =
     (let i = get_mcps_indication (loramac s) in
      s\<lparr>rx_metadata :=
          \<lparr>rx_stale = False,
           rxm_rx_datarate = rx_datarate i,
           rxm_rssi = rssi i,
           rxm_snr = snr i,
           rxm_channel = ind_channel i,
           rxm_rx_toa = rx_toa i\<rparr>\<rparr>)"

text \<open>
  The metadata is written through the reference argument only on success; the model
  returns \<open>Some\<close> of the copy then, and \<open>None\<close> when the argument is left alone.
\<close>

definition acquire_tx_metadata ::
  "lorawan_stack \<Rightarrow> (lorawan_status \<times> lorawan_tx_metadata option) \<times> lorawan_stack" where
  "acquire_tx_metadata s =
     (if device_current_state s = DEVICE_STATE_NOT_INITIALIZED then
        ((LORAWAN_STATUS_NOT_INITIALIZED, None), s)
      else if \<not> tx_stale (tx_metadata s) then
        ((LORAWAN_STATUS_OK, Some (tx_metadata s)),
         s\<lparr>tx_metadata := (tx_metadata s)\<lparr>tx_stale := True\<rparr>\<rparr>)
      else ((LORAWAN_STATUS_METADATA_NOT_AVAILABLE, None), s))"

definition acquire_rx_metadata ::
  "lorawan_stack \<Rightarrow> (lorawan_status \<times> lorawan_rx_metadata option) \<times> lorawan_stack" where
  "acquire_rx_metadata s =
     (if device_current_state s = DEVICE_STATE_NOT_INITIALIZED then
        ((LORAWAN_STATUS_NOT_INITIALIZED, None), s)
      else if \<not> rx_stale (rx_metadata s) then
        ((LORAWAN_STATUS_OK, Some (rx_metadata s)),
         s\<lparr>rx_metadata := (rx_metadata s)\<lparr>rx_stale := True\<rparr>\<rparr>)
      else ((LORAWAN_STATUS_METADATA_NOT_AVAILABLE, None), s))"

subsection \<open>Ports\<close>

definition is_port_valid :: "env \<Rightarrow> u8 \<Rightarrow> bool \<Rightarrow> bool" where
  "is_port_valid E p allow_port_0 =
     (if p = 0 then allow_port_0
      else if p = COMPLIANCE_TESTING_PORT then
        (if \<not> LORAWAN_COMPLIANCE_TEST E then False else True)
      else True)"

definition set_application_port ::
  "env \<Rightarrow> u8 \<Rightarrow> bool \<Rightarrow> lorawan_stack \<Rightarrow> lorawan_status \<times> lorawan_stack" where
  "set_application_port E p allow_port_0 s =
     (if is_port_valid E p allow_port_0 then (LORAWAN_STATUS_OK, s\<lparr>app_port := p\<rparr>)
      else (LORAWAN_STATUS_PORT_INVALID, s))"

subsection \<open>The constructor\<close>

definition zero_mcps_indication :: loramac_mcps_indication where
  "zero_mcps_indication =
     \<lparr>ind_type = MCPS_UNCONFIRMED, ind_status = LORAMAC_EVENT_INFO_STATUS_OK,
      ind_pending = False, is_data_recvd = False, is_ack_recvd = False,
      fpending_status = False, port = 0, buffer = None, buffer_size = 0,
      dl_frame_counter = 0, rx_datarate = 0, rssi = 0, snr = 0, ind_channel = 0,
      rx_toa = 0\<rparr>"

text \<open>
  \<open>m\<close> is the freshly constructed MAC. \<^verbatim>\<open>_tx_timestamp\<close> and \<^verbatim>\<open>_rx_timestamp\<close> are
  not in the initialiser list; \<open>t0\<close> stands for what they hold.
\<close>

definition LoRaWANStack :: "env \<Rightarrow> loramac \<Rightarrow> u32 \<Rightarrow> lorawan_stack" where
  "LoRaWANStack E m t0 =
     \<lparr>loramac = m,
      mac_log = [],
      queue = [],
      callbacks_events = False,
      callbacks_link_check_resp = False,
      device_current_state = DEVICE_STATE_NOT_INITIALIZED,
      lw_session = \<lparr>active = False, downlink_counter = 0, uplink_counter = 0\<rparr>,
      rx_msg = \<lparr>receive_ready = False, mcps_indication = zero_mcps_indication,
                prev_read_size = 0, pending_size = 0\<rparr>,
      tx_metadata = \<lparr>tx_stale = True, txm_channel = 0, txm_data_rate = 0,
                     txm_tx_power = 0, txm_tx_toa = 0, txm_nb_retries = 0\<rparr>,
      rx_metadata = \<lparr>rx_stale = True, rxm_rx_datarate = 0, rxm_rssi = 0, rxm_snr = 0,
                     rxm_channel = 0, rxm_rx_toa = 0\<rparr>,
      num_retry = 1,
      qos_cnt = 1,
      ctrl_flags = IDLE_FLAG,
      app_port =
        (case MBED_CONF_LORA_APP_PORT E of
           None \<Rightarrow> INVALID_PORT
         | Some p \<Rightarrow> if is_port_valid E p False then p else INVALID_PORT),
      link_check_requested = False,
      reset_ind_requested = False,
      rekey_ind_needed = False,
      rekey_ind_counter = 0,
      device_mode_ind_needed = False,
      device_mode_ind_ongoing = False,
      new_class_type = CLASS_A,
      automatic_uplink_ongoing = False,
      rx_payload_in_use = False,
      rejoin_type1_send_period = MBED_CONF_LORA_REJOIN_TYPE1_SEND_PERIOD E,
      rejoin_type1_stamp = 0,
      rejoin_type0_counter = 0,
      forced_datarate = 0,
      forced_period = 0,
      forced_retry_count = 0,
      forced_rejoin_type = REJOIN_REQUEST_TYPE0,
      forced_counter = 0,
      ping_slot_info_requested = False,
      device_time_requested = False,
      last_beacon_rx_time = 0,
      tx_timestamp = t0,
      rx_timestamp = t0,
      rand_calls = 0\<rparr>"

subsection \<open>Receiving: handle_rx\<close>

definition convert_to_msg_flag :: "mcps_type \<Rightarrow> u32" where
  "convert_to_msg_flag t =
     (case t of
        MCPS_UNCONFIRMED \<Rightarrow> MSG_UNCONFIRMED_FLAG
      | MCPS_CONFIRMED \<Rightarrow> MSG_CONFIRMED_FLAG
      | MCPS_MULTICAST \<Rightarrow> MSG_MULTICAST_FLAG
      | MCPS_PROPRIETARY \<Rightarrow> MSG_PROPRIETARY_FLAG)"

text \<open>\<^verbatim>\<open>memcpy(data, base_ptr + off, n)\<close>: the bytes that are copied.\<close>

definition memcpy_from :: "u8 list option \<Rightarrow> u16 \<Rightarrow> u16 \<Rightarrow> u8 list" where
  "memcpy_from base_ptr off n =
     (case base_ptr of None \<Rightarrow> [] | Some bs \<Rightarrow> take (unat n) (drop (unat off) bs))"

text \<open>
  \<open>handle_rx data_null len p flags validate_params s\<close>: \<open>data_null\<close> says that the
  pointer \<^verbatim>\<open>data\<close> is \<^verbatim>\<open>NULL\<close>, \<open>len\<close> is the argument \<^verbatim>\<open>length\<close>. The result
  is the return value, the bytes written to \<^verbatim>\<open>data\<close>, the values left in the
  reference arguments \<^verbatim>\<open>port\<close> and \<^verbatim>\<open>flags\<close>, and the new state.
\<close>

definition handle_rx ::
  "bool \<Rightarrow> u16 \<Rightarrow> u8 \<Rightarrow> u32 \<Rightarrow> bool \<Rightarrow> lorawan_stack
     \<Rightarrow> (retval \<times> u8 list \<times> u8 \<times> u32) \<times> lorawan_stack" where
  "handle_rx data_null len p flags validate_params s =
     (if device_current_state s = DEVICE_STATE_NOT_INITIALIZED then
        ((Status LORAWAN_STATUS_NOT_INITIALIZED, [], p, flags), s)
      else if \<not> active (lw_session s) then
        ((Status LORAWAN_STATUS_NO_ACTIVE_SESSIONS, [], p, flags), s)
      else if \<not> receive_ready (rx_msg s) then
        ((Status LORAWAN_STATUS_WOULD_BLOCK, [], p, flags), s)
      else if data_null \<or> len = 0 then
        ((Status LORAWAN_STATUS_PARAMETER_INVALID, [], p, flags), s)
      else
        (let r = rx_msg s;
             ind = mcps_indication r;
             received_flags0 = convert_to_msg_flag (ind_type ind);
             received_flags =
               (if validate_params then received_flags0 AND MSG_FLAG_MASK else received_flags0)
         in
         if validate_params \<and> port ind \<noteq> p then
           ((Status LORAWAN_STATUS_WOULD_BLOCK, [], p, flags), s)
         else if validate_params \<and> flags AND received_flags = 0 then
           ((Status LORAWAN_STATUS_WOULD_BLOCK, [], p, flags), s)
         else
           (let base_ptr = buffer ind;
                base_size = buffer_size ind;
                r1 = (if pending_size r = 0
                      then r\<lparr>pending_size := buffer_size ind, prev_read_size := 0\<rparr>
                      else r);
                (written, base_size', read_complete, r2) =
                  (if prev_read_size r1 = 0 \<and> buffer_size ind \<le> len then
                     (memcpy_from base_ptr 0 base_size, base_size, True, r1)
                   else if pending_size r1 > len then
                     (memcpy_from base_ptr (prev_read_size r1) len, len, False,
                      r1\<lparr>pending_size := pending_size r1 - len,
                         prev_read_size := prev_read_size r1 + len\<rparr>)
                   else
                     (memcpy_from base_ptr (prev_read_size r1) (pending_size r1),
                      pending_size r1, True, r1));
                r3 = (if read_complete then
                        r2\<lparr>mcps_indication := (mcps_indication r2)\<lparr>buffer := None, buffer_size := 0\<rparr>,
                           pending_size := 0,
                           receive_ready := False\<rparr>
                      else r2)
            in ((Count (sint base_size'), written, port ind, received_flags),
                s\<lparr>rx_msg := r3\<rparr>))))"

subsection \<open>Handlers of MCPS confirmations and indications\<close>

definition mcps_confirm_handler :: "lorawan_stack \<Rightarrow> lorawan_stack" where
  "mcps_confirm_handler s =
     (case conf_status (get_mcps_confirmation (loramac s)) of
        LORAMAC_EVENT_INFO_STATUS_OK \<Rightarrow>
          send_event_to_application TX_DONE
            (s\<lparr>lw_session := (lw_session s)\<lparr>uplink_counter :=
                  ul_frame_counter (get_mcps_confirmation (loramac s))\<rparr>\<rparr>)
      | LORAMAC_EVENT_INFO_STATUS_TX_TIMEOUT \<Rightarrow> send_event_to_application TX_TIMEOUT s
      | LORAMAC_EVENT_INFO_STATUS_TX_DR_PAYLOAD_SIZE_ERROR \<Rightarrow>
          send_event_to_application TX_SCHEDULING_ERROR s
      | _ \<Rightarrow> send_event_to_application TX_ERROR s)"

definition mcps_indication_handler :: "env \<Rightarrow> lorawan_stack \<Rightarrow> lorawan_stack" where
  "mcps_indication_handler E s =
     (let ind = get_mcps_indication (loramac s) in
      if ind_status ind \<noteq> LORAMAC_EVENT_INFO_STATUS_OK then
        send_event_to_application RX_ERROR s
      else
        (let s1 = s\<lparr>lw_session := (lw_session s)\<lparr>downlink_counter := dl_frame_counter ind\<rparr>\<rparr>
         in
         if port ind = COMPLIANCE_TESTING_PORT \<and> \<not> LORAWAN_COMPLIANCE_TEST E then s1
         else
           (let s2 =
                  (if is_data_recvd ind then
                     send_event_to_application RX_DONE
                       (s1\<lparr>rx_msg := (rx_msg s1)
                            \<lparr>mcps_indication := (mcps_indication (rx_msg s1))
                               \<lparr>buffer_size := buffer_size ind,
                                port := port ind,
                                buffer := buffer ind,
                                ind_type := ind_type ind\<rparr>,
                             receive_ready := True\<rparr>\<rparr>)
                   else s1)
            in
            if (get_device_class (loramac s2) \<noteq> CLASS_C \<and> fpending_status ind)
               \<or> (get_device_class (loramac s2) = CLASS_C \<and> ind_type ind = MCPS_CONFIRMED)
            then
              (if MBED_CONF_LORA_AUTOMATIC_UPLINK_MESSAGE E then
                 (if \<not> automatic_uplink_ongoing s2 then
                    enqueue (Call_send_automatic_uplink_message (port ind))
                      (s2\<lparr>automatic_uplink_ongoing := True\<rparr>)
                  else s2)
               else send_event_to_application UPLINK_REQUIRED s2)
            else s2)))"

subsection \<open>The state controller\<close>

definition state_machine_run_to_completion :: "lorawan_stack \<Rightarrow> lorawan_stack" where
  "state_machine_run_to_completion s =
     (if get_device_class (loramac s) = CLASS_C
      then s\<lparr>device_current_state := DEVICE_STATE_RECEIVING\<rparr>
      else s\<lparr>device_current_state := DEVICE_STATE_IDLE\<rparr>)"

definition drop_channel_list :: "env \<Rightarrow> lorawan_stack \<Rightarrow> lorawan_status \<times> lorawan_stack" where
  "drop_channel_list E s =
     (if device_current_state s = DEVICE_STATE_NOT_INITIALIZED
      then (LORAWAN_STATUS_NOT_INITIALIZED, s)
      else (mac_status E Remove_channel_plan (loramac s), mac_do E Remove_channel_plan s))"

definition process_shutdown_state :: "env \<Rightarrow> lorawan_stack \<Rightarrow> lorawan_status \<times> lorawan_stack" where
  "process_shutdown_state E s =
     (let s1 = snd (drop_channel_list E s);
          s2 = mac_do E Disconnect s1;
          s3 = s2\<lparr>lw_session := (lw_session s2)\<lparr>active := False\<rparr>,
                  device_current_state := DEVICE_STATE_SHUTDOWN,
                  ctrl_flags := 0\<rparr>
      in (LORAWAN_STATUS_DEVICE_OFF, send_event_to_application DISCONNECTED s3))"

definition process_status_check_state :: "env \<Rightarrow> lorawan_stack \<Rightarrow> lorawan_stack" where
  "process_status_check_state E s =
     (if device_current_state s = DEVICE_STATE_SENDING
         \<or> device_current_state s = DEVICE_STATE_AWAITING_ACK then
        mcps_confirm_handler
          (mac_do E Reset_ongoing_tx
            (mac_do E (Set_tx_ongoing False)
              (s\<lparr>ctrl_flags := ctrl_flags s AND NOT TX_DONE_FLAG\<rparr>)))
      else if device_current_state s = DEVICE_STATE_RECEIVING then
        (let s1 =
               (if flag_set TX_DONE_FLAG (ctrl_flags s)
                   \<or> flag_set RETRY_EXHAUSTED_FLAG (ctrl_flags s) then
                  (let s2 = mac_do E Reset_ongoing_tx
                              (mac_do E (Set_tx_ongoing False)
                                (s\<lparr>ctrl_flags := (ctrl_flags s AND NOT TX_DONE_FLAG)
                                                    AND NOT RETRY_EXHAUSTED_FLAG\<rparr>))
                   in if automatic_uplink_ongoing s2
                      then s2\<lparr>automatic_uplink_ongoing := False\<rparr>
                      else mcps_confirm_handler s2)
                else s)
         in if flag_set MSG_RECVD_FLAG (ctrl_flags s1)
            then mcps_indication_handler E (s1\<lparr>ctrl_flags := ctrl_flags s1 AND NOT MSG_RECVD_FLAG\<rparr>)
            else s1)
      else s)"

definition process_scheduling_state :: "env \<Rightarrow> lorawan_stack \<Rightarrow> lorawan_status \<times> lorawan_stack" where
  "process_scheduling_state E s =
     (if device_current_state s \<noteq> DEVICE_STATE_IDLE
         \<and> device_current_state s \<noteq> DEVICE_STATE_RECEIVING
         \<and> get_device_class (loramac s) \<noteq> CLASS_C then
        (LORAWAN_STATUS_BUSY, s)
      else
        (let op_status = mac_status E Send_ongoing_tx (loramac s);
             s1 = mac_do E Send_ongoing_tx s
         in if op_status = LORAWAN_STATUS_OK then
              (op_status,
               (mac_do E (Set_tx_ongoing True) (s1\<lparr>ctrl_flags := ctrl_flags s1 AND NOT TX_DONE_FLAG\<rparr>))
                 \<lparr>device_current_state := DEVICE_STATE_SENDING\<rparr>)
            else (op_status, s1)))"

text \<open>
  \<open>process_joining_state\<close> leaves \<^verbatim>\<open>op_status\<close> alone on all paths but the first; the
  argument \<open>st\<close> is the value it holds on entry.
\<close>

definition process_joining_state ::
  "env \<Rightarrow> lorawan_status \<Rightarrow> lorawan_stack \<Rightarrow> lorawan_status \<times> lorawan_stack" where
  "process_joining_state E st s =
     (if device_current_state s = DEVICE_STATE_CONNECTING then
        (mac_status E (Join True) (loramac s),
         mac_do E (Join True) (s\<lparr>device_current_state := DEVICE_STATE_JOINING\<rparr>))
      else if device_current_state s = DEVICE_STATE_AWAITING_JOIN_ACCEPT
              \<and> get_current_slot (loramac s) \<noteq> RX_SLOT_WIN_1 then
        (let s1 = s\<lparr>device_current_state := DEVICE_STATE_JOINING\<rparr>;
             can_continue = mac_bool E Continue_joining_process (loramac s1);
             s2 = mac_do E Continue_joining_process s1
         in if \<not> can_continue then
              (st, (send_event_to_application JOIN_FAILURE
                      (s2\<lparr>ctrl_flags := ctrl_flags s2 AND NOT CONN_IN_PROGRESS_FLAG\<rparr>))
                    \<lparr>device_current_state := DEVICE_STATE_IDLE\<rparr>)
            else (st, s2))
      else (st, s))"

definition process_connected_state :: "lorawan_stack \<Rightarrow> lorawan_stack" where
  "process_connected_state s =
     (let s1 = s\<lparr>ctrl_flags := (ctrl_flags s OR CONNECTED_FLAG) AND NOT CONN_IN_PROGRESS_FLAG\<rparr>;
          s2 = s1\<lparr>lw_session := (lw_session s1)\<lparr>active := True\<rparr>\<rparr>
      in (send_event_to_application CONNECTED s2)\<lparr>device_current_state := DEVICE_STATE_IDLE\<rparr>)"

text \<open>
  The assertion that the state is \<^verbatim>\<open>IDLE\<close> or \<^verbatim>\<open>SHUTDOWN\<close> on entry is a comment of the
  model: it compiles to nothing in release builds.
\<close>

definition process_connecting_state ::
  "env \<Rightarrow> lorawan_status \<Rightarrow> lorawan_stack \<Rightarrow> lorawan_status \<times> lorawan_stack" where
  "process_connecting_state E st s =
     (let s1 = s\<lparr>device_current_state := DEVICE_STATE_CONNECTING\<rparr> in
      if flag_set USING_OTAA_FLAG (ctrl_flags s1) then process_joining_state E st s1
      else (mac_status E (Join False) (loramac s1),
            process_connected_state (mac_do E (Join False) s1)))"

definition process_uninitialized_state :: "env \<Rightarrow> lorawan_stack \<Rightarrow> lorawan_status \<times> lorawan_stack" where
  "process_uninitialized_state E s =
     (let op_status = mac_status E Initialize (loramac s);
          s1 = mac_do E Initialize s;
          s2 = (if op_status = LORAWAN_STATUS_OK
                then s1\<lparr>device_current_state := DEVICE_STATE_IDLE\<rparr> else s1)
      in if MBED_CONF_LORA_VERSION_1_1 E then
           (let s3 = mac_do E (Timer_init Rejoin_type0_timer) (mac_do E (Timer_init Forced_timer) s2)
            in (op_status, s3\<lparr>rejoin_type1_stamp := get_current_time (loramac s3) div 1000\<rparr>))
         else (op_status, s2))"

definition process_idle_state :: "env \<Rightarrow> lorawan_stack \<Rightarrow> lorawan_status \<times> lorawan_stack" where
  "process_idle_state E s =
     (if device_current_state s = DEVICE_STATE_NOT_INITIALIZED then
        process_uninitialized_state E (s\<lparr>device_current_state := DEVICE_STATE_IDLE\<rparr>)
      else (LORAWAN_STATUS_OK, s\<lparr>device_current_state := DEVICE_STATE_IDLE\<rparr>))"

text \<open>
  \<open>state_controller\<close>: the status starts as \<^verbatim>\<open>LORAWAN_STATUS_OK\<close>. The default branch
  (an assertion that fails) is reached for no argument the stack passes.
\<close>

definition state_controller ::
  "env \<Rightarrow> device_states \<Rightarrow> lorawan_stack \<Rightarrow> lorawan_status \<times> lorawan_stack" where
  "state_controller E new_state s =
     (case new_state of
        DEVICE_STATE_IDLE \<Rightarrow> process_idle_state E s
      | DEVICE_STATE_CONNECTING \<Rightarrow> process_connecting_state E LORAWAN_STATUS_OK s
      | DEVICE_STATE_JOINING \<Rightarrow> process_joining_state E LORAWAN_STATUS_OK s
      | DEVICE_STATE_CONNECTED \<Rightarrow> (LORAWAN_STATUS_OK, process_connected_state s)
      | DEVICE_STATE_SCHEDULING \<Rightarrow> process_scheduling_state E s
      | DEVICE_STATE_STATUS_CHECK \<Rightarrow> (LORAWAN_STATUS_OK, process_status_check_state E s)
      | DEVICE_STATE_SHUTDOWN \<Rightarrow> process_shutdown_state E s
      | _ \<Rightarrow> (LORAWAN_STATUS_OK, s))"

subsection \<open>The public methods of the stack\<close>

text \<open>\<open>queue_null\<close> says that the pointer \<^verbatim>\<open>queue\<close> is \<^verbatim>\<open>NULL\<close>.\<close>

definition initialize_mac_layer ::
  "env \<Rightarrow> bool \<Rightarrow> lorawan_stack \<Rightarrow> lorawan_status \<times> lorawan_stack" where
  "initialize_mac_layer E queue_null s =
     (if queue_null then (LORAWAN_STATUS_PARAMETER_INVALID, s)
      else state_controller E DEVICE_STATE_IDLE s)"

text \<open>
  \<open>set_lora_callbacks\<close>: \<open>cb\<close> is \<open>None\<close> for a \<^verbatim>\<open>NULL\<close> argument, and otherwise says which
  of the callbacks \<^verbatim>\<open>events\<close> and \<^verbatim>\<open>link_check_resp\<close> the structure holds. The battery
  level callback is left out.
\<close>

definition set_lora_callbacks ::
  "(bool \<times> bool) option \<Rightarrow> lorawan_stack \<Rightarrow> lorawan_status \<times> lorawan_stack" where
  "set_lora_callbacks cb s =
     (if device_current_state s = DEVICE_STATE_NOT_INITIALIZED then
        (LORAWAN_STATUS_NOT_INITIALIZED, s)
      else
        (case cb of
           None \<Rightarrow> (LORAWAN_STATUS_PARAMETER_INVALID, s)
         | Some (events, link_check_resp) \<Rightarrow>
             if \<not> events then (LORAWAN_STATUS_PARAMETER_INVALID, s)
             else (LORAWAN_STATUS_OK,
                   s\<lparr>callbacks_events := True,
                      callbacks_link_check_resp :=
                        (if link_check_resp then True else callbacks_link_check_resp s)\<rparr>)))"

definition handle_connect :: "env \<Rightarrow> bool \<Rightarrow> lorawan_stack \<Rightarrow> lorawan_status \<times> lorawan_stack" where
  "handle_connect E is_otaa s =
     (let s1 = s\<lparr>ctrl_flags := ctrl_flags s OR CONN_IN_PROGRESS_FLAG\<rparr>;
          s2 = (if is_otaa then
                  s1\<lparr>lw_session := (lw_session s1)\<lparr>downlink_counter := 0, uplink_counter := 0\<rparr>,
                     ctrl_flags := ctrl_flags s1 OR USING_OTAA_FLAG\<rparr>
                else
                  (if MBED_CONF_LORA_VERSION_1_1 E
                   then s1\<lparr>reset_ind_requested := True\<rparr> else s1)
                    \<lparr>ctrl_flags := ctrl_flags s1 AND NOT USING_OTAA_FLAG\<rparr>)
      in state_controller E DEVICE_STATE_CONNECTING s2)"

text \<open>\<open>connect()\<close>, without argument: the activation of the configuration.\<close>

definition connect :: "env \<Rightarrow> lorawan_stack \<Rightarrow> lorawan_status \<times> lorawan_stack" where
  "connect E s =
     (if device_current_state s = DEVICE_STATE_NOT_INITIALIZED then
        (LORAWAN_STATUS_NOT_INITIALIZED, s)
      else if flag_set CONN_IN_PROGRESS_FLAG (ctrl_flags s) then (LORAWAN_STATUS_BUSY, s)
      else if flag_set CONNECTED_FLAG (ctrl_flags s) then (LORAWAN_STATUS_ALREADY_CONNECTED, s)
      else
        (let c = Prepare_join None (MBED_CONF_LORA_OVER_THE_AIR_ACTIVATION E);
             status = mac_status E c (loramac s);
             s1 = mac_do E c s
         in if status \<noteq> LORAWAN_STATUS_OK then (status, s1)
            else handle_connect E (MBED_CONF_LORA_OVER_THE_AIR_ACTIVATION E) s1))"

text \<open>\<open>connect(const lorawan_connect_t &)\<close>; of the argument, the stack reads \<^verbatim>\<open>connect_type\<close>.\<close>

definition connect_with ::
  "env \<Rightarrow> lorawan_connect_type \<Rightarrow> lorawan_stack \<Rightarrow> lorawan_status \<times> lorawan_stack" where
  "connect_with E connect_type s =
     (if device_current_state s = DEVICE_STATE_NOT_INITIALIZED then
        (LORAWAN_STATUS_NOT_INITIALIZED, s)
      else if flag_set CONN_IN_PROGRESS_FLAG (ctrl_flags s) then (LORAWAN_STATUS_BUSY, s)
      else if flag_set CONNECTED_FLAG (ctrl_flags s) then (LORAWAN_STATUS_ALREADY_CONNECTED, s)
      else if connect_type \<noteq> LORAWAN_CONNECTION_OTAA \<and> connect_type \<noteq> LORAWAN_CONNECTION_ABP then
        (LORAWAN_STATUS_PARAMETER_INVALID, s)
      else
        (let is_otaa = (connect_type = LORAWAN_CONNECTION_OTAA);
             c = Prepare_join (Some connect_type) is_otaa;
             status = mac_status E c (loramac s);
             s1 = mac_do E c s
         in if status \<noteq> LORAWAN_STATUS_OK then (status, s1)
            else handle_connect E is_otaa s1))"

definition shutdown :: "env \<Rightarrow> lorawan_stack \<Rightarrow> lorawan_status \<times> lorawan_stack" where
  "shutdown E s =
     (if device_current_state s = DEVICE_STATE_NOT_INITIALIZED then
        (LORAWAN_STATUS_NOT_INITIALIZED, s)
      else state_controller E DEVICE_STATE_SHUTDOWN s)"

definition set_reset_indication :: "env \<Rightarrow> lorawan_stack \<Rightarrow> lorawan_stack" where
  "set_reset_indication E s = mac_do E Setup_reset_indication s"

definition set_rekey_indication :: "env \<Rightarrow> lorawan_stack \<Rightarrow> lorawan_stack" where
  "set_rekey_indication E s = mac_do E Setup_rekey_indication s"

definition set_device_mode_indication :: "env \<Rightarrow> lorawan_stack \<Rightarrow> lorawan_stack" where
  "set_device_mode_indication E s = mac_do E (Setup_device_mode_indication (new_class_type s)) s"

text \<open>
  \<open>handle_tx p data len flags null_allowed allow_port_0\<close>: \<open>data\<close> is \<open>None\<close> for a
  \<^verbatim>\<open>NULL\<close> pointer, \<open>len\<close> is the argument \<^verbatim>\<open>length\<close>. The body is in three parts:
  the checks of the state, the data pointer and the rejoin flag; \<open>stage_indications\<close>,
  the code that stages ResetInd or RekeyInd and DeviceModeInd; and \<open>schedule_tx\<close>, the
  code from the check of the session to the end.
\<close>

definition stage_indications :: "env \<Rightarrow> lorawan_stack \<Rightarrow> lorawan_stack" where
  "stage_indications E s =
     (let s1 =
            (if reset_ind_requested s then set_reset_indication E s
             else if rekey_ind_needed s then
               (if ucast (rekey_ind_counter s) < get_current_adr_ack_limit (loramac s) then
                  (let t = set_rekey_indication E s
                   in t\<lparr>rekey_ind_counter := rekey_ind_counter t + 1\<rparr>)
                else
                  (send_event_to_application JOIN_FAILURE (s\<lparr>rekey_ind_needed := False\<rparr>))
                    \<lparr>device_current_state := DEVICE_STATE_IDLE\<rparr>)
             else s)
      in if device_mode_ind_needed s1 then set_device_mode_indication E s1 else s1)"

definition schedule_tx ::
  "env \<Rightarrow> u8 \<Rightarrow> u8 list option \<Rightarrow> u16 \<Rightarrow> u8 \<Rightarrow> bool \<Rightarrow> lorawan_stack
     \<Rightarrow> retval \<times> lorawan_stack" where
  "schedule_tx E p data len flags allow_port_0 s2 =
     (if \<not> active (lw_session s2) then (Status LORAWAN_STATUS_NO_ACTIVE_SESSIONS, s2)
      else if tx_ongoing (loramac s2) then (Status LORAWAN_STATUS_WOULD_BLOCK, s2)
      else
        (let s3 = (if link_check_requested s2 then mac_do E Setup_link_check_request s2 else s2);
             s4 = (if device_time_requested s3 then mac_do E Setup_device_time_request s3 else s3);
             s5 = (if ping_slot_info_requested s4 then mac_do E Add_ping_slot_info_req s4 else s4);
             s6 = s5\<lparr>qos_cnt := 1\<rparr>
         in
         if \<not> nwk_joined (loramac s6) then (Status LORAWAN_STATUS_NO_NETWORK_JOINED, s6)
         else
           (case set_application_port E p allow_port_0 s6 of
              (status, s7) \<Rightarrow>
                if status \<noteq> LORAWAN_STATUS_OK then (Status status, s7)
                else if ucast flags AND MSG_FLAG_MASK = MSG_UNCONFIRMED_FLAG
                        \<or> ucast flags AND MSG_FLAG_MASK = MSG_CONFIRMED_FLAG
                        \<or> ucast flags AND MSG_FLAG_MASK = MSG_PROPRIETARY_FLAG then
                  (let c = Prepare_ongoing_tx p data len flags (num_retry s7);
                       n = mac_len E c (loramac s7);
                       s8 = mac_do E c s7
                   in case state_controller E DEVICE_STATE_SCHEDULING s8 of
                        (status', s9) \<Rightarrow>
                          (if status' = LORAWAN_STATUS_OK then Count n else Status status', s9))
                else (Status LORAWAN_STATUS_PARAMETER_INVALID, s7))))"

definition handle_tx ::
  "env \<Rightarrow> u8 \<Rightarrow> u8 list option \<Rightarrow> u16 \<Rightarrow> u8 \<Rightarrow> bool \<Rightarrow> bool \<Rightarrow> lorawan_stack
     \<Rightarrow> retval \<times> lorawan_stack" where
  "handle_tx E p data len flags null_allowed allow_port_0 s =
     (if device_current_state s = DEVICE_STATE_NOT_INITIALIZED then
        (Status LORAWAN_STATUS_NOT_INITIALIZED, s)
      else if \<not> null_allowed \<and> data = None then
        (Status LORAWAN_STATUS_PARAMETER_INVALID, s)
      else if DEVICE_STATE_NOT_INITIALIZED = device_current_state s then
        (Status LORAWAN_STATUS_NOT_INITIALIZED, s)
      else if flag_set REJOIN_IN_PROGRESS (ctrl_flags s) then
        (Status LORAWAN_STATUS_BUSY, s)
      else schedule_tx E p data len flags allow_port_0 (stage_indications E s))"

definition set_device_class ::
  "env \<Rightarrow> device_class \<Rightarrow> lorawan_stack \<Rightarrow> lorawan_status \<times> lorawan_stack" where
  "set_device_class E dc s =
     (if device_current_state s = DEVICE_STATE_NOT_INITIALIZED then
        (LORAWAN_STATUS_NOT_INITIALIZED, s)
      else if get_device_class (loramac s) \<noteq> dc then
        (if get_server_type (loramac s) = LW1_1 \<and> dc \<noteq> CLASS_B then
           (LORAWAN_STATUS_OK,
            s\<lparr>new_class_type := dc, device_mode_ind_needed := True,
               device_mode_ind_ongoing := True\<rparr>)
         else (mac_status E (Set_device_class dc) (loramac s), mac_do E (Set_device_class dc) s))
      else (LORAWAN_STATUS_OK, s))"

subsection \<open>Rejoin\<close>

definition process_rejoin :: "env \<Rightarrow> join_req_type \<Rightarrow> bool \<Rightarrow> lorawan_stack \<Rightarrow> lorawan_stack" where
  "process_rejoin E rtype is_forced s =
     (if get_server_type (loramac s) = LW1_1 then
        (let s1 = mac_do E (Rejoin rtype is_forced (forced_datarate s)) s in
         if rtype = REJOIN_REQUEST_TYPE0 then
           (let s2 = (mac_do E (Timer_stop Rejoin_type0_timer) s1)\<lparr>rejoin_type0_counter := 0\<rparr>;
                max_time = get_rejoin_max_time (loramac s2)
            in mac_do E (Timer_start Rejoin_type0_timer (max_time * 1000)) s2)
         else s1)
      else s)"

definition reset_forced_rejoin :: "env \<Rightarrow> lorawan_stack \<Rightarrow> lorawan_stack" where
  "reset_forced_rejoin E s = mac_do E (Timer_stop Forced_timer) (s\<lparr>forced_counter := 0\<rparr>)"

definition forced_timer_expiry :: "env \<Rightarrow> lorawan_stack \<Rightarrow> lorawan_stack" where
  "forced_timer_expiry E s =
     (if get_server_type (loramac s) = LW1_1 then
        (if forced_counter s < forced_retry_count s then
           (let s1 = process_rejoin E (forced_rejoin_type s) True s
            in mac_do E (Timer_start Forced_timer (forced_period s1)) s1)
         else reset_forced_rejoin E s)
      else s)"

definition process_rejoin_type0 :: "env \<Rightarrow> lorawan_stack \<Rightarrow> lorawan_stack" where
  "process_rejoin_type0 E s =
     (if get_server_type (loramac s) = LW1_1
      then process_rejoin E REJOIN_REQUEST_TYPE0 False s else s)"

definition poll_rejoin :: "env \<Rightarrow> lorawan_stack \<Rightarrow> lorawan_stack" where
  "poll_rejoin E s =
     (if flag_set REJOIN_IN_PROGRESS (ctrl_flags s) then s
      else if get_current_time (loramac s) div 1000 - rejoin_type1_stamp s
                > rejoin_type1_send_period s then
        enqueue (Call_process_rejoin REJOIN_REQUEST_TYPE1 False)
          (s\<lparr>ctrl_flags := ctrl_flags s OR REJOIN_IN_PROGRESS,
             rejoin_type1_stamp := get_current_time (loramac s) div 1000\<rparr>)
      else
        (let max_count = get_rejoin_max_count (loramac s);
             s1 = (if rejoin_type0_counter s \<ge> max_count then
                     enqueue Call_process_rejoin_type0
                       (s\<lparr>rejoin_type0_counter := 0,
                          ctrl_flags := ctrl_flags s OR REJOIN_IN_PROGRESS\<rparr>)
                   else s)
         in s1\<lparr>rx_payload_in_use := False\<rparr>))"

subsection \<open>Handlers of MLME confirmations and indications\<close>

text \<open>
  In the branch of \<^verbatim>\<open>MLME_FORCE_REJOIN\<close> the period is computed in \<^verbatim>\<open>int\<close> and stored in
  a \<^verbatim>\<open>uint32_t\<close>; the model computes it in the naturals and reduces it to 32 bits.
\<close>

definition mlme_confirm_handler ::
  "env \<Rightarrow> loramac_mlme_confirm \<Rightarrow> lorawan_stack \<Rightarrow> lorawan_stack" where
  "mlme_confirm_handler E c s =
     (if mlme_type c = MLME_LINK_CHECK then
        (if mlme_status c = LORAMAC_EVENT_INFO_STATUS_OK \<and> callbacks_link_check_resp s
         then enqueue (Link_check_resp (demod_margin c) (nb_gateways c)) s else s)
      else if mlme_type c = MLME_RESET then s\<lparr>reset_ind_requested := False\<rparr>
      else if mlme_type c = MLME_REKEY then s\<lparr>rekey_ind_needed := False, rekey_ind_counter := 0\<rparr>
      else if mlme_type c = MLME_DEVICE_MODE then
        (let s1 = s\<lparr>device_mode_ind_needed := False\<rparr> in
         if get_device_class (loramac s1) = classType c
         then send_event_to_application SERVER_ACCEPTED_CLASS_IN_USE s1
         else send_event_to_application SERVER_DOES_NOT_SUPPORT_CLASS_IN_USE s1)
      else if mlme_type c = MLME_JOIN_ACCEPT then
        (case mlme_status c of
           LORAMAC_EVENT_INFO_STATUS_OK \<Rightarrow>
             (let s1 = (if get_server_type (loramac s) = LW1_1
                        then s\<lparr>rekey_ind_needed := True, rekey_ind_counter := 0\<rparr>
                        else mac_do E (Timer_stop Rejoin_type0_timer)
                               (mac_do E (Timer_stop Forced_timer) s))
              in snd (state_controller E DEVICE_STATE_CONNECTED s1))
         | LORAMAC_EVENT_INFO_STATUS_CRYPTO_FAIL \<Rightarrow>
             send_event_to_application CRYPTO_ERROR
               (s\<lparr>device_current_state := DEVICE_STATE_IDLE\<rparr>)
         | _ \<Rightarrow>
             if get_server_type (loramac s) = LW1_1 \<and> flag_set REJOIN_IN_PROGRESS (ctrl_flags s)
             then s
             else snd (state_controller E DEVICE_STATE_JOINING
                         (s\<lparr>device_current_state := DEVICE_STATE_AWAITING_JOIN_ACCEPT\<rparr>)))
      else if mlme_type c = MLME_FORCE_REJOIN then
        (if rejoin_type c \<le> REJOIN_REQUEST_TYPE2 \<and> get_server_type (loramac s) = LW1_1 then
           (let s1 = s\<lparr>forced_datarate := datarate c,
                       forced_period :=
                         of_nat ((2 ^ unat (period c) * 32 + rand E (rand_calls s) mod 33) * 1000),
                       rand_calls := Suc (rand_calls s),
                       forced_retry_count :=
                         (if max_retries c \<noteq> 0 then max_retries c + 1 else max_retries c),
                       forced_rejoin_type :=
                         (if rejoin_type c = REJOIN_REQUEST_TYPE1 then REJOIN_REQUEST_TYPE0
                          else rejoin_type c)\<rparr>;
                s2 = reset_forced_rejoin E s1;
                s3 = process_rejoin E (forced_rejoin_type s2) True s2
            in if forced_retry_count s3 \<noteq> 0
               then mac_do E (Timer_start Forced_timer (forced_period s3)) s3
               else s3)
         else s)
      else if mlme_type c = MLME_PING_SLOT_INFO then
        (if ping_slot_info_requested s
         then send_event_to_application PING_SLOT_INFO_SYNCHED (s\<lparr>ping_slot_info_requested := False\<rparr>)
         else s)
      else if mlme_type c = MLME_BEACON_ACQUISITION then
        (if mlme_status c = LORAMAC_EVENT_INFO_STATUS_OK
         then send_event_to_application BEACON_FOUND s
         else send_event_to_application BEACON_NOT_FOUND s)
      else s)"

definition mlme_indication_handler :: "env \<Rightarrow> lorawan_stack \<Rightarrow> lorawan_stack" where
  "mlme_indication_handler E s =
     (if indication_type (get_mlme_indication (loramac s)) = MLME_SCHEDULE_UPLINK then
        (if MBED_CONF_LORA_AUTOMATIC_UPLINK_MESSAGE E then
           enqueue (Call_send_automatic_uplink_message 0) (s\<lparr>automatic_uplink_ongoing := True\<rparr>)
         else send_event_to_application UPLINK_REQUIRED s)
      else s)"

subsection \<open>Processors for deferred interrupts\<close>

definition process_transmission_timeout :: "env \<Rightarrow> lorawan_stack \<Rightarrow> lorawan_stack" where
  "process_transmission_timeout E s =
     (let s1 = mac_do E On_radio_tx_timeout s;
          s2 = s1\<lparr>ctrl_flags := ctrl_flags s1 AND NOT TX_DONE_FLAG\<rparr>;
          s3 = (if device_current_state s2 = DEVICE_STATE_JOINING
                then send_event_to_application TX_TIMEOUT
                       (s2\<lparr>device_current_state := DEVICE_STATE_IDLE\<rparr>)
                else snd (state_controller E DEVICE_STATE_STATUS_CHECK s2))
      in state_machine_run_to_completion s3)"

definition process_transmission :: "env \<Rightarrow> lorawan_stack \<Rightarrow> lorawan_stack" where
  "process_transmission E s =
     (let s1 = make_tx_metadata_available s;
          s2 = (if device_current_state s1 = DEVICE_STATE_JOINING
                then s1\<lparr>device_current_state := DEVICE_STATE_AWAITING_JOIN_ACCEPT\<rparr> else s1);
          s3 = (if device_current_state s2 = DEVICE_STATE_SENDING
                   \<and> req_type (get_mcps_confirmation (loramac s2)) = MCPS_CONFIRMED
                then s2\<lparr>device_current_state := DEVICE_STATE_AWAITING_ACK\<rparr> else s2);
          s4 = mac_do E (On_radio_tx_done (tx_timestamp s3)) s3
      in if get_server_type (loramac s4) = LW1_1 \<and> device_mode_ind_ongoing s4 then
           send_event_to_application CLASS_CHANGED
             (mac_do E (Set_device_class (new_class_type s4))
                (s4\<lparr>device_mode_ind_ongoing := False\<rparr>))
         else s4)"

definition post_process_tx_with_reception :: "env \<Rightarrow> lorawan_stack \<Rightarrow> lorawan_stack" where
  "post_process_tx_with_reception E s =
     (if req_type (get_mcps_confirmation (loramac s)) = MCPS_CONFIRMED then
        (if is_ack_recvd (get_mcps_indication (loramac s)) then
           (let s1 = s\<lparr>ctrl_flags := (ctrl_flags s OR TX_DONE_FLAG) AND NOT RETRY_EXHAUSTED_FLAG\<rparr>;
                s2 = mac_do E Post_process_mcps_req s1;
                s3 = make_tx_metadata_available s2
            in snd (state_controller E DEVICE_STATE_STATUS_CHECK s3))
         else
           (let continue = mac_bool E Continue_sending_process (loramac s);
                s1 = mac_do E Continue_sending_process s
            in if \<not> continue \<and> get_current_slot (loramac s1) \<noteq> RX_SLOT_WIN_1 then
                 (let s2 = s1\<lparr>ctrl_flags := (ctrl_flags s1 AND NOT TX_DONE_FLAG)
                                                OR RETRY_EXHAUSTED_FLAG\<rparr>;
                      s3 = mac_do E Post_process_mcps_req s2;
                      s4 = make_tx_metadata_available s3
                  in snd (state_controller E DEVICE_STATE_STATUS_CHECK s4))
               else s1))
      else
        (let prev_QOS_level = get_prev_QOS_level (loramac s);
             QOS_level = get_QOS_level (loramac s)
         in if QOS_level > LORAWAN_DEFAULT_QOS E \<and> qos_cnt s < QOS_level
               \<and> prev_QOS_level = QOS_level then
              (enqueue (Call_state_controller DEVICE_STATE_SCHEDULING)
                 (s\<lparr>ctrl_flags := ctrl_flags s AND NOT TX_DONE_FLAG\<rparr>))
                \<lparr>qos_cnt := qos_cnt s + 1\<rparr>
            else
              (let s1 = mac_do E Post_process_mcps_req s;
                   s2 = s1\<lparr>ctrl_flags := ctrl_flags s1 OR TX_DONE_FLAG\<rparr>;
                   s3 = make_tx_metadata_available s2
               in snd (state_controller E DEVICE_STATE_STATUS_CHECK s3))))"

text \<open>
  \<open>post_process_tx_no_reception\<close>: \<open>no_reception_tail\<close> is the code from the call of
  \<^verbatim>\<open>post_process_mcps_req\<close> to the end of the function, which the paths that neither
  return nor jump to \<^verbatim>\<open>exit\<close> run.
\<close>

definition no_reception_tail :: "env \<Rightarrow> lorawan_stack \<Rightarrow> lorawan_stack" where
  "no_reception_tail E s =
     state_machine_run_to_completion
       (snd (state_controller E DEVICE_STATE_STATUS_CHECK
               (make_tx_metadata_available (mac_do E Post_process_mcps_req s))))"

definition post_process_tx_no_reception :: "env \<Rightarrow> lorawan_stack \<Rightarrow> lorawan_stack" where
  "post_process_tx_no_reception E s =
     (if flag_set REJOIN_IN_PROGRESS (ctrl_flags s) then
        state_machine_run_to_completion (s\<lparr>ctrl_flags := ctrl_flags s AND NOT REJOIN_IN_PROGRESS\<rparr>)
      else if req_type (get_mcps_confirmation (loramac s)) = MCPS_CONFIRMED then
        (let continue = mac_bool E Continue_sending_process (loramac s);
             s1 = mac_do E Continue_sending_process s
         in if continue then
              s1\<lparr>ctrl_flags := (ctrl_flags s1 AND NOT TX_DONE_FLAG) AND NOT RETRY_EXHAUSTED_FLAG\<rparr>
            else
              no_reception_tail E
                (s1\<lparr>ctrl_flags := (ctrl_flags s1 AND NOT TX_DONE_FLAG) OR RETRY_EXHAUSTED_FLAG\<rparr>))
      else
        (let s1 = s\<lparr>ctrl_flags := ctrl_flags s OR TX_DONE_FLAG\<rparr>;
             prev_QOS_level = get_prev_QOS_level (loramac s1);
             QOS_level = get_QOS_level (loramac s1)
         in if QOS_level > LORAWAN_DEFAULT_QOS E \<and> prev_QOS_level = QOS_level
               \<and> qos_cnt s1 < QOS_level then
              state_machine_run_to_completion
                ((enqueue (Call_state_controller DEVICE_STATE_SCHEDULING) s1)
                   \<lparr>qos_cnt := qos_cnt s1 + 1\<rparr>)
            else no_reception_tail E s1))"

definition handle_scheduling_failure :: "env \<Rightarrow> lorawan_stack \<Rightarrow> lorawan_stack" where
  "handle_scheduling_failure E s =
     state_machine_run_to_completion (snd (state_controller E DEVICE_STATE_STATUS_CHECK s))"

text \<open>
  \<open>process_reception\<close>. The MAC's \<^verbatim>\<open>on_radio_rx_done\<close> is given
  \<^verbatim>\<open>mlme_confirm_handler\<close> as a callback; the model runs it on the confirmations the MAC
  produces (\<open>mac_confirms\<close>), in order, after the MAC's own effect. \<open>rx_windows\<close> is the
  body of the first three cases of the \<^verbatim>\<open>switch\<close>.
\<close>

definition rx_windows :: "env \<Rightarrow> lorawan_stack \<Rightarrow> lorawan_stack" where
  "rx_windows E s =
     (let s1 = post_process_tx_with_reception E s;
          s2 = (if ind_pending (get_mcps_indication (loramac s1)) then
                  (let t = mac_do E Post_process_mcps_ind s1
                   in snd (state_controller E DEVICE_STATE_STATUS_CHECK
                             (t\<lparr>ctrl_flags := ctrl_flags t OR MSG_RECVD_FLAG\<rparr>)))
                else s1);
          s3 = (if flag_set TX_DONE_FLAG (ctrl_flags s2)
                then state_machine_run_to_completion s2 else s2);
          s4 = (if mlme_ind_pending (get_mlme_indication (loramac s3))
                   \<and> \<not> automatic_uplink_ongoing s3
                then mlme_indication_handler E (mac_do E Post_process_mlme_ind s3) else s3)
      in if MBED_CONF_LORA_VERSION_1_1 E then poll_rejoin E s4 else s4)"

definition process_reception ::
  "env \<Rightarrow> u8 list \<Rightarrow> u16 \<Rightarrow> int \<Rightarrow> int \<Rightarrow> lorawan_stack \<Rightarrow> lorawan_stack" where
  "process_reception E payload sz rssi' snr' s =
     (let s1 = s\<lparr>device_current_state := DEVICE_STATE_RECEIVING,
                 ctrl_flags := ((ctrl_flags s AND NOT MSG_RECVD_FLAG) AND NOT TX_DONE_FLAG)
                                 AND NOT RETRY_EXHAUSTED_FLAG,
                 rejoin_type0_counter := rejoin_type0_counter s + 1\<rparr>;
          joined = nwk_joined (loramac s1);
          slot = get_current_slot (loramac s1);
          c = On_radio_rx_done payload sz rssi' snr' (rx_timestamp s1);
          confirms = mac_confirms E c (loramac s1);
          s2 = foldl (\<lambda>t cf. mlme_confirm_handler E cf t) (mac_do E c s1) confirms
      in if \<not> joined then s2\<lparr>rx_payload_in_use := False\<rparr>
         else if flag_set REJOIN_IN_PROGRESS (ctrl_flags s2) then
           s2\<lparr>ctrl_flags := ctrl_flags s2 AND NOT REJOIN_IN_PROGRESS, rx_payload_in_use := False\<rparr>
         else
           (let s3 = make_rx_metadata_available s2;
                s4 = (case slot of
                        RX_SLOT_WIN_1 \<Rightarrow> rx_windows E s3
                      | RX_SLOT_WIN_2 \<Rightarrow> rx_windows E s3
                      | RX_SLOT_WIN_CLASS_C \<Rightarrow> rx_windows E s3
                      | RX_SLOT_WIN_BEACON \<Rightarrow> s3
                      | RX_SLOT_WIN_UNICAST_PING_SLOT \<Rightarrow>
                          snd (state_controller E DEVICE_STATE_STATUS_CHECK
                                 (s3\<lparr>ctrl_flags := ctrl_flags s3 OR MSG_RECVD_FLAG\<rparr>))
                      | RX_SLOT_WIN_MULTICAST_PING_SLOT \<Rightarrow>
                          snd (state_controller E DEVICE_STATE_STATUS_CHECK
                                 (s3\<lparr>ctrl_flags := ctrl_flags s3 OR MSG_RECVD_FLAG\<rparr>)))
            in s4\<lparr>rx_payload_in_use := False\<rparr>))"

definition process_reception_timeout :: "env \<Rightarrow> bool \<Rightarrow> lorawan_stack \<Rightarrow> lorawan_stack" where
  "process_reception_timeout E is_timeout s =
     (let s0 = s\<lparr>rejoin_type0_counter := rejoin_type0_counter s + 1\<rparr>;
          slot = get_current_slot (loramac s0);
          s1 = mac_do E (On_radio_rx_timeout is_timeout) s0
      in if slot = RX_SLOT_WIN_2 \<and> \<not> nwk_joined (loramac s1) then
           snd (state_controller E DEVICE_STATE_JOINING s1)
         else if slot = RX_SLOT_WIN_2 then
           (let s2 = post_process_tx_no_reception E s1;
                s3 = snd (state_controller E DEVICE_STATE_STATUS_CHECK s2);
                s4 = state_machine_run_to_completion s3
            in if MBED_CONF_LORA_VERSION_1_1 E then poll_rejoin E s4 else s4)
         else s1)"

text \<open>
  \<open>send_automatic_uplink_message\<close> compares the \<^verbatim>\<open>int16_t\<close> that \<^verbatim>\<open>handle_tx\<close> returns
  with \<^verbatim>\<open>LORAWAN_STATUS_WOULD_BLOCK\<close>, so a length returned by the MAC that equals that code
  is taken for the code. The numeric value of the code is not in these sources: it is
  the parameter \<open>would_block\<close>. Every status code is negative.
\<close>

definition send_automatic_uplink_message ::
  "env \<Rightarrow> int \<Rightarrow> u8 \<Rightarrow> lorawan_stack \<Rightarrow> lorawan_stack" where
  "send_automatic_uplink_message E would_block p s =
     (case handle_tx E p None 0 (ucast MSG_CONFIRMED_FLAG) True True s of
        (ret, s1) \<Rightarrow>
          if ret = Status LORAWAN_STATUS_WOULD_BLOCK \<or> ret = Count would_block
          then s1\<lparr>automatic_uplink_ongoing := False\<rparr>
          else (case ret of
                  Status st \<Rightarrow> send_event_to_application AUTOMATIC_UPLINK_ERROR s1
                | Count n \<Rightarrow>
                    if n < 0 then send_event_to_application AUTOMATIC_UPLINK_ERROR s1 else s1))"

subsection \<open>LoRaWANInterface\<close>

text \<open>
  The methods of the interface take the lock and call the stack. \<^verbatim>\<open>send\<close> takes its
  flags as an \<^verbatim>\<open>int\<close> and passes them to an 8-bit parameter; the port-specific
  \<^verbatim>\<open>receive\<close> takes port and flags by value, so what \<^verbatim>\<open>handle_rx\<close> leaves in them is
  lost.
\<close>

definition send ::
  "env \<Rightarrow> u8 \<Rightarrow> u8 list option \<Rightarrow> u16 \<Rightarrow> u32 \<Rightarrow> lorawan_stack \<Rightarrow> retval \<times> lorawan_stack" where
  "send E p data len flags s = handle_tx E p data len (ucast flags) False False s"

definition receive ::
  "u8 \<Rightarrow> bool \<Rightarrow> u16 \<Rightarrow> u32 \<Rightarrow> lorawan_stack \<Rightarrow> (retval \<times> u8 list) \<times> lorawan_stack" where
  "receive p data_null len flags s =
     (case handle_rx data_null len p flags True s of
        ((ret, written, p', flags'), s') \<Rightarrow> ((ret, written), s'))"

definition get_tx_metadata ::
  "lorawan_stack \<Rightarrow> (lorawan_status \<times> lorawan_tx_metadata option) \<times> lorawan_stack" where
  "get_tx_metadata s = acquire_tx_metadata s"

definition get_rx_metadata ::
  "lorawan_stack \<Rightarrow> (lorawan_status \<times> lorawan_rx_metadata option) \<times> lorawan_stack" where
  "get_rx_metadata s = acquire_rx_metadata s"

definition disconnect :: "env \<Rightarrow> lorawan_stack \<Rightarrow> lorawan_status \<times> lorawan_stack" where
  "disconnect E s = shutdown E s"

definition initialize :: "env \<Rightarrow> bool \<Rightarrow> lorawan_stack \<Rightarrow> lorawan_status \<times> lorawan_stack" where
  "initialize E queue_null s = initialize_mac_layer E queue_null s"

definition get_current_gps_time :: "lorawan_stack \<Rightarrow> u64" where
  "get_current_gps_time s = get_gps_time (loramac s)"

text \<open>
  \<^verbatim>\<open>UNIX_GPS_EPOCH_DIFF\<close> is a macro that these sources use and do not define; its
  value is the one the specification gives.
\<close>

definition UNIX_GPS_EPOCH_DIFF :: nat where
  "UNIX_GPS_EPOCH_DIFF = 315964800"

text \<open>
  \<open>set_system_time_utc now tai_utc_diff s\<close>: \<open>now\<close> is what \<^verbatim>\<open>time(NULL)\<close> returns, in
  seconds. The result is the status and, when \<^verbatim>\<open>set_time\<close> is called, its argument.
  The type \<^verbatim>\<open>lorawan_time_t\<close> of \<^verbatim>\<open>u_time\<close> is an unsigned integer whose width these
  sources do not give: it is the type parameter \<open>'t\<close>. \<^verbatim>\<open>unsigned int\<close> has 32 bits and
  the GPS time 64 (it counts milliseconds).
\<close>

definition set_system_time_utc ::
  "nat \<Rightarrow> u32 \<Rightarrow> lorawan_stack \<Rightarrow> lorawan_status \<times> ('t::len word) option" where
  "set_system_time_utc now tai_utc_diff s =
     (let u_time = (of_nat (now + UNIX_GPS_EPOCH_DIFF) :: 't word);
          u_time1 = u_time + ucast (tai_utc_diff - 19);
          cur_gps_time = get_current_gps_time s
      in if cur_gps_time = 0 then (LORAWAN_STATUS_SERVICE_UNKNOWN, None)
         else
           (let gps_seconds = (ucast (cur_gps_time div 1000) :: u32);
                gps_millis = (ucast (cur_gps_time mod 1000) :: u32);
                gps_seconds1 = (if gps_millis \<ge> 500 then gps_seconds + 1 else gps_seconds)
            in (LORAWAN_STATUS_OK, Some (u_time1 + ucast gps_seconds1))))"

subsection \<open>An example environment\<close>

text \<open>
  A MAC and a configuration for the closed instances below: a class A device on a
  LoRaWAN 1.1 server, activation by personalisation, every operation of the MAC
  succeeds, \<^verbatim>\<open>join\<close> joins, \<^verbatim>\<open>set_device_class\<close> switches the class,
  \<^verbatim>\<open>continue_sending_process\<close> finds no retry left, \<^verbatim>\<open>prepare_ongoing_tx\<close> accepts
  the whole payload.
\<close>

definition example_mac :: loramac where
  "example_mac =
     \<lparr>get_device_class = CLASS_A,
      get_server_type = LW1_1,
      nwk_joined = False,
      tx_ongoing = False,
      get_current_slot = RX_SLOT_WIN_2,
      get_mcps_confirmation =
        \<lparr>req_type = MCPS_CONFIRMED, conf_status = LORAMAC_EVENT_INFO_STATUS_OK,
         conf_channel = 0, conf_data_rate = 0, tx_power = 0, tx_toa = 0, nb_retries = 0,
         ul_frame_counter = 0\<rparr>,
      get_mcps_indication = zero_mcps_indication,
      get_mlme_indication = \<lparr>mlme_ind_pending = False, indication_type = MLME_OTHER\<rparr>,
      get_QOS_level = 1,
      get_prev_QOS_level = 1,
      get_current_adr_ack_limit = 64,
      get_rejoin_max_time = 1024,
      get_rejoin_max_count = 2,
      get_current_time = 0,
      get_gps_time = 0,
      get_backoff_timer_event_id = 0\<rparr>"

fun example_effect :: "mac_call \<Rightarrow> loramac \<Rightarrow> loramac" where
  "example_effect (Join b) m = m\<lparr>nwk_joined := True\<rparr>"
| "example_effect Disconnect m = m\<lparr>nwk_joined := False\<rparr>"
| "example_effect (Set_tx_ongoing b) m = m\<lparr>tx_ongoing := b\<rparr>"
| "example_effect (Set_device_class c) m = m\<lparr>get_device_class := c\<rparr>"
| "example_effect (Set_gps_time t) m = m\<lparr>get_gps_time := t\<rparr>"
| "example_effect c m = m"

fun example_len :: "mac_call \<Rightarrow> loramac \<Rightarrow> int" where
  "example_len (Prepare_ongoing_tx p d n f r) m = uint n"
| "example_len c m = 0"

definition example_env :: env where
  "example_env =
     \<lparr>mac_effect = example_effect,
      mac_status = (\<lambda>c m. LORAWAN_STATUS_OK),
      mac_bool = (\<lambda>c m. False),
      mac_len = example_len,
      mac_confirms = (\<lambda>c m. []),
      rand = (\<lambda>n. 7),
      LORAWAN_COMPLIANCE_TEST = False,
      MBED_CONF_LORA_VERSION_1_1 = True,
      MBED_CONF_LORA_AUTOMATIC_UPLINK_MESSAGE = True,
      MBED_CONF_LORA_OVER_THE_AIR_ACTIVATION = False,
      MBED_CONF_LORA_REJOIN_TYPE1_SEND_PERIOD = 0xFFFFFFFF,
      MBED_CONF_LORA_APP_PORT = None,
      LORAWAN_DEFAULT_QOS = 1,
      MBED_CONF_LORA_CLASS_B_BEACONLESS_PERIOD = 7200\<rparr>"

text \<open>The stack after construction, after \<^verbatim>\<open>initialize\<close> and \<^verbatim>\<open>add_app_callbacks\<close>, and after \<^verbatim>\<open>connect\<close>.\<close>

definition example_constructed :: lorawan_stack where
  "example_constructed = LoRaWANStack example_env example_mac 0"

definition example_initialized :: lorawan_stack where
  "example_initialized =
     snd (set_lora_callbacks (Some (True, False))
            (snd (initialize example_env False example_constructed)))"

definition example_connected :: lorawan_stack where
  "example_connected = snd (connect example_env example_initialized)"

text \<open>The connected example stack once the network has provided the GPS time 1234567890500 ms.\<close>

definition example_time_synched :: lorawan_stack where
  "example_time_synched =
     example_connected\<lparr>loramac := (loramac example_connected)\<lparr>get_gps_time := 1234567890500\<rparr>\<rparr>"

subsection \<open>Notions of the specification\<close>

text \<open>
  Milliseconds rounded to the nearest second, a remainder of 500 ms or more rounding up:
  the specification's words for what \<open>set_system_time_utc\<close> adds, to be compared with
  the code.
\<close>

definition gps_seconds_rounded :: "nat \<Rightarrow> nat" where
  "gps_seconds_rounded g = g div 1000 + (if 500 \<le> g mod 1000 then 1 else 0)"

subsection \<open>Downlinks and sequences of receive calls\<close>

text \<open>
  \<open>downlink p t payload rest\<close> is the MCPS indication the MAC holds when it has decoded
  a data downlink of type \<open>t\<close> on port \<open>p\<close>: its buffer pointer points at the payload,
  which the bytes \<open>rest\<close> follow in the MAC's storage. \<open>receive_downlink\<close> is the
  stack's handling of that indication, and \<open>receive_all\<close> a sequence of calls of the
  port-specific \<^verbatim>\<open>receive\<close> with a buffer that is not \<^verbatim>\<open>NULL\<close>, one for each length
  of the list.
\<close>

definition downlink :: "u8 \<Rightarrow> mcps_type \<Rightarrow> u8 list \<Rightarrow> u8 list \<Rightarrow> loramac_mcps_indication" where
  "downlink p t payload rest =
     zero_mcps_indication
       \<lparr>ind_type := t, ind_pending := True, is_data_recvd := True, port := p,
        buffer := Some (payload @ rest), buffer_size := of_nat (length payload)\<rparr>"

definition receive_downlink ::
  "env \<Rightarrow> loramac_mcps_indication \<Rightarrow> lorawan_stack \<Rightarrow> lorawan_stack" where
  "receive_downlink E ind s =
     mcps_indication_handler E (s\<lparr>loramac := (loramac s)\<lparr>get_mcps_indication := ind\<rparr>\<rparr>)"

fun receive_all ::
  "u8 \<Rightarrow> u32 \<Rightarrow> u16 list \<Rightarrow> lorawan_stack \<Rightarrow> (retval \<times> u8 list) list \<times> lorawan_stack" where
  "receive_all p flags [] s = ([], s)"
| "receive_all p flags (len # lens) s =
     (case receive p False len flags s of
        (r, s') \<Rightarrow> (case receive_all p flags lens s' of (rs, s'') \<Rightarrow> (r # rs, s'')))"

text \<open>
  Two downlinks on port 10: 30 bytes, of which the application reads 10, and then 5
  bytes, which the MAC decodes into the same storage.
\<close>

definition payload_A :: "u8 list" where
  "payload_A = map of_nat [100 ..< 130]"

definition payload_B :: "u8 list" where
  "payload_B = [1, 2, 3, 4, 5]"

definition example_partly_read :: lorawan_stack where
  "example_partly_read =
     snd (receive 10 False 10 MSG_UNCONFIRMED_FLAG
            (receive_downlink example_env (downlink 10 MCPS_UNCONFIRMED payload_A [])
               example_connected))"

definition example_overwritten :: lorawan_stack where
  "example_overwritten =
     receive_downlink example_env (downlink 10 MCPS_UNCONFIRMED payload_B (drop 5 payload_A))
       example_partly_read"

subsection \<open>Rejoin attempts\<close>

text \<open>
  A rejoin attempt is a call of the MAC's \<^verbatim>\<open>rejoin\<close>; \<open>rejoin_attempts\<close> counts them in
  the log. \<open>example_force_rejoin_req\<close> is the confirmation of a ForceRejoinReq of type 1
  with one retry, period 0 and data rate 2.
\<close>

fun is_rejoin :: "mac_call \<Rightarrow> bool" where
  "is_rejoin (Rejoin t f d) = True"
| "is_rejoin c = False"

definition rejoin_attempts :: "lorawan_stack \<Rightarrow> nat" where
  "rejoin_attempts s = length (filter is_rejoin (mac_log s))"

definition example_force_rejoin_req :: loramac_mlme_confirm where
  "example_force_rejoin_req =
     \<lparr>mlme_type = MLME_FORCE_REJOIN, mlme_status = LORAMAC_EVENT_INFO_STATUS_OK,
      demod_margin = 0, nb_gateways = 0, classType = CLASS_A,
      rejoin_type = 1, datarate = 2, period = 0, max_retries = 1\<rparr>"

text \<open>The connected example stack after \<^verbatim>\<open>disconnect\<close>, and after a \<^verbatim>\<open>connect\<close> that follows.\<close>

definition example_shut_down :: lorawan_stack where
  "example_shut_down = snd (disconnect example_env example_connected)"

definition example_reconnected :: lorawan_stack where
  "example_reconnected = snd (connect example_env example_shut_down)"

text \<open>
  The connected example stack (class A) after \<^verbatim>\<open>set_device_class(CLASS_C)\<close>, after an
  uplink that follows, and after the radio has sent it.
\<close>

definition example_class_requested :: lorawan_stack where
  "example_class_requested = snd (set_device_class example_env CLASS_C example_connected)"

definition example_class_uplink :: lorawan_stack where
  "example_class_uplink =
     snd (send example_env 5 (Some [1]) 1 MSG_UNCONFIRMED_FLAG example_class_requested)"

definition example_class_tx_done :: lorawan_stack where
  "example_class_tx_done = process_transmission example_env example_class_uplink"

text \<open>
  The connected example stack after two timeouts of the second receive window: the
  counter of the type 0 rejoin has reached the MAC's limit and \<open>poll_rejoin\<close> has set
  \<^verbatim>\<open>REJOIN_IN_PROGRESS\<close>.
\<close>

definition example_rejoining :: lorawan_stack where
  "example_rejoining =
     process_reception_timeout example_env True
       (process_reception_timeout example_env True example_connected)"

text \<open>
  \<open>rx_untouched s s'\<close>: from \<open>s\<close> to \<open>s'\<close> the inbound message, the RX metadata and the
  flag \<^verbatim>\<open>REJOIN_IN_PROGRESS\<close> are as they were and no \<^verbatim>\<open>RX_DONE\<close> has been queued.
\<close>

definition rx_untouched :: "lorawan_stack \<Rightarrow> lorawan_stack \<Rightarrow> bool" where
  "rx_untouched s s' =
     (rx_msg s' = rx_msg s \<and> rx_metadata s' = rx_metadata s
      \<and> flag_set REJOIN_IN_PROGRESS (ctrl_flags s') = flag_set REJOIN_IN_PROGRESS (ctrl_flags s)
      \<and> (App_event RX_DONE \<in> set (queue s')) = (App_event RX_DONE \<in> set (queue s)))"

subsection \<open>The entry of a reception\<close>

text \<open>
  \<open>rx_done_entry\<close> is \<open>process_reception\<close> up to the return of the MAC's
  \<^verbatim>\<open>on_radio_rx_done\<close>: the state is \<^verbatim>\<open>RECEIVING\<close>, three flags are cleared, the counter
  is incremented, the MAC has handled the frame and \<open>mlme_confirm_handler\<close> has run on
  each confirmation the MAC handed over.
\<close>

definition rx_done_entry ::
  "env \<Rightarrow> u8 list \<Rightarrow> u16 \<Rightarrow> int \<Rightarrow> int \<Rightarrow> lorawan_stack \<Rightarrow> lorawan_stack" where
  "rx_done_entry E payload sz rssi' snr' s =
     (let s1 = s\<lparr>device_current_state := DEVICE_STATE_RECEIVING,
                 ctrl_flags := ((ctrl_flags s AND NOT MSG_RECVD_FLAG) AND NOT TX_DONE_FLAG)
                                 AND NOT RETRY_EXHAUSTED_FLAG,
                 rejoin_type0_counter := rejoin_type0_counter s + 1\<rparr>;
          c = On_radio_rx_done payload sz rssi' snr' (rx_timestamp s1)
      in foldl (\<lambda>t cf. mlme_confirm_handler E cf t) (mac_do E c s1)
           (mac_confirms E c (loramac s1)))"

text \<open>
  An example MAC that decodes a join accept in the received frame and hands the
  confirmation \<open>example_join_accept\<close> to the stack during \<^verbatim>\<open>on_radio_rx_done\<close>.
\<close>

definition example_join_accept :: loramac_mlme_confirm where
  "example_join_accept =
     \<lparr>mlme_type = MLME_JOIN_ACCEPT, mlme_status = LORAMAC_EVENT_INFO_STATUS_OK,
      demod_margin = 0, nb_gateways = 0, classType = CLASS_A,
      rejoin_type = 0, datarate = 0, period = 0, max_retries = 0\<rparr>"

fun example_confirms_join_accept :: "mac_call \<Rightarrow> loramac \<Rightarrow> loramac_mlme_confirm list" where
  "example_confirms_join_accept (On_radio_rx_done payload sz rssi' snr' t) m =
     [example_join_accept]"
| "example_confirms_join_accept c m = []"

definition example_env_join_accept :: env where
  "example_env_join_accept = example_env\<lparr>mac_confirms := example_confirms_join_accept\<rparr>"

subsection \<open>Confirmed uplinks and the end of the retries\<close>

text \<open>
  \<open>retries_exhausted E s\<close> is the state in which both post-processing functions enter the
  status check once they have found the retries exhausted: \<^verbatim>\<open>continue_sending_process\<close> has
  been called, \<^verbatim>\<open>TX_DONE_FLAG\<close> is cleared and \<^verbatim>\<open>RETRY_EXHAUSTED_FLAG\<close> set, the MAC has
  post-processed the request and the TX metadata have been made available.
  \<open>rx_timeout_entry\<close> is \<open>process_reception_timeout\<close> up to the return of the MAC's
  \<^verbatim>\<open>on_radio_rx_timeout\<close>.
\<close>

definition retries_exhausted :: "env \<Rightarrow> lorawan_stack \<Rightarrow> lorawan_stack" where
  "retries_exhausted E s =
     make_tx_metadata_available
       (mac_do E Post_process_mcps_req
          ((mac_do E Continue_sending_process s)
             \<lparr>ctrl_flags := (ctrl_flags s AND NOT TX_DONE_FLAG) OR RETRY_EXHAUSTED_FLAG\<rparr>))"

definition rx_timeout_entry :: "env \<Rightarrow> bool \<Rightarrow> lorawan_stack \<Rightarrow> lorawan_stack" where
  "rx_timeout_entry E is_timeout s =
     mac_do E (On_radio_rx_timeout is_timeout)
       (s\<lparr>rejoin_type0_counter := rejoin_type0_counter s + 1\<rparr>)"

text \<open>
  An example MAC that opens the receive windows: RX1 is the current slot once the
  transmission is done, and RX2 once RX1 has timed out. Its
  \<^verbatim>\<open>continue_sending_process\<close> returns false, as in \<open>example_env\<close>; that of
  \<open>example_env_retrying\<close> returns true. \<open>example_awaiting_ack\<close> is the connected example
  stack after a confirmed uplink of two bytes on port 5 and the radio's TX-done
  interrupt, and \<open>example_rx1_timed_out\<close> the same stack after the timeout of RX1.
\<close>

fun example_effect_windows :: "mac_call \<Rightarrow> loramac \<Rightarrow> loramac" where
  "example_effect_windows (On_radio_tx_done t) m = m\<lparr>get_current_slot := RX_SLOT_WIN_1\<rparr>"
| "example_effect_windows (On_radio_rx_timeout b) m =
     (if get_current_slot m = RX_SLOT_WIN_1 then m\<lparr>get_current_slot := RX_SLOT_WIN_2\<rparr> else m)"
| "example_effect_windows c m = example_effect c m"

definition example_env_windows :: env where
  "example_env_windows = example_env\<lparr>mac_effect := example_effect_windows\<rparr>"

definition example_env_retrying :: env where
  "example_env_retrying = example_env_windows\<lparr>mac_bool := (\<lambda>c m. True)\<rparr>"

definition example_awaiting_ack :: lorawan_stack where
  "example_awaiting_ack =
     process_transmission example_env_windows
       (snd (send example_env_windows 5 (Some [1, 2]) 2 MSG_CONFIRMED_FLAG example_connected))"

definition example_rx1_timed_out :: lorawan_stack where
  "example_rx1_timed_out = process_reception_timeout example_env_windows True example_awaiting_ack"

section \<open>Properties\<close>

subsection \<open>Control flags\<close>

lemma disjoint_bits:
  fixes f g :: "'a::len word"
  assumes "f AND g = 0"
  shows "\<not> (bit f n \<and> bit g n)"
proof -
  have "bit (f AND g) n = bit (0 :: 'a word) n" using assms by simp
  then show ?thesis by (simp add: bit_and_iff)
qed

lemma and_or_disjoint:
  fixes f g w :: "'a::len word"
  assumes "f AND g = 0"
  shows "(w OR g) AND f = w AND f"
  by (rule bit_eqI) (use disjoint_bits [OF assms] in \<open>auto simp: bit_and_iff bit_or_iff\<close>)

lemma and_not_disjoint:
  fixes f g w :: "'a::len word"
  assumes "f AND g = 0"
  shows "(w AND NOT g) AND f = w AND f"
  by (rule bit_eqI) (use disjoint_bits [OF assms] in \<open>auto simp: bit_and_iff bit_not_iff\<close>)

lemma flag_set_or_same: "f \<noteq> 0 \<Longrightarrow> flag_set f (w OR f)"
  by (simp add: flag_set_def)

lemma flag_set_and_not_same: "\<not> flag_set f (w AND NOT f)"
  by (simp add: flag_set_def and.assoc)

lemma flag_set_or_other: "f AND g = 0 \<Longrightarrow> flag_set f (w OR g) = flag_set f w"
  by (simp add: flag_set_def and_or_disjoint)

lemma flag_set_and_not_other: "f AND g = 0 \<Longrightarrow> flag_set f (w AND NOT g) = flag_set f w"
  by (simp add: flag_set_def and_not_disjoint)

lemma flag_set_zero: "\<not> flag_set f 0"
  by (simp add: flag_set_def)

subsection \<open>Calls of the MAC leave the stack's own members alone\<close>

lemma mac_do_fields [simp]:
  "device_current_state (mac_do E c s) = device_current_state s"
  "tx_metadata (mac_do E c s) = tx_metadata s"
  "rx_metadata (mac_do E c s) = rx_metadata s"
  "ctrl_flags (mac_do E c s) = ctrl_flags s"
  "rx_msg (mac_do E c s) = rx_msg s"
  "lw_session (mac_do E c s) = lw_session s"
  "queue (mac_do E c s) = queue s"
  "callbacks_events (mac_do E c s) = callbacks_events s"
  by (simp_all add: mac_do_def)

subsection \<open>The example states\<close>

lemma initialize_fresh:
  "device_current_state (snd (initialize E False (LoRaWANStack E m t0))) = DEVICE_STATE_IDLE"
  "tx_metadata (snd (initialize E False (LoRaWANStack E m t0))) = tx_metadata (LoRaWANStack E m t0)"
  "rx_metadata (snd (initialize E False (LoRaWANStack E m t0))) = rx_metadata (LoRaWANStack E m t0)"
  by (simp_all add: initialize_def initialize_mac_layer_def state_controller_def
      process_idle_state_def process_uninitialized_state_def LoRaWANStack_def Let_def)


lemma example_initialized_state:
  "device_current_state example_initialized = DEVICE_STATE_IDLE"
  "callbacks_events example_initialized"
  "ctrl_flags example_initialized = 0"
  by code_simp+

lemma example_connected_state:
  "device_current_state example_connected = DEVICE_STATE_IDLE"
  "active (lw_session example_connected)"
  "nwk_joined (loramac example_connected)"
  "\<not> tx_ongoing (loramac example_connected)"
  "\<not> receive_ready (rx_msg example_connected)"
  "ctrl_flags example_connected = CONNECTED_FLAG"
  "callbacks_events example_connected"
  by code_simp+

subsection \<open>Receiving with nothing to read\<close>

text \<open>
  C10. On an initialised stack with an active session and no inbound message pending
  (\<open>receive_ready\<close> false), \<open>handle_rx\<close> returns \<^verbatim>\<open>LORAWAN_STATUS_WOULD_BLOCK\<close> whatever
  its arguments are, a \<^verbatim>\<open>NULL\<close> data pointer and a zero length included (the check of
  \<open>receive_ready\<close> comes before the validation of the buffer), writes nothing to the
  buffer, leaves the reference arguments alone and does not change the state.
\<close>

theorem handle_rx_would_block_before_validation:
  assumes "device_current_state s \<noteq> DEVICE_STATE_NOT_INITIALIZED"
    and "active (lw_session s)"
    and "\<not> receive_ready (rx_msg s)"
  shows "handle_rx data_null len p flags validate_params s =
           ((Status LORAWAN_STATUS_WOULD_BLOCK, [], p, flags), s)"
  using assms by (simp add: handle_rx_def)

theorem handle_rx_would_block_before_validation_witness:
  "device_current_state example_connected \<noteq> DEVICE_STATE_NOT_INITIALIZED
   \<and> active (lw_session example_connected)
   \<and> \<not> receive_ready (rx_msg example_connected)
   \<and> handle_rx True 0 10 MSG_UNCONFIRMED_FLAG True example_connected =
       ((Status LORAWAN_STATUS_WOULD_BLOCK, [], 10, MSG_UNCONFIRMED_FLAG), example_connected)"
proof -
  have a: "device_current_state example_connected \<noteq> DEVICE_STATE_NOT_INITIALIZED"
    by (simp add: example_connected_state)
  have b: "active (lw_session example_connected)"
    and c: "\<not> receive_ready (rx_msg example_connected)"
    by (simp_all add: example_connected_state)
  show ?thesis
    using a b c handle_rx_would_block_before_validation [OF a b c] by simp
qed

subsection \<open>Metadata\<close>

text \<open>
  C9, as amended. The stale flags are true at construction. A write
  (\<open>make_tx_metadata_available\<close>, \<open>make_rx_metadata_available\<close>) clears the flag. On a
  stack that has been initialised, a read returns \<^verbatim>\<open>LORAWAN_STATUS_OK\<close> and the stored
  record when the flag is clear, and sets the flag; it returns
  \<^verbatim>\<open>LORAWAN_STATUS_METADATA_NOT_AVAILABLE\<close> and changes nothing when the flag is set. So
  two reads after a write give \<^verbatim>\<open>OK\<close>, then \<^verbatim>\<open>METADATA_NOT_AVAILABLE\<close>, and a read
  after initialisation and before any write gives \<^verbatim>\<open>METADATA_NOT_AVAILABLE\<close>. On a stack
  that has not been initialised a read returns \<^verbatim>\<open>LORAWAN_STATUS_NOT_INITIALIZED\<close> and
  changes nothing.
\<close>

theorem metadata_read_consume:
  "tx_stale (tx_metadata (LoRaWANStack E m t0))
   \<and> rx_stale (rx_metadata (LoRaWANStack E m t0))
   \<and> fst (get_tx_metadata (snd (initialize E False (LoRaWANStack E m t0)))) =
       (LORAWAN_STATUS_METADATA_NOT_AVAILABLE, None)
   \<and> fst (get_rx_metadata (snd (initialize E False (LoRaWANStack E m t0)))) =
       (LORAWAN_STATUS_METADATA_NOT_AVAILABLE, None)
   \<and> \<not> tx_stale (tx_metadata (make_tx_metadata_available s))
   \<and> \<not> rx_stale (rx_metadata (make_rx_metadata_available s))
   \<and> get_tx_metadata s =
       (if device_current_state s = DEVICE_STATE_NOT_INITIALIZED
        then ((LORAWAN_STATUS_NOT_INITIALIZED, None), s)
        else if tx_stale (tx_metadata s)
        then ((LORAWAN_STATUS_METADATA_NOT_AVAILABLE, None), s)
        else ((LORAWAN_STATUS_OK, Some (tx_metadata s)),
              s\<lparr>tx_metadata := (tx_metadata s)\<lparr>tx_stale := True\<rparr>\<rparr>))
   \<and> get_rx_metadata s =
       (if device_current_state s = DEVICE_STATE_NOT_INITIALIZED
        then ((LORAWAN_STATUS_NOT_INITIALIZED, None), s)
        else if rx_stale (rx_metadata s)
        then ((LORAWAN_STATUS_METADATA_NOT_AVAILABLE, None), s)
        else ((LORAWAN_STATUS_OK, Some (rx_metadata s)),
              s\<lparr>rx_metadata := (rx_metadata s)\<lparr>rx_stale := True\<rparr>\<rparr>))
   \<and> (device_current_state s \<noteq> DEVICE_STATE_NOT_INITIALIZED \<longrightarrow>
        (let s1 = make_tx_metadata_available s;
             (r1, s2) = get_tx_metadata s1;
             (r2, s3) = get_tx_metadata s2
         in r1 = (LORAWAN_STATUS_OK, Some (tx_metadata s1))
            \<and> tx_stale (tx_metadata s2)
            \<and> r2 = (LORAWAN_STATUS_METADATA_NOT_AVAILABLE, None)
            \<and> s3 = s2))
   \<and> (device_current_state s \<noteq> DEVICE_STATE_NOT_INITIALIZED \<longrightarrow>
        (let s1 = make_rx_metadata_available s;
             (r1, s2) = get_rx_metadata s1;
             (r2, s3) = get_rx_metadata s2
         in r1 = (LORAWAN_STATUS_OK, Some (rx_metadata s1))
            \<and> rx_stale (rx_metadata s2)
            \<and> r2 = (LORAWAN_STATUS_METADATA_NOT_AVAILABLE, None)
            \<and> s3 = s2))"
proof -
  have c: "tx_stale (tx_metadata (LoRaWANStack E m t0))"
    "rx_stale (rx_metadata (LoRaWANStack E m t0))"
    by (simp_all add: LoRaWANStack_def)
  have i: "fst (get_tx_metadata (snd (initialize E False (LoRaWANStack E m t0)))) =
             (LORAWAN_STATUS_METADATA_NOT_AVAILABLE, None)"
    "fst (get_rx_metadata (snd (initialize E False (LoRaWANStack E m t0)))) =
             (LORAWAN_STATUS_METADATA_NOT_AVAILABLE, None)"
    by (simp_all add: get_tx_metadata_def get_rx_metadata_def acquire_tx_metadata_def
        acquire_rx_metadata_def initialize_fresh c)
  have w: "\<not> tx_stale (tx_metadata (make_tx_metadata_available s))"
    "\<not> rx_stale (rx_metadata (make_rx_metadata_available s))"
    by (simp_all add: make_tx_metadata_available_def make_rx_metadata_available_def Let_def)
  have d: "device_current_state (make_tx_metadata_available s) = device_current_state s"
    "device_current_state (make_rx_metadata_available s) = device_current_state s"
    by (simp_all add: make_tx_metadata_available_def make_rx_metadata_available_def Let_def)
  have r: "get_tx_metadata s =
       (if device_current_state s = DEVICE_STATE_NOT_INITIALIZED
        then ((LORAWAN_STATUS_NOT_INITIALIZED, None), s)
        else if tx_stale (tx_metadata s)
        then ((LORAWAN_STATUS_METADATA_NOT_AVAILABLE, None), s)
        else ((LORAWAN_STATUS_OK, Some (tx_metadata s)),
              s\<lparr>tx_metadata := (tx_metadata s)\<lparr>tx_stale := True\<rparr>\<rparr>))"
    "get_rx_metadata s =
       (if device_current_state s = DEVICE_STATE_NOT_INITIALIZED
        then ((LORAWAN_STATUS_NOT_INITIALIZED, None), s)
        else if rx_stale (rx_metadata s)
        then ((LORAWAN_STATUS_METADATA_NOT_AVAILABLE, None), s)
        else ((LORAWAN_STATUS_OK, Some (rx_metadata s)),
              s\<lparr>rx_metadata := (rx_metadata s)\<lparr>rx_stale := True\<rparr>\<rparr>))"
    by (simp_all add: get_tx_metadata_def get_rx_metadata_def acquire_tx_metadata_def
        acquire_rx_metadata_def)
  have t: "device_current_state s \<noteq> DEVICE_STATE_NOT_INITIALIZED \<longrightarrow>
        (let s1 = make_tx_metadata_available s;
             (r1, s2) = get_tx_metadata s1;
             (r2, s3) = get_tx_metadata s2
         in r1 = (LORAWAN_STATUS_OK, Some (tx_metadata s1))
            \<and> tx_stale (tx_metadata s2)
            \<and> r2 = (LORAWAN_STATUS_METADATA_NOT_AVAILABLE, None)
            \<and> s3 = s2)"
    using w(1) d(1) by (simp add: get_tx_metadata_def acquire_tx_metadata_def Let_def)
  have u: "device_current_state s \<noteq> DEVICE_STATE_NOT_INITIALIZED \<longrightarrow>
        (let s1 = make_rx_metadata_available s;
             (r1, s2) = get_rx_metadata s1;
             (r2, s3) = get_rx_metadata s2
         in r1 = (LORAWAN_STATUS_OK, Some (rx_metadata s1))
            \<and> rx_stale (rx_metadata s2)
            \<and> r2 = (LORAWAN_STATUS_METADATA_NOT_AVAILABLE, None)
            \<and> s3 = s2)"
    using w(2) d(2) by (simp add: get_rx_metadata_def acquire_rx_metadata_def Let_def)
  show ?thesis using c i w r t u by blast
qed

theorem metadata_read_consume_witness:
  "device_current_state example_connected \<noteq> DEVICE_STATE_NOT_INITIALIZED
   \<and> fst (get_tx_metadata (make_tx_metadata_available example_connected)) =
       (LORAWAN_STATUS_OK, Some (tx_metadata (make_tx_metadata_available example_connected)))
   \<and> fst (get_tx_metadata (snd (get_tx_metadata (make_tx_metadata_available example_connected)))) =
       (LORAWAN_STATUS_METADATA_NOT_AVAILABLE, None)
   \<and> fst (get_rx_metadata (make_rx_metadata_available example_connected)) =
       (LORAWAN_STATUS_OK, Some (rx_metadata (make_rx_metadata_available example_connected)))
   \<and> fst (get_rx_metadata (snd (get_rx_metadata (make_rx_metadata_available example_connected)))) =
       (LORAWAN_STATUS_METADATA_NOT_AVAILABLE, None)"
proof -
  have a: "device_current_state example_connected \<noteq> DEVICE_STATE_NOT_INITIALIZED"
    by (simp add: example_connected_state)
  show ?thesis
    using a metadata_read_consume [of example_env example_mac 0 example_connected]
    by (simp add: Let_def case_prod_unfold)
qed

text \<open>
  C9 as stated fails on the constructed stack: the flag is true, no write has happened,
  and the read returns \<^verbatim>\<open>LORAWAN_STATUS_NOT_INITIALIZED\<close>, not
  \<^verbatim>\<open>LORAWAN_STATUS_METADATA_NOT_AVAILABLE\<close>.
\<close>

theorem metadata_read_not_initialized:
  "tx_stale (tx_metadata example_constructed)
   \<and> get_tx_metadata example_constructed =
       ((LORAWAN_STATUS_NOT_INITIALIZED, None), example_constructed)
   \<and> fst (fst (get_tx_metadata example_constructed)) \<noteq> LORAWAN_STATUS_METADATA_NOT_AVAILABLE
   \<and> get_rx_metadata example_constructed =
       ((LORAWAN_STATUS_NOT_INITIALIZED, None), example_constructed)"
  by (simp add: example_constructed_def get_tx_metadata_def get_rx_metadata_def
      acquire_tx_metadata_def acquire_rx_metadata_def LoRaWANStack_def)

subsection \<open>Ports\<close>

lemma is_port_valid_iff:
  "is_port_valid E p allow_port_0 =
     (if p = 0 then allow_port_0 else p = 224 \<longrightarrow> LORAWAN_COMPLIANCE_TEST E)"
  by (simp add: is_port_valid_def COMPLIANCE_TESTING_PORT_def)

text \<open>
  C2. The claim has the ports 225 to 255 rejected, as the header comments of
  \<^verbatim>\<open>send\<close> and \<^verbatim>\<open>handle_tx\<close> do (``anything out of this range is illegal''). The code
  accepts every one of them: \<open>is_port_valid\<close> rejects port 0 (unless \<open>allow_port_0\<close>) and
  port 224 (unless compliance testing is compiled in) and nothing else, and
  \<open>set_application_port\<close> stores the port and returns \<^verbatim>\<open>LORAWAN_STATUS_OK\<close>.
\<close>

theorem set_application_port_accepts_above_224:
  assumes "225 \<le> p"
  shows "is_port_valid E p False
       \<and> set_application_port E p False s = (LORAWAN_STATUS_OK, s\<lparr>app_port := p\<rparr>)"
proof -
  have "p \<noteq> 0" "p \<noteq> 224" using assms by auto
  then show ?thesis
    by (simp add: set_application_port_def is_port_valid_def COMPLIANCE_TESTING_PORT_def)
qed

theorem set_application_port_accepts_above_224_witness:
  "(225 :: u8) \<le> 255
   \<and> \<not> LORAWAN_COMPLIANCE_TEST example_env
   \<and> is_port_valid example_env 255 False
   \<and> set_application_port example_env 255 False example_connected =
       (LORAWAN_STATUS_OK, example_connected\<lparr>app_port := 255\<rparr>)"
proof -
  have a: "(225 :: u8) \<le> 255" by simp
  show ?thesis
    using a set_application_port_accepts_above_224 [OF a, of example_env example_connected]
    by (simp add: example_env_def)
qed

text \<open>An application \<^verbatim>\<open>send\<close> on port 225 of the connected example stack is scheduled.\<close>

lemma send_on_port_225:
  "fst (send example_env 225 (Some [1, 2]) 2 MSG_UNCONFIRMED_FLAG example_connected) = Count 2"
  "app_port (snd (send example_env 225 (Some [1, 2]) 2 MSG_UNCONFIRMED_FLAG example_connected)) = 225"
  "device_current_state (snd (send example_env 225 (Some [1, 2]) 2 MSG_UNCONFIRMED_FLAG example_connected))
     = DEVICE_STATE_SENDING"
  "mac_log (snd (send example_env 225 (Some [1, 2]) 2 MSG_UNCONFIRMED_FLAG example_connected)) =
     mac_log example_connected
       @ [Setup_reset_indication, Prepare_ongoing_tx 225 (Some [1, 2]) 2 1 1, Send_ongoing_tx,
          Set_tx_ongoing True]"
  by code_simp+

subsection \<open>The UTC system time\<close>

lemma unat_ucast_mod:
  fixes w :: "'b::len word"
  shows "unat (ucast w :: 'c::len word) = unat w mod 2 ^ LENGTH('c)"
  by (simp add: unsigned_ucast_eq take_bit_eq_mod)

lemma unat_gps_seconds:
  fixes g :: u64
  assumes "gps_seconds_rounded (unat g) < 2 ^ 32"
  shows "unat (if (ucast (g mod 1000) :: u32) \<ge> 500
               then (ucast (g div 1000) :: u32) + 1 else ucast (g div 1000))
         = gps_seconds_rounded (unat g)"
proof -
  have d: "unat (g div 1000) = unat g div 1000" by (simp add: unat_div)
  have m: "unat (g mod 1000) = unat g mod 1000" by (simp add: unat_mod)
  have lt: "unat g div 1000 < 2 ^ 32"
    using assms by (simp add: gps_seconds_rounded_def split: if_splits)
  have s: "unat (ucast (g div 1000) :: u32) = unat g div 1000"
    using lt by (simp add: unat_ucast_mod d)
  have ms: "unat (ucast (g mod 1000) :: u32) = unat g mod 1000"
    by (simp add: unat_ucast_mod m)
  have c: "((ucast (g mod 1000) :: u32) \<ge> 500) = (500 \<le> unat g mod 1000)"
    by (simp add: word_le_nat_alt ms)
  show ?thesis
  proof (cases "500 \<le> unat g mod 1000")
    case True
    then have r: "gps_seconds_rounded (unat g) = unat g div 1000 + 1"
      by (simp add: gps_seconds_rounded_def)
    have "unat ((ucast (g div 1000) :: u32) + 1) = (unat g div 1000 + 1) mod 2 ^ 32"
      by (simp add: unat_word_ariths s)
    also have "\<dots> = unat g div 1000 + 1" using assms r by simp
    finally show ?thesis using True c r by simp
  next
    case False
    then show ?thesis using c s by (simp add: gps_seconds_rounded_def)
  qed
qed

text \<open>
  C8. When the GPS time the stack reports is zero (not set), \<open>set_system_time_utc\<close>
  returns \<^verbatim>\<open>LORAWAN_STATUS_SERVICE_UNKNOWN\<close> and does not call \<^verbatim>\<open>set_time\<close>. Otherwise
  it returns \<^verbatim>\<open>LORAWAN_STATUS_OK\<close> and sets the time to the wall clock read at entry
  plus 315964800 plus \<open>tai_utc_diff - 19\<close> plus the GPS milliseconds rounded to the
  nearest second (up from 500 ms), for every width of \<^verbatim>\<open>lorawan_time_t\<close>, provided
  the machine arithmetic does not wrap: \<open>tai_utc_diff\<close> is at least 19, the rounded GPS
  seconds fit 32 bits and the sum fits \<^verbatim>\<open>lorawan_time_t\<close>.
\<close>

theorem set_system_time_utc_value:
  fixes s :: lorawan_stack and tai_utc_diff :: u32 and now :: nat
  defines "g \<equiv> unat (get_current_gps_time s)"
  defines "secs \<equiv> now + 315964800 + (unat tai_utc_diff - 19) + gps_seconds_rounded g"
  shows "(g = 0 \<longrightarrow>
            (set_system_time_utc now tai_utc_diff s :: lorawan_status \<times> 't::len word option)
              = (LORAWAN_STATUS_SERVICE_UNKNOWN, None))
       \<and> (g \<noteq> 0 \<longrightarrow> 19 \<le> unat tai_utc_diff \<longrightarrow> gps_seconds_rounded g < 2 ^ 32
             \<longrightarrow> secs < 2 ^ LENGTH('t) \<longrightarrow>
            (\<exists>v :: 't word. set_system_time_utc now tai_utc_diff s = (LORAWAN_STATUS_OK, Some v)
                 \<and> unat v = secs))"
proof (intro conjI impI)
  assume "g = 0"
  then have "get_current_gps_time s = 0" by (simp add: g_def unat_eq_0)
  then show "(set_system_time_utc now tai_utc_diff s :: lorawan_status \<times> 't word option)
              = (LORAWAN_STATUS_SERVICE_UNKNOWN, None)"
    by (simp add: set_system_time_utc_def Let_def)
next
  assume g0: "g \<noteq> 0" and tai: "19 \<le> unat tai_utc_diff"
    and r32: "gps_seconds_rounded g < 2 ^ 32" and fits: "secs < 2 ^ LENGTH('t)"
  let ?c = "get_current_gps_time s"
  let ?gs = "if (ucast (?c mod 1000) :: u32) \<ge> 500
             then (ucast (?c div 1000) :: u32) + 1 else ucast (?c div 1000)"
  let ?v = "(of_nat (now + UNIX_GPS_EPOCH_DIFF) + ucast (tai_utc_diff - 19) + ucast ?gs) :: 't word"
  have nz: "?c \<noteq> 0" using g0 by (auto simp: g_def)
  have eq: "set_system_time_utc now tai_utc_diff s = (LORAWAN_STATUS_OK, Some ?v)"
    using nz by (simp add: set_system_time_utc_def Let_def)
  have ugs: "unat ?gs = gps_seconds_rounded g"
    using unat_gps_seconds [of ?c] r32 by (simp add: g_def)
  have "(19 :: u32) \<le> tai_utc_diff" using tai by (simp add: word_le_nat_alt)
  then have ut: "unat (tai_utc_diff - 19) = unat tai_utc_diff - 19"
    by (simp add: unat_sub)
  have "unat ?v = (now + UNIX_GPS_EPOCH_DIFF + unat (tai_utc_diff - 19) + unat ?gs) mod 2 ^ LENGTH('t)"
    by (simp only: unat_word_ariths unat_of_nat unat_ucast_mod mod_simps)
  also have "\<dots> = secs mod 2 ^ LENGTH('t)"
    by (simp only: ut ugs secs_def UNIX_GPS_EPOCH_DIFF_def)
  also have "\<dots> = secs" using fits by simp
  finally have "unat ?v = secs" .
  with eq show "\<exists>v :: 't word. set_system_time_utc now tai_utc_diff s = (LORAWAN_STATUS_OK, Some v)
                 \<and> unat v = secs"
    by blast
qed

theorem set_system_time_utc_value_witness:
  "get_current_gps_time example_connected = 0
   \<and> (set_system_time_utc 0 37 example_connected :: lorawan_status \<times> 32 word option)
       = (LORAWAN_STATUS_SERVICE_UNKNOWN, None)
   \<and> unat (get_current_gps_time example_time_synched) = 1234567890500
   \<and> 19 \<le> unat (37 :: u32)
   \<and> gps_seconds_rounded 1234567890500 = 1234567891
   \<and> (\<exists>v :: 32 word.
         set_system_time_utc 0 37 example_time_synched = (LORAWAN_STATUS_OK, Some v)
         \<and> unat v = 315964800 + 18 + 1234567891)"
proof -
  have z: "get_current_gps_time example_connected = 0"
    by code_simp
  have g: "unat (get_current_gps_time example_time_synched) = 1234567890500"
    by (simp add: example_time_synched_def get_current_gps_time_def)
  have r: "gps_seconds_rounded 1234567890500 = 1234567891"
    by (simp add: gps_seconds_rounded_def)
  have u: "(set_system_time_utc 0 37 example_connected :: lorawan_status \<times> 32 word option)
             = (LORAWAN_STATUS_SERVICE_UNKNOWN, None)"
    using set_system_time_utc_value [of example_connected 0 37, where 't = 32] z by simp
  have v: "\<exists>v :: 32 word.
         set_system_time_utc 0 37 example_time_synched = (LORAWAN_STATUS_OK, Some v)
         \<and> unat v = 315964800 + 18 + 1234567891"
    using set_system_time_utc_value [of example_time_synched 0 37, where 't = 32] g r by simp
  show ?thesis using z g r u v by simp
qed

text \<open>The example of the specification, evaluated: 315964800 + 18 + 1234567891 = 1550532709.\<close>

lemma set_system_time_utc_example:
  "(set_system_time_utc 0 37 example_time_synched :: lorawan_status \<times> 32 word option)
     = (LORAWAN_STATUS_OK, Some 1550532709)"
  by (simp add: set_system_time_utc_def example_time_synched_def get_current_gps_time_def
      UNIX_GPS_EPOCH_DIFF_def Let_def)

subsection \<open>Draining a downlink\<close>

text \<open>
  C1. The claim holds of no downlink that arrives while an earlier one is partly read:
  \<open>handle_rx\<close> takes the call for the first one of a message when \<open>pending_size\<close> is
  zero, and the handler of the MCPS indication, which stores the new message, leaves
  \<open>pending_size\<close> and \<open>prev_read_size\<close> as they are. Here the application has read 10
  of 30 bytes when a downlink of 5 bytes arrives. The next call returns 10 bytes, read
  at offset 10 of the new buffer (beyond its 5 bytes), the one after it 10 more; none of
  the bytes returned is a byte of the payload.
\<close>

theorem handle_rx_stale_cursor:
  "receive_ready (rx_msg example_overwritten)
   \<and> port (mcps_indication (rx_msg example_overwritten)) = 10
   \<and> buffer_size (mcps_indication (rx_msg example_overwritten)) = 5
   \<and> buffer (mcps_indication (rx_msg example_overwritten)) = Some (payload_B @ drop 5 payload_A)
   \<and> prev_read_size (rx_msg example_overwritten) = 10
   \<and> pending_size (rx_msg example_overwritten) = 20
   \<and> fst (receive_all 10 MSG_UNCONFIRMED_FLAG [10, 10, 10] example_overwritten) =
       [(Count 10, take 10 (drop 10 payload_A)),
        (Count 10, take 10 (drop 20 payload_A)),
        (Status LORAWAN_STATUS_WOULD_BLOCK, [])]
   \<and> concat (map snd (fst (receive_all 10 MSG_UNCONFIRMED_FLAG [10, 10, 10] example_overwritten)))
       \<noteq> payload_B"
  by code_simp

subsection \<open>Forced rejoin\<close>

lemma mac_do_more [simp]:
  "forced_counter (mac_do E c s) = forced_counter s"
  "forced_retry_count (mac_do E c s) = forced_retry_count s"
  "forced_rejoin_type (mac_do E c s) = forced_rejoin_type s"
  "forced_period (mac_do E c s) = forced_period s"
  "forced_datarate (mac_do E c s) = forced_datarate s"
  "mac_log (mac_do E c s) = mac_log s @ [c]"
  "loramac (mac_do E c s) = mac_effect E c (loramac s)"
  by (simp_all add: mac_do_def)

lemma process_rejoin_frame:
  assumes "\<forall>c m. get_server_type (mac_effect E c m) = get_server_type m"
    and "get_server_type (loramac s) = LW1_1"
  shows "forced_counter (process_rejoin E t f s) = forced_counter s"
    and "forced_retry_count (process_rejoin E t f s) = forced_retry_count s"
    and "forced_rejoin_type (process_rejoin E t f s) = forced_rejoin_type s"
    and "forced_period (process_rejoin E t f s) = forced_period s"
    and "get_server_type (loramac (process_rejoin E t f s)) = LW1_1"
    and "rejoin_attempts (process_rejoin E t f s) = Suc (rejoin_attempts s)"
    and "filter is_rejoin (mac_log (process_rejoin E t f s))
           = filter is_rejoin (mac_log s) @ [Rejoin t f (forced_datarate s)]"
  using assms by (simp_all add: process_rejoin_def Let_def rejoin_attempts_def)

lemma forced_timer_expiry_step:
  assumes st: "\<forall>c m. get_server_type (mac_effect E c m) = get_server_type m"
    and lw: "get_server_type (loramac s) = LW1_1"
    and lt: "forced_counter s < forced_retry_count s"
  shows "forced_counter (forced_timer_expiry E s) = forced_counter s"
    and "forced_retry_count (forced_timer_expiry E s) = forced_retry_count s"
    and "get_server_type (loramac (forced_timer_expiry E s)) = LW1_1"
    and "rejoin_attempts (forced_timer_expiry E s) = Suc (rejoin_attempts s)"
    and "last (mac_log (forced_timer_expiry E s)) = Timer_start Forced_timer (forced_period s)"
  using lt lw st process_rejoin_frame [OF st lw]
  by (simp_all add: forced_timer_expiry_def Let_def rejoin_attempts_def)

lemma forced_timer_expiries:
  assumes st: "\<forall>c m. get_server_type (mac_effect E c m) = get_server_type m"
    and lw: "get_server_type (loramac s) = LW1_1"
    and lt: "forced_counter s < forced_retry_count s"
  shows "forced_counter ((forced_timer_expiry E ^^ n) s) = forced_counter s
       \<and> forced_retry_count ((forced_timer_expiry E ^^ n) s) = forced_retry_count s
       \<and> get_server_type (loramac ((forced_timer_expiry E ^^ n) s)) = LW1_1
       \<and> rejoin_attempts ((forced_timer_expiry E ^^ n) s) = rejoin_attempts s + n"
proof (induction n)
  case 0
  then show ?case using lw by simp
next
  case (Suc n)
  let ?t = "(forced_timer_expiry E ^^ n) s"
  from Suc have a: "get_server_type (loramac ?t) = LW1_1"
    and b: "forced_counter ?t < forced_retry_count ?t" using lt by simp_all
  show ?case using Suc forced_timer_expiry_step [OF st a b] by simp
qed

lemma force_rejoin_confirm:
  assumes st: "\<forall>c m. get_server_type (mac_effect E c m) = get_server_type m"
    and lw: "get_server_type (loramac s) = LW1_1"
    and ty: "mlme_type c = MLME_FORCE_REJOIN"
    and rt: "rejoin_type c \<le> REJOIN_REQUEST_TYPE2"
  shows "forced_counter (mlme_confirm_handler E c s) = 0"
    and "forced_retry_count (mlme_confirm_handler E c s) =
           (if max_retries c \<noteq> 0 then max_retries c + 1 else 0)"
    and "forced_rejoin_type (mlme_confirm_handler E c s) =
           (if rejoin_type c = REJOIN_REQUEST_TYPE1 then REJOIN_REQUEST_TYPE0 else rejoin_type c)"
    and "forced_period (mlme_confirm_handler E c s) =
           of_nat ((2 ^ unat (period c) * 32 + rand E (rand_calls s) mod 33) * 1000)"
    and "get_server_type (loramac (mlme_confirm_handler E c s)) = LW1_1"
    and "filter is_rejoin (mac_log (mlme_confirm_handler E c s)) =
           filter is_rejoin (mac_log s)
             @ [Rejoin (if rejoin_type c = REJOIN_REQUEST_TYPE1 then REJOIN_REQUEST_TYPE0
                        else rejoin_type c) True (datarate c)]"
proof -
  define per :: u32
    where "per = of_nat ((2 ^ unat (period c) * 32 + rand E (rand_calls s) mod 33) * 1000)"
  define cnt where "cnt = (if max_retries c \<noteq> 0 then max_retries c + 1 else 0)"
  define rty where "rty =
    (if rejoin_type c = REJOIN_REQUEST_TYPE1 then REJOIN_REQUEST_TYPE0 else rejoin_type c)"
  define s2 where "s2 = reset_forced_rejoin E
    (s\<lparr>forced_datarate := datarate c, forced_period := per,
       rand_calls := Suc (rand_calls s), forced_retry_count := cnt,
       forced_rejoin_type := rty\<rparr>)"
  define s3 where "s3 = process_rejoin E (forced_rejoin_type s2) True s2"
  have c0: "(if max_retries c \<noteq> 0 then max_retries c + 1 else max_retries c) = cnt"
    by (simp add: cnt_def)
  have h: "mlme_confirm_handler E c s =
             (if forced_retry_count s3 \<noteq> 0
              then mac_do E (Timer_start Forced_timer (forced_period s3)) s3 else s3)"
    using lw ty rt
    by (simp only: mlme_confirm_handler_def Let_def s3_def s2_def per_def rty_def c0)
       simp
  have lw2: "get_server_type (loramac s2) = LW1_1"
    using st lw by (simp add: s2_def reset_forced_rejoin_def)
  have f2: "forced_counter s2 = 0" "forced_retry_count s2 = cnt" "forced_rejoin_type s2 = rty"
    "forced_period s2 = per" "forced_datarate s2 = datarate c"
    "filter is_rejoin (mac_log s2) = filter is_rejoin (mac_log s)"
    by (simp_all add: s2_def reset_forced_rejoin_def)
  note p = process_rejoin_frame [OF st lw2, of rty True, folded f2(3), folded s3_def]
  have f3: "forced_counter s3 = 0" "forced_retry_count s3 = cnt" "forced_rejoin_type s3 = rty"
    "forced_period s3 = per" "get_server_type (loramac s3) = LW1_1"
    "filter is_rejoin (mac_log s3) = filter is_rejoin (mac_log s) @ [Rejoin rty True (datarate c)]"
    using p f2 by simp_all
  show "forced_counter (mlme_confirm_handler E c s) = 0"
    using f3(1) by (simp add: h)
  show "forced_retry_count (mlme_confirm_handler E c s) =
           (if max_retries c \<noteq> 0 then max_retries c + 1 else 0)"
    using f3(2) by (simp add: h cnt_def)
  show "forced_rejoin_type (mlme_confirm_handler E c s) =
           (if rejoin_type c = REJOIN_REQUEST_TYPE1 then REJOIN_REQUEST_TYPE0 else rejoin_type c)"
    using f3(3) by (simp add: h rty_def)
  show "forced_period (mlme_confirm_handler E c s) =
           of_nat ((2 ^ unat (period c) * 32 + rand E (rand_calls s) mod 33) * 1000)"
    using f3(4) by (simp add: h per_def)
  show "get_server_type (loramac (mlme_confirm_handler E c s)) = LW1_1"
    using f3(5) st by (simp add: h)
  show "filter is_rejoin (mac_log (mlme_confirm_handler E c s)) =
           filter is_rejoin (mac_log s)
             @ [Rejoin (if rejoin_type c = REJOIN_REQUEST_TYPE1 then REJOIN_REQUEST_TYPE0
                        else rejoin_type c) True (datarate c)]"
    using f3(6) by (simp add: h rty_def)
qed

text \<open>
  C7. The attempts that a ForceRejoinReq triggers are not bounded by its retry count.
  \<open>forced_timer_expiry\<close> compares \<^verbatim>\<open>_forced_counter\<close> with \<^verbatim>\<open>_forced_retry_count\<close>, and
  no statement of the stack increments \<^verbatim>\<open>_forced_counter\<close>: it is zero after the
  confirmation and zero after every expiry. So, on a LoRaWAN 1.1 server and for a
  command with a retry count from 1 to 254, the confirmation makes one attempt and each
  of the \<open>n\<close> expiries of the timer that follow makes one more and starts the timer
  again: \<open>n + 1\<close> attempts, for every \<open>n\<close>. (The period and the rewriting of type 1 to
  type 0 are as claimed: \<open>force_rejoin_confirm\<close>.)
\<close>

theorem forced_rejoin_attempts_unbounded:
  assumes st: "\<forall>c m. get_server_type (mac_effect E c m) = get_server_type m"
    and lw: "get_server_type (loramac s) = LW1_1"
    and ty: "mlme_type c = MLME_FORCE_REJOIN"
    and rt: "rejoin_type c \<le> REJOIN_REQUEST_TYPE2"
    and mr: "0 < max_retries c" "max_retries c < 255"
  shows "rejoin_attempts ((forced_timer_expiry E ^^ n) (mlme_confirm_handler E c s))
           = rejoin_attempts s + n + 1
       \<and> forced_counter ((forced_timer_expiry E ^^ n) (mlme_confirm_handler E c s)) = 0"
proof -
  let ?t = "mlme_confirm_handler E c s"
  note f = force_rejoin_confirm [OF st lw ty rt]
  have nz: "max_retries c \<noteq> 0" using mr(1) by auto
  have "unat (max_retries c + 1) = (unat (max_retries c) + 1) mod 256"
    by (simp add: unat_word_ariths)
  moreover have "unat (max_retries c) < 255" using mr(2) by (simp add: word_less_nat_alt)
  ultimately have "unat (max_retries c + 1) \<noteq> 0" by simp
  then have "max_retries c + 1 \<noteq> 0" by (auto simp: unat_eq_0)
  then have lt: "forced_counter ?t < forced_retry_count ?t"
    using f(1,2) nz by (simp add: word_gt_0)
  have a: "rejoin_attempts ?t = Suc (rejoin_attempts s)"
    using f(6) by (simp add: rejoin_attempts_def)
  show ?thesis
    using forced_timer_expiries [OF st f(5) lt, of n] f(1) a by simp
qed

theorem forced_rejoin_attempts_unbounded_witness:
  "(\<forall>c m. get_server_type (mac_effect example_env c m) = get_server_type m)
   \<and> get_server_type (loramac example_connected) = LW1_1
   \<and> mlme_type example_force_rejoin_req = MLME_FORCE_REJOIN
   \<and> rejoin_type example_force_rejoin_req \<le> REJOIN_REQUEST_TYPE2
   \<and> max_retries example_force_rejoin_req = 1
   \<and> rejoin_attempts example_connected = 0
   \<and> rejoin_attempts
       ((forced_timer_expiry example_env ^^ 3)
          (mlme_confirm_handler example_env example_force_rejoin_req example_connected)) = 4"
proof -
  have st: "\<forall>c m. get_server_type (mac_effect example_env c m) = get_server_type m"
  proof (intro allI)
    fix c m show "get_server_type (mac_effect example_env c m) = get_server_type m"
      by (cases c) (simp_all add: example_env_def)
  qed
  have lw: "get_server_type (loramac example_connected) = LW1_1" by code_simp
  have ty: "mlme_type example_force_rejoin_req = MLME_FORCE_REJOIN"
    and rt: "rejoin_type example_force_rejoin_req \<le> REJOIN_REQUEST_TYPE2"
    and mr: "max_retries example_force_rejoin_req = 1"
    by (simp_all add: example_force_rejoin_req_def REJOIN_REQUEST_TYPE2_def)
  have m1: "0 < max_retries example_force_rejoin_req"
    and m2: "max_retries example_force_rejoin_req < 255"
    by (simp_all add: mr)
  have z: "rejoin_attempts example_connected = 0" by code_simp
  have "rejoin_attempts
       ((forced_timer_expiry example_env ^^ 3)
          (mlme_confirm_handler example_env example_force_rejoin_req example_connected)) = 4"
    using forced_rejoin_attempts_unbounded [OF st lw ty rt m1 m2, of 3] z
    by (simp only: add_0 one_add_one numeral_plus_one semiring_norm)
  with st lw ty rt mr z show ?thesis by blast
qed

subsection \<open>Shutdown\<close>

lemma send_event_fields [simp]:
  "device_current_state (send_event_to_application ev s) = device_current_state s"
  "ctrl_flags (send_event_to_application ev s) = ctrl_flags s"
  "lw_session (send_event_to_application ev s) = lw_session s"
  "loramac (send_event_to_application ev s) = loramac s"
  "mac_log (send_event_to_application ev s) = mac_log s"
  "rx_msg (send_event_to_application ev s) = rx_msg s"
  "tx_metadata (send_event_to_application ev s) = tx_metadata s"
  "rx_metadata (send_event_to_application ev s) = rx_metadata s"
  "callbacks_events (send_event_to_application ev s) = callbacks_events s"
  "queue (send_event_to_application ev s) =
     queue s @ (if callbacks_events s then [App_event ev] else [])"
  by (simp_all add: send_event_to_application_def enqueue_def)

lemma disconnect_result:
  assumes "device_current_state s \<noteq> DEVICE_STATE_NOT_INITIALIZED"
  shows "fst (disconnect E s) = LORAWAN_STATUS_DEVICE_OFF"
    and "ctrl_flags (snd (disconnect E s)) = 0"
    and "\<not> active (lw_session (snd (disconnect E s)))"
    and "device_current_state (snd (disconnect E s)) = DEVICE_STATE_SHUTDOWN"
    and "queue (snd (disconnect E s)) =
           queue s @ (if callbacks_events s then [App_event DISCONNECTED] else [])"
    and "mac_log (snd (disconnect E s)) = mac_log s @ [Remove_channel_plan, Disconnect]"
  using assms
  by (simp_all add: disconnect_def shutdown_def state_controller_def process_shutdown_state_def
      drop_channel_list_def Let_def)

lemma connect_with_abp_from_shutdown:
  assumes sd: "device_current_state s = DEVICE_STATE_SHUTDOWN"
    and fl: "ctrl_flags s = 0"
    and ok: "mac_status E (Prepare_join (Some LORAWAN_CONNECTION_ABP) False) (loramac s)
               = LORAWAN_STATUS_OK"
  shows "active (lw_session (snd (connect_with E LORAWAN_CONNECTION_ABP s)))"
    and "flag_set CONNECTED_FLAG (ctrl_flags (snd (connect_with E LORAWAN_CONNECTION_ABP s)))"
    and "device_current_state (snd (connect_with E LORAWAN_CONNECTION_ABP s)) = DEVICE_STATE_IDLE"
    and "mac_log (snd (connect_with E LORAWAN_CONNECTION_ABP s)) =
           mac_log s @ [Prepare_join (Some LORAWAN_CONNECTION_ABP) False, Join False]"
proof -
  have d: "CONNECTED_FLAG AND CONN_IN_PROGRESS_FLAG = 0" "CONNECTED_FLAG \<noteq> 0"
    "USING_OTAA_FLAG AND CONN_IN_PROGRESS_FLAG = 0"
    by (simp_all add: CONNECTED_FLAG_def CONN_IN_PROGRESS_FLAG_def USING_OTAA_FLAG_def)
  have e: "connect_with E LORAWAN_CONNECTION_ABP s =
             handle_connect E False
               (mac_do E (Prepare_join (Some LORAWAN_CONNECTION_ABP) False) s)"
    using sd fl ok by (simp add: connect_with_def flag_set_zero Let_def)
  have o: "\<not> flag_set USING_OTAA_FLAG ((0 OR CONN_IN_PROGRESS_FLAG) AND NOT USING_OTAA_FLAG)"
    by (rule flag_set_and_not_same)
  show "active (lw_session (snd (connect_with E LORAWAN_CONNECTION_ABP s)))"
    using fl o
    by (simp add: e handle_connect_def state_controller_def process_connecting_state_def
        process_connected_state_def Let_def)
  show "flag_set CONNECTED_FLAG (ctrl_flags (snd (connect_with E LORAWAN_CONNECTION_ABP s)))"
    using fl o
    by (simp add: e handle_connect_def state_controller_def process_connecting_state_def
        process_connected_state_def Let_def flag_set_and_not_other d flag_set_or_same)
  show "device_current_state (snd (connect_with E LORAWAN_CONNECTION_ABP s)) = DEVICE_STATE_IDLE"
    using fl o
    by (simp add: e handle_connect_def state_controller_def process_connecting_state_def
        process_connected_state_def Let_def)
  show "mac_log (snd (connect_with E LORAWAN_CONNECTION_ABP s)) =
           mac_log s @ [Prepare_join (Some LORAWAN_CONNECTION_ABP) False, Join False]"
    using fl o
    by (simp add: e handle_connect_def state_controller_def process_connecting_state_def
        process_connected_state_def Let_def mac_do_def)
qed

text \<open>
  C6, as amended. A \<^verbatim>\<open>disconnect\<close> on an initialised stack returns
  \<^verbatim>\<open>LORAWAN_STATUS_DEVICE_OFF\<close> and leaves all control flags zero, the session
  inactive and the state \<^verbatim>\<open>DEVICE_STATE_SHUTDOWN\<close>; it queues the event
  \<^verbatim>\<open>DISCONNECTED\<close> when an event callback is registered. The stack needs no
  re-initialisation after that: \<^verbatim>\<open>connect\<close> is accepted in the shutdown state
  (\<open>process_connecting_state\<close> expects \<^verbatim>\<open>IDLE\<close> or \<^verbatim>\<open>SHUTDOWN\<close>), and for an
  activation by personalisation whose \<^verbatim>\<open>prepare_join\<close> succeeds the session is active
  and the stack connected and idle again, with no call of the MAC's \<^verbatim>\<open>initialize\<close>.
\<close>

theorem shutdown_then_connect:
  assumes "device_current_state s \<noteq> DEVICE_STATE_NOT_INITIALIZED"
  shows "fst (disconnect E s) = LORAWAN_STATUS_DEVICE_OFF
       \<and> ctrl_flags (snd (disconnect E s)) = 0
       \<and> \<not> active (lw_session (snd (disconnect E s)))
       \<and> device_current_state (snd (disconnect E s)) = DEVICE_STATE_SHUTDOWN
       \<and> queue (snd (disconnect E s)) =
           queue s @ (if callbacks_events s then [App_event DISCONNECTED] else [])
       \<and> (mac_status E (Prepare_join (Some LORAWAN_CONNECTION_ABP) False)
             (loramac (snd (disconnect E s))) = LORAWAN_STATUS_OK \<longrightarrow>
            active (lw_session (snd (connect_with E LORAWAN_CONNECTION_ABP (snd (disconnect E s)))))
          \<and> flag_set CONNECTED_FLAG
               (ctrl_flags (snd (connect_with E LORAWAN_CONNECTION_ABP (snd (disconnect E s)))))
          \<and> device_current_state (snd (connect_with E LORAWAN_CONNECTION_ABP (snd (disconnect E s))))
               = DEVICE_STATE_IDLE
          \<and> mac_log (snd (connect_with E LORAWAN_CONNECTION_ABP (snd (disconnect E s)))) =
               mac_log (snd (disconnect E s))
                 @ [Prepare_join (Some LORAWAN_CONNECTION_ABP) False, Join False])"
  using disconnect_result [OF assms, of E]
    connect_with_abp_from_shutdown [of "snd (disconnect E s)" E]
  by simp

theorem shutdown_then_connect_witness:
  "device_current_state example_connected \<noteq> DEVICE_STATE_NOT_INITIALIZED
   \<and> callbacks_events example_connected
   \<and> fst (disconnect example_env example_connected) = LORAWAN_STATUS_DEVICE_OFF
   \<and> ctrl_flags example_shut_down = 0
   \<and> \<not> active (lw_session example_shut_down)
   \<and> device_current_state example_shut_down = DEVICE_STATE_SHUTDOWN
   \<and> queue example_shut_down = queue example_connected @ [App_event DISCONNECTED]
   \<and> active (lw_session (snd (connect_with example_env LORAWAN_CONNECTION_ABP example_shut_down)))"
proof -
  have a: "device_current_state example_connected \<noteq> DEVICE_STATE_NOT_INITIALIZED"
    and b: "callbacks_events example_connected"
    by (simp_all add: example_connected_state)
  have c: "mac_status example_env (Prepare_join (Some LORAWAN_CONNECTION_ABP) False)
             (loramac (snd (disconnect example_env example_connected))) = LORAWAN_STATUS_OK"
    by (simp add: example_env_def)
  show ?thesis
    using a b c shutdown_then_connect [OF a, of example_env]
    by (simp add: example_shut_down_def)
qed

text \<open>
  C6 as stated fails: after the shutdown of the connected example stack, a \<^verbatim>\<open>connect\<close>
  alone, with no initialisation, returns it to operation. The session is active, the
  stack is joined and an application \<^verbatim>\<open>send\<close> is accepted.
\<close>

theorem connect_after_shutdown:
  "device_current_state example_shut_down = DEVICE_STATE_SHUTDOWN
   \<and> \<not> active (lw_session example_shut_down)
   \<and> ctrl_flags example_shut_down = 0
   \<and> fst (connect example_env example_shut_down) = LORAWAN_STATUS_OK
   \<and> device_current_state example_reconnected = DEVICE_STATE_IDLE
   \<and> active (lw_session example_reconnected)
   \<and> nwk_joined (loramac example_reconnected)
   \<and> ctrl_flags example_reconnected = CONNECTED_FLAG
   \<and> queue example_reconnected = queue example_shut_down @ [App_event CONNECTED]
   \<and> mac_log example_reconnected = mac_log example_shut_down @ [Prepare_join None False, Join False]
   \<and> fst (send example_env 5 (Some [1]) 1 MSG_UNCONFIRMED_FLAG example_reconnected) = Count 1"
  by code_simp

subsection \<open>Changing the device class\<close>

lemma process_scheduling_state_log:
  "x \<in> set (mac_log s) \<Longrightarrow> x \<in> set (mac_log (snd (process_scheduling_state E s)))"
  by (simp add: process_scheduling_state_def Let_def mac_do_def)

lemma schedule_tx_log:
  assumes "x \<in> set (mac_log s)"
  shows "x \<in> set (mac_log (snd (schedule_tx E p data len flags allow_port_0 s)))"
proof -
  define s3 where "s3 = (if link_check_requested s then mac_do E Setup_link_check_request s else s)"
  define s4 where
    "s4 = (if device_time_requested s3 then mac_do E Setup_device_time_request s3 else s3)"
  define s5 where
    "s5 = (if ping_slot_info_requested s4 then mac_do E Add_ping_slot_info_req s4 else s4)"
  define s6 where "s6 = s5\<lparr>qos_cnt := 1\<rparr>"
  define s7 where "s7 = snd (set_application_port E p allow_port_0 s6)"
  define c where "c = Prepare_ongoing_tx p data len flags (num_retry s7)"
  define s9 where "s9 = snd (state_controller E DEVICE_STATE_SCHEDULING (mac_do E c s7))"
  have 3: "x \<in> set (mac_log s3)" using assms by (simp add: s3_def mac_do_def)
  have 4: "x \<in> set (mac_log s4)" using 3 by (simp add: s4_def mac_do_def)
  have 5: "x \<in> set (mac_log s5)" using 4 by (simp add: s5_def mac_do_def)
  have 6: "x \<in> set (mac_log s6)" using 5 by (simp add: s6_def)
  have 7: "x \<in> set (mac_log s7)" using 6 by (simp add: s7_def set_application_port_def)
  have 9: "x \<in> set (mac_log s9)"
    using 7 by (simp add: s9_def state_controller_def process_scheduling_state_log mac_do_def)
  have "snd (schedule_tx E p data len flags allow_port_0 s) \<in> {s, s6, s7, s9}"
    unfolding schedule_tx_def Let_def
    by (simp only: s3_def [symmetric] s4_def [symmetric] s5_def [symmetric] s6_def [symmetric])
       (simp add: s7_def s9_def c_def split: prod.splits)
  then show ?thesis using assms 6 7 9 by auto
qed

lemma stage_indications_piggybacks:
  assumes "device_mode_ind_needed t"
  shows "Setup_device_mode_indication (new_class_type t) \<in> set (mac_log (stage_indications E t))"
  using assms
  by (simp add: stage_indications_def Let_def set_reset_indication_def set_rekey_indication_def
      set_device_mode_indication_def mac_do_def send_event_to_application_def enqueue_def)

lemma handle_tx_piggybacks:
  assumes "device_current_state t \<noteq> DEVICE_STATE_NOT_INITIALIZED"
    and "null_allowed \<or> data \<noteq> None"
    and "\<not> flag_set REJOIN_IN_PROGRESS (ctrl_flags t)"
    and "device_mode_ind_needed t"
  shows "Setup_device_mode_indication (new_class_type t)
           \<in> set (mac_log (snd (handle_tx E p data len flags null_allowed allow_port_0 t)))"
proof -
  have "handle_tx E p data len flags null_allowed allow_port_0 t =
          schedule_tx E p data len flags allow_port_0 (stage_indications E t)"
    using assms(1,2,3) by (auto simp: handle_tx_def)
  then show ?thesis
    using schedule_tx_log [OF stage_indications_piggybacks [OF assms(4)]] by simp
qed

lemma set_device_class_lw11:
  assumes "device_current_state s \<noteq> DEVICE_STATE_NOT_INITIALIZED"
    and "get_server_type (loramac s) = LW1_1"
    and "dc \<noteq> CLASS_B" and "get_device_class (loramac s) \<noteq> dc"
  shows "set_device_class E dc s =
           (LORAWAN_STATUS_OK,
            s\<lparr>new_class_type := dc, device_mode_ind_needed := True,
               device_mode_ind_ongoing := True\<rparr>)"
  using assms by (simp add: set_device_class_def)

lemma process_transmission_switches_class:
  assumes st: "\<forall>c m. get_server_type (mac_effect E c m) = get_server_type m"
    and lw: "get_server_type (loramac s) = LW1_1"
    and on: "device_mode_ind_ongoing s"
  shows "mac_log (process_transmission E s) =
           mac_log s @ [On_radio_tx_done (tx_timestamp s), Set_device_class (new_class_type s)]"
    and "queue (process_transmission E s) =
           queue s @ (if callbacks_events s then [App_event CLASS_CHANGED] else [])"
    and "\<not> device_mode_ind_ongoing (process_transmission E s)"
    and "device_mode_ind_needed (process_transmission E s) = device_mode_ind_needed s"
proof -
  define s3 where "s3 =
    (let s1 = make_tx_metadata_available s;
         s2 = (if device_current_state s1 = DEVICE_STATE_JOINING
               then s1\<lparr>device_current_state := DEVICE_STATE_AWAITING_JOIN_ACCEPT\<rparr> else s1)
     in if device_current_state s2 = DEVICE_STATE_SENDING
           \<and> req_type (get_mcps_confirmation (loramac s2)) = MCPS_CONFIRMED
        then s2\<lparr>device_current_state := DEVICE_STATE_AWAITING_ACK\<rparr> else s2)"
  define s4 where "s4 = mac_do E (On_radio_tx_done (tx_timestamp s3)) s3"
  have f3: "mac_log s3 = mac_log s" "queue s3 = queue s" "loramac s3 = loramac s"
    "device_mode_ind_ongoing s3 = device_mode_ind_ongoing s"
    "device_mode_ind_needed s3 = device_mode_ind_needed s"
    "new_class_type s3 = new_class_type s" "tx_timestamp s3 = tx_timestamp s"
    "callbacks_events s3 = callbacks_events s"
    by (simp_all add: s3_def Let_def make_tx_metadata_available_def)
  have f4: "mac_log s4 = mac_log s @ [On_radio_tx_done (tx_timestamp s)]" "queue s4 = queue s"
    "get_server_type (loramac s4) = LW1_1"
    "device_mode_ind_ongoing s4" "device_mode_ind_needed s4 = device_mode_ind_needed s"
    "new_class_type s4 = new_class_type s" "callbacks_events s4 = callbacks_events s"
    using f3 st lw on by (simp_all add: s4_def mac_do_def)
  have h: "process_transmission E s =
             send_event_to_application CLASS_CHANGED
               (mac_do E (Set_device_class (new_class_type s4))
                  (s4\<lparr>device_mode_ind_ongoing := False\<rparr>))"
    using f4(3,4) unfolding process_transmission_def Let_def s4_def s3_def by simp
  show "mac_log (process_transmission E s) =
           mac_log s @ [On_radio_tx_done (tx_timestamp s), Set_device_class (new_class_type s)]"
    using f4 by (simp add: h send_event_to_application_def enqueue_def mac_do_def)
  show "queue (process_transmission E s) =
           queue s @ (if callbacks_events s then [App_event CLASS_CHANGED] else [])"
    using f4 by (simp add: h send_event_to_application_def enqueue_def mac_do_def)
  show "\<not> device_mode_ind_ongoing (process_transmission E s)"
    by (simp add: h send_event_to_application_def enqueue_def mac_do_def)
  show "device_mode_ind_needed (process_transmission E s) = device_mode_ind_needed s"
    using f4 by (simp add: h send_event_to_application_def enqueue_def mac_do_def)
qed

lemma device_mode_conf:
  assumes "mlme_type c = MLME_DEVICE_MODE"
  shows "mlme_confirm_handler E c t =
           send_event_to_application
             (if get_device_class (loramac t) = classType c then SERVER_ACCEPTED_CLASS_IN_USE
              else SERVER_DOES_NOT_SUPPORT_CLASS_IN_USE)
             (t\<lparr>device_mode_ind_needed := False\<rparr>)"
  using assms by (simp add: mlme_confirm_handler_def Let_def)

lemma example_env_server_stable:
  "\<forall>c m. get_server_type (mac_effect example_env c m) = get_server_type m"
proof (intro allI)
  fix c m show "get_server_type (mac_effect example_env c m) = get_server_type m"
    by (cases c) (simp_all add: example_env_def)
qed

text \<open>
  C3, as amended. On a LoRaWAN 1.1 server, a \<^verbatim>\<open>set_device_class\<close> to a class other
  than B and other than the current one only records the class and sets
  \<^verbatim>\<open>_device_mode_ind_needed\<close> and \<^verbatim>\<open>_device_mode_ind_ongoing\<close>: the MAC is not asked to
  switch and no event is queued. The switch happens when the next transmission
  completes: \<open>process_transmission\<close> asks the MAC for the new class and queues
  \<^verbatim>\<open>CLASS_CHANGED\<close>, without waiting for DeviceModeConf. Every \<open>handle_tx\<close> that passes its
  first checks stages DeviceModeInd while \<^verbatim>\<open>_device_mode_ind_needed\<close> is set, and it
  stays set across the switch. The confirmation (\<^verbatim>\<open>MLME_DEVICE_MODE\<close>) clears it and
  queues \<^verbatim>\<open>SERVER_ACCEPTED_CLASS_IN_USE\<close> or \<^verbatim>\<open>SERVER_DOES_NOT_SUPPORT_CLASS_IN_USE\<close>;
  it does not touch the class. (The MAC is taken not to change the server type.)
\<close>

theorem device_class_change_at_tx_done:
  assumes st: "\<forall>c m. get_server_type (mac_effect E c m) = get_server_type m"
    and init: "device_current_state s \<noteq> DEVICE_STATE_NOT_INITIALIZED"
    and lw: "get_server_type (loramac s) = LW1_1"
    and dc: "dc \<noteq> CLASS_B" "get_device_class (loramac s) \<noteq> dc"
  shows "set_device_class E dc s =
           (LORAWAN_STATUS_OK,
            s\<lparr>new_class_type := dc, device_mode_ind_needed := True,
               device_mode_ind_ongoing := True\<rparr>)
       \<and> mac_log (process_transmission E (snd (set_device_class E dc s))) =
           mac_log s @ [On_radio_tx_done (tx_timestamp s), Set_device_class dc]
       \<and> queue (process_transmission E (snd (set_device_class E dc s))) =
           queue s @ (if callbacks_events s then [App_event CLASS_CHANGED] else [])
       \<and> device_mode_ind_needed (process_transmission E (snd (set_device_class E dc s)))
       \<and> \<not> device_mode_ind_ongoing (process_transmission E (snd (set_device_class E dc s)))
       \<and> (\<forall>c t. mlme_type c = MLME_DEVICE_MODE \<longrightarrow>
             mlme_confirm_handler E c t =
               send_event_to_application
                 (if get_device_class (loramac t) = classType c then SERVER_ACCEPTED_CLASS_IN_USE
                  else SERVER_DOES_NOT_SUPPORT_CLASS_IN_USE)
                 (t\<lparr>device_mode_ind_needed := False\<rparr>))
       \<and> (\<forall>t p data len flags null_allowed allow_port_0.
             device_current_state t \<noteq> DEVICE_STATE_NOT_INITIALIZED
             \<and> (null_allowed \<or> data \<noteq> None)
             \<and> \<not> flag_set REJOIN_IN_PROGRESS (ctrl_flags t)
             \<and> device_mode_ind_needed t \<longrightarrow>
             Setup_device_mode_indication (new_class_type t)
               \<in> set (mac_log (snd (handle_tx E p data len flags null_allowed allow_port_0 t))))"
proof -
  let ?s1 = "s\<lparr>new_class_type := dc, device_mode_ind_needed := True,
               device_mode_ind_ongoing := True\<rparr>"
  have a: "set_device_class E dc s = (LORAWAN_STATUS_OK, ?s1)"
    by (rule set_device_class_lw11 [OF init lw dc])
  have lw1: "get_server_type (loramac ?s1) = LW1_1" and on1: "device_mode_ind_ongoing ?s1"
    using lw by simp_all
  note p = process_transmission_switches_class [OF st lw1 on1]
  have b: "mac_log (process_transmission E ?s1) =
             mac_log s @ [On_radio_tx_done (tx_timestamp s), Set_device_class dc]"
    using p(1) by simp
  have c: "queue (process_transmission E ?s1) =
             queue s @ (if callbacks_events s then [App_event CLASS_CHANGED] else [])"
    using p(2) by simp
  have d: "device_mode_ind_needed (process_transmission E ?s1)"
    using p(4) by simp
  have e: "\<not> device_mode_ind_ongoing (process_transmission E ?s1)"
    by (rule p(3))
  show ?thesis
    using b c d e device_mode_conf [of _ E] handle_tx_piggybacks [of _ _ _ E]
    by (simp only: a snd_conv) blast
qed

theorem device_class_change_at_tx_done_witness:
  "(\<forall>c m. get_server_type (mac_effect example_env c m) = get_server_type m)
   \<and> device_current_state example_connected \<noteq> DEVICE_STATE_NOT_INITIALIZED
   \<and> get_server_type (loramac example_connected) = LW1_1
   \<and> CLASS_C \<noteq> CLASS_B
   \<and> get_device_class (loramac example_connected) \<noteq> CLASS_C
   \<and> callbacks_events example_connected
   \<and> fst (set_device_class example_env CLASS_C example_connected) = LORAWAN_STATUS_OK
   \<and> queue (process_transmission example_env example_class_requested) =
       queue example_connected @ [App_event CLASS_CHANGED]
   \<and> mac_log (process_transmission example_env example_class_requested) =
       mac_log example_connected
         @ [On_radio_tx_done (tx_timestamp example_connected), Set_device_class CLASS_C]"
proof -
  have i: "device_current_state example_connected \<noteq> DEVICE_STATE_NOT_INITIALIZED"
    by (simp add: example_connected_state)
  have lw: "get_server_type (loramac example_connected) = LW1_1" by code_simp
  have dc: "CLASS_C \<noteq> CLASS_B" "get_device_class (loramac example_connected) \<noteq> CLASS_C"
    by code_simp+
  have cb: "callbacks_events example_connected" by (simp add: example_connected_state)
  note t = device_class_change_at_tx_done [OF example_env_server_stable i lw dc]
  have f: "fst (set_device_class example_env CLASS_C example_connected) = LORAWAN_STATUS_OK"
    using t [THEN conjunct1] by simp
  have q: "queue (process_transmission example_env example_class_requested) =
             queue example_connected @ [App_event CLASS_CHANGED]"
    and m: "mac_log (process_transmission example_env example_class_requested) =
             mac_log example_connected
               @ [On_radio_tx_done (tx_timestamp example_connected), Set_device_class CLASS_C]"
    using t [THEN conjunct2] cb by (simp_all add: example_class_requested_def)
  show ?thesis
    using example_env_server_stable i lw dc cb f q m by blast
qed

text \<open>
  C3 as stated fails: the example stack, in class A, is asked for class C, sends an
  uplink (which carries DeviceModeInd) and the radio reports the transmission done. The
  MAC has been told to switch to class C and \<^verbatim>\<open>CLASS_CHANGED\<close> is queued, and no
  confirmation has been handled: \<^verbatim>\<open>_device_mode_ind_needed\<close> is still set.
\<close>

theorem class_changed_before_device_mode_conf:
  "get_server_type (loramac example_connected) = LW1_1
   \<and> get_device_class (loramac example_connected) = CLASS_A
   \<and> get_device_class (loramac example_class_requested) = CLASS_A
   \<and> device_mode_ind_needed example_class_requested
   \<and> mac_log example_class_uplink =
       mac_log example_connected
         @ [Setup_reset_indication, Setup_device_mode_indication CLASS_C,
            Prepare_ongoing_tx 5 (Some [1]) 1 1 1, Send_ongoing_tx, Set_tx_ongoing True]
   \<and> mac_log example_class_tx_done =
       mac_log example_class_uplink @ [On_radio_tx_done 0, Set_device_class CLASS_C]
   \<and> get_device_class (loramac example_class_tx_done) = CLASS_C
   \<and> queue example_class_tx_done = [App_event CONNECTED, App_event CLASS_CHANGED]
   \<and> device_mode_ind_needed example_class_tx_done"
  by code_simp

subsection \<open>While a rejoin is in progress\<close>

lemma rx_untouched_refl: "rx_untouched s s"
  by (simp add: rx_untouched_def)

lemma rx_untouched_trans: "rx_untouched s t \<Longrightarrow> rx_untouched t u \<Longrightarrow> rx_untouched s u"
  by (simp add: rx_untouched_def)

lemma rx_untouched_mac_do: "rx_untouched s (mac_do E c s)"
  by (simp add: rx_untouched_def)

lemma rejoin_disjoint:
  "REJOIN_IN_PROGRESS AND CONNECTED_FLAG = 0"
  "REJOIN_IN_PROGRESS AND CONN_IN_PROGRESS_FLAG = 0"
  "REJOIN_IN_PROGRESS AND MSG_RECVD_FLAG = 0"
  "REJOIN_IN_PROGRESS AND TX_DONE_FLAG = 0"
  "REJOIN_IN_PROGRESS AND RETRY_EXHAUSTED_FLAG = 0"
  by (simp_all add: REJOIN_IN_PROGRESS_def CONNECTED_FLAG_def CONN_IN_PROGRESS_FLAG_def
      MSG_RECVD_FLAG_def TX_DONE_FLAG_def RETRY_EXHAUSTED_FLAG_def)

lemma rx_untouched_connected: "rx_untouched s (process_connected_state s)"
  by (simp add: rx_untouched_def process_connected_state_def Let_def
      flag_set_and_not_other flag_set_or_other rejoin_disjoint)

lemma rx_untouched_joining: "rx_untouched s (snd (process_joining_state E st s))"
  by (simp add: rx_untouched_def process_joining_state_def Let_def
      flag_set_and_not_other rejoin_disjoint)

lemma rx_untouched_process_rejoin: "rx_untouched s (process_rejoin E t f s)"
  by (simp add: rx_untouched_def process_rejoin_def Let_def)

lemma rx_untouched_upd:
  "rx_untouched s (s\<lparr>device_current_state := d\<rparr>)"
  "rx_untouched s (s\<lparr>reset_ind_requested := b\<rparr>)"
  "rx_untouched s (s\<lparr>rekey_ind_needed := b, rekey_ind_counter := k\<rparr>)"
  "rx_untouched s (s\<lparr>device_mode_ind_needed := b\<rparr>)"
  "rx_untouched s (s\<lparr>ping_slot_info_requested := b\<rparr>)"
  by (simp_all add: rx_untouched_def)

lemma rx_untouched_event:
  "ev \<noteq> RX_DONE \<Longrightarrow> rx_untouched s (send_event_to_application ev s)"
  by (simp add: rx_untouched_def send_event_to_application_def enqueue_def)

lemma rx_untouched_mlme: "rx_untouched s (mlme_confirm_handler E c s)"
proof (cases "mlme_type c")
  case MLME_JOIN_ACCEPT
  show ?thesis
  proof (cases "mlme_status c = LORAMAC_EVENT_INFO_STATUS_OK")
    case True
    let ?s1 = "if get_server_type (loramac s) = LW1_1
               then s\<lparr>rekey_ind_needed := True, rekey_ind_counter := 0\<rparr>
               else mac_do E (Timer_stop Rejoin_type0_timer) (mac_do E (Timer_stop Forced_timer) s)"
    have "rx_untouched s ?s1" by (simp add: rx_untouched_def)
    moreover have "mlme_confirm_handler E c s = process_connected_state ?s1"
      using MLME_JOIN_ACCEPT True
      by (simp add: mlme_confirm_handler_def state_controller_def Let_def)
    ultimately show ?thesis
      using rx_untouched_connected [of ?s1] rx_untouched_trans by metis
  next
    case False
    show ?thesis
    proof (cases "mlme_status c = LORAMAC_EVENT_INFO_STATUS_CRYPTO_FAIL")
      case True
      then have "mlme_confirm_handler E c s =
                   send_event_to_application CRYPTO_ERROR
                     (s\<lparr>device_current_state := DEVICE_STATE_IDLE\<rparr>)"
        using MLME_JOIN_ACCEPT by (simp add: mlme_confirm_handler_def)
      then show ?thesis by (simp add: rx_untouched_def)
    next
      case nc: False
      have "mlme_confirm_handler E c s =
              (if get_server_type (loramac s) = LW1_1 \<and> flag_set REJOIN_IN_PROGRESS (ctrl_flags s)
               then s
               else snd (process_joining_state E LORAWAN_STATUS_OK
                           (s\<lparr>device_current_state := DEVICE_STATE_AWAITING_JOIN_ACCEPT\<rparr>)))"
        using MLME_JOIN_ACCEPT False nc
        by (cases "mlme_status c") (simp_all add: mlme_confirm_handler_def state_controller_def)
      moreover have "rx_untouched s
                       (snd (process_joining_state E LORAWAN_STATUS_OK
                           (s\<lparr>device_current_state := DEVICE_STATE_AWAITING_JOIN_ACCEPT\<rparr>)))"
        using rx_untouched_joining
                [of "s\<lparr>device_current_state := DEVICE_STATE_AWAITING_JOIN_ACCEPT\<rparr>" E]
        by (simp add: rx_untouched_def)
      ultimately show ?thesis by (simp add: rx_untouched_refl)
    qed
  qed
next
  case MLME_FORCE_REJOIN
  show ?thesis
  proof (cases "rejoin_type c \<le> REJOIN_REQUEST_TYPE2 \<and> get_server_type (loramac s) = LW1_1")
    case False
    then show ?thesis
      using MLME_FORCE_REJOIN by (auto simp: mlme_confirm_handler_def rx_untouched_refl)
  next
    case True
    define s1 where "s1 = s\<lparr>forced_datarate := datarate c,
                       forced_period :=
                         of_nat ((2 ^ unat (period c) * 32 + rand E (rand_calls s) mod 33) * 1000),
                       rand_calls := Suc (rand_calls s),
                       forced_retry_count :=
                         (if max_retries c \<noteq> 0 then max_retries c + 1 else max_retries c),
                       forced_rejoin_type :=
                         (if rejoin_type c = REJOIN_REQUEST_TYPE1 then REJOIN_REQUEST_TYPE0
                          else rejoin_type c)\<rparr>"
    define s2 where "s2 = reset_forced_rejoin E s1"
    define s3 where "s3 = process_rejoin E (forced_rejoin_type s2) True s2"
    have h: "mlme_confirm_handler E c s =
               (if forced_retry_count s3 \<noteq> 0
                then mac_do E (Timer_start Forced_timer (forced_period s3)) s3 else s3)"
      using MLME_FORCE_REJOIN True
      by (simp only: mlme_confirm_handler_def Let_def s3_def s2_def s1_def) simp
    have "rx_untouched s s1" by (simp add: rx_untouched_def s1_def)
    moreover have "rx_untouched s1 s2"
      by (simp add: rx_untouched_def s2_def reset_forced_rejoin_def)
    moreover have "rx_untouched s2 s3"
      unfolding s3_def by (rule rx_untouched_process_rejoin)
    ultimately have "rx_untouched s s3" using rx_untouched_trans by blast
    then show ?thesis
      using rx_untouched_mac_do [of s3 E] rx_untouched_trans by (auto simp: h)
  qed
qed (simp_all add: mlme_confirm_handler_def rx_untouched_def Let_def
       send_event_to_application_def enqueue_def)

lemma rx_untouched_confirms:
  "rx_untouched s (foldl (\<lambda>t cf. mlme_confirm_handler E cf t) s cs)"
proof (induction cs arbitrary: s)
  case Nil
  then show ?case by (simp add: rx_untouched_refl)
next
  case (Cons c cs)
  show ?case
    using rx_untouched_mlme [of s E c] Cons [of "mlme_confirm_handler E c s"] rx_untouched_trans
    by auto
qed

lemma process_reception_rejoin:
  assumes rj: "flag_set REJOIN_IN_PROGRESS (ctrl_flags s)"
    and jn: "nwk_joined (loramac s)"
  shows "\<not> flag_set REJOIN_IN_PROGRESS (ctrl_flags (process_reception E payload sz rs sn s))"
    and "rx_msg (process_reception E payload sz rs sn s) = rx_msg s"
    and "rx_metadata (process_reception E payload sz rs sn s) = rx_metadata s"
    and "\<not> rx_payload_in_use (process_reception E payload sz rs sn s)"
    and "(App_event RX_DONE \<in> set (queue (process_reception E payload sz rs sn s)))
           = (App_event RX_DONE \<in> set (queue s))"
    and "mac_confirms E (On_radio_rx_done payload sz rs sn (rx_timestamp s)) (loramac s) = []
         \<Longrightarrow> queue (process_reception E payload sz rs sn s) = queue s
             \<and> mac_log (process_reception E payload sz rs sn s) =
                 mac_log s @ [On_radio_rx_done payload sz rs sn (rx_timestamp s)]
             \<and> device_current_state (process_reception E payload sz rs sn s)
                 = DEVICE_STATE_RECEIVING"
proof -
  define s1 where "s1 = s\<lparr>device_current_state := DEVICE_STATE_RECEIVING,
                 ctrl_flags := ((ctrl_flags s AND NOT MSG_RECVD_FLAG) AND NOT TX_DONE_FLAG)
                                 AND NOT RETRY_EXHAUSTED_FLAG,
                 rejoin_type0_counter := rejoin_type0_counter s + 1\<rparr>"
  define c where "c = On_radio_rx_done payload sz rs sn (rx_timestamp s1)"
  define s2 where
    "s2 = foldl (\<lambda>t cf. mlme_confirm_handler E cf t) (mac_do E c s1) (mac_confirms E c (loramac s1))"
  have u1: "rx_untouched s s1"
    using rj by (simp add: rx_untouched_def s1_def flag_set_and_not_other rejoin_disjoint)
  have u2: "rx_untouched s s2"
    using u1 rx_untouched_mac_do [of s1 E c] rx_untouched_confirms [of "mac_do E c s1" E]
      rx_untouched_trans
    unfolding s2_def by blast
  have r2: "flag_set REJOIN_IN_PROGRESS (ctrl_flags s2)"
    using u2 rj by (simp add: rx_untouched_def)
  have j1: "nwk_joined (loramac s1)" using jn by (simp add: s1_def)
  have h: "process_reception E payload sz rs sn s =
             s2\<lparr>ctrl_flags := ctrl_flags s2 AND NOT REJOIN_IN_PROGRESS, rx_payload_in_use := False\<rparr>"
    using j1 r2 unfolding process_reception_def Let_def
    by (simp only: s1_def [symmetric] c_def [symmetric] s2_def [symmetric]) simp
  show "\<not> flag_set REJOIN_IN_PROGRESS (ctrl_flags (process_reception E payload sz rs sn s))"
    by (simp add: h flag_set_and_not_same)
  show "rx_msg (process_reception E payload sz rs sn s) = rx_msg s"
    using u2 by (simp add: h rx_untouched_def)
  show "rx_metadata (process_reception E payload sz rs sn s) = rx_metadata s"
    using u2 by (simp add: h rx_untouched_def)
  show "\<not> rx_payload_in_use (process_reception E payload sz rs sn s)"
    by (simp add: h)
  show "(App_event RX_DONE \<in> set (queue (process_reception E payload sz rs sn s)))
           = (App_event RX_DONE \<in> set (queue s))"
    using u2 by (simp add: h rx_untouched_def)
  show "queue (process_reception E payload sz rs sn s) = queue s
             \<and> mac_log (process_reception E payload sz rs sn s) =
                 mac_log s @ [On_radio_rx_done payload sz rs sn (rx_timestamp s)]
             \<and> device_current_state (process_reception E payload sz rs sn s)
                 = DEVICE_STATE_RECEIVING"
    if "mac_confirms E (On_radio_rx_done payload sz rs sn (rx_timestamp s)) (loramac s) = []"
  proof -
    have "mac_confirms E c (loramac s1) = []" using that by (simp add: c_def s1_def)
    then have "s2 = mac_do E c s1" by (simp add: s2_def)
    then show ?thesis by (simp add: h mac_do_def s1_def c_def)
  qed
qed

lemma process_reception_short_circuit:
  assumes rj: "flag_set REJOIN_IN_PROGRESS (ctrl_flags s)"
  shows "rx_untouched s (rx_done_entry E payload sz rs sn s)"
    and "nwk_joined (loramac s) \<Longrightarrow>
           process_reception E payload sz rs sn s =
             (rx_done_entry E payload sz rs sn s)
               \<lparr>ctrl_flags := ctrl_flags (rx_done_entry E payload sz rs sn s)
                                AND NOT REJOIN_IN_PROGRESS,
                rx_payload_in_use := False\<rparr>"
    and "\<not> nwk_joined (loramac s) \<Longrightarrow>
           process_reception E payload sz rs sn s =
             (rx_done_entry E payload sz rs sn s)\<lparr>rx_payload_in_use := False\<rparr>"
proof -
  define s1 where "s1 = s\<lparr>device_current_state := DEVICE_STATE_RECEIVING,
                 ctrl_flags := ((ctrl_flags s AND NOT MSG_RECVD_FLAG) AND NOT TX_DONE_FLAG)
                                 AND NOT RETRY_EXHAUSTED_FLAG,
                 rejoin_type0_counter := rejoin_type0_counter s + 1\<rparr>"
  define c where "c = On_radio_rx_done payload sz rs sn (rx_timestamp s1)"
  define s2 where
    "s2 = foldl (\<lambda>t cf. mlme_confirm_handler E cf t) (mac_do E c s1) (mac_confirms E c (loramac s1))"
  have e: "rx_done_entry E payload sz rs sn s = s2"
    unfolding rx_done_entry_def Let_def
    by (simp only: s1_def [symmetric] c_def [symmetric] s2_def [symmetric])
  have u1: "rx_untouched s s1"
    using rj by (simp add: rx_untouched_def s1_def flag_set_and_not_other rejoin_disjoint)
  have u2: "rx_untouched s s2"
    using u1 rx_untouched_mac_do [of s1 E c] rx_untouched_confirms [of "mac_do E c s1" E]
      rx_untouched_trans
    unfolding s2_def by blast
  show "rx_untouched s (rx_done_entry E payload sz rs sn s)" using u2 by (simp add: e)
  have r2: "flag_set REJOIN_IN_PROGRESS (ctrl_flags s2)"
    using u2 rj by (simp add: rx_untouched_def)
  have j1: "nwk_joined (loramac s1) = nwk_joined (loramac s)" by (simp add: s1_def)
  show "process_reception E payload sz rs sn s =
             (rx_done_entry E payload sz rs sn s)
               \<lparr>ctrl_flags := ctrl_flags (rx_done_entry E payload sz rs sn s)
                                AND NOT REJOIN_IN_PROGRESS,
                rx_payload_in_use := False\<rparr>"
    if "nwk_joined (loramac s)"
    using that j1 r2 unfolding process_reception_def Let_def e
    by (simp only: s1_def [symmetric] c_def [symmetric] s2_def [symmetric]) simp
  show "process_reception E payload sz rs sn s =
             (rx_done_entry E payload sz rs sn s)\<lparr>rx_payload_in_use := False\<rparr>"
    if "\<not> nwk_joined (loramac s)"
    using that j1 unfolding process_reception_def Let_def e
    by (simp only: s1_def [symmetric] c_def [symmetric] s2_def [symmetric]) simp
qed

text \<open>
  C4, as amended. While \<^verbatim>\<open>REJOIN_IN_PROGRESS\<close> is set on an initialised stack, a
  \<open>handle_tx\<close> whose data pointer is not \<^verbatim>\<open>NULL\<close> (or that allows \<^verbatim>\<open>NULL\<close>) returns
  \<^verbatim>\<open>LORAWAN_STATUS_BUSY\<close> and changes nothing, so no transmission is staged. A reception
  processed while the flag is set stops once the MAC's \<^verbatim>\<open>on_radio_rx_done\<close> has
  returned: the result is the state \<open>rx_done_entry\<close> with the payload released and,
  when the MAC reported the network joined, the flag cleared (when it did not, the
  flag stays set). So the inbound message and the RX metadata are as before, no
  \<^verbatim>\<open>RX_DONE\<close> is queued, and the queue and the calls of the MAC are those that
  \<^verbatim>\<open>on_radio_rx_done\<close> and the handlers of the MLME confirmations it hands over leave:
  with no confirmation nothing at all is queued and the MAC is not called again.
\<close>

theorem rejoin_in_progress_busy_and_dropped:
  assumes rj: "flag_set REJOIN_IN_PROGRESS (ctrl_flags s)"
    and init: "device_current_state s \<noteq> DEVICE_STATE_NOT_INITIALIZED"
  shows "(null_allowed \<or> data \<noteq> None \<longrightarrow>
            handle_tx E p data len flags null_allowed allow_port_0 s
              = (Status LORAWAN_STATUS_BUSY, s))
       \<and> (data \<noteq> None \<longrightarrow> send E p data len flags' s = (Status LORAWAN_STATUS_BUSY, s))
       \<and> (nwk_joined (loramac s) \<longrightarrow>
            \<not> flag_set REJOIN_IN_PROGRESS (ctrl_flags (process_reception E payload sz rs sn s))
            \<and> rx_msg (process_reception E payload sz rs sn s) = rx_msg s
            \<and> rx_metadata (process_reception E payload sz rs sn s) = rx_metadata s
            \<and> \<not> rx_payload_in_use (process_reception E payload sz rs sn s)
            \<and> (App_event RX_DONE \<in> set (queue (process_reception E payload sz rs sn s)))
                 = (App_event RX_DONE \<in> set (queue s))
            \<and> (mac_confirms E (On_radio_rx_done payload sz rs sn (rx_timestamp s)) (loramac s) = []
                 \<longrightarrow> queue (process_reception E payload sz rs sn s) = queue s
                     \<and> mac_log (process_reception E payload sz rs sn s) =
                         mac_log s @ [On_radio_rx_done payload sz rs sn (rx_timestamp s)]))
       \<and> (nwk_joined (loramac s) \<longrightarrow>
            process_reception E payload sz rs sn s =
              (rx_done_entry E payload sz rs sn s)
                \<lparr>ctrl_flags := ctrl_flags (rx_done_entry E payload sz rs sn s)
                                 AND NOT REJOIN_IN_PROGRESS,
                 rx_payload_in_use := False\<rparr>)
       \<and> (\<not> nwk_joined (loramac s) \<longrightarrow>
            process_reception E payload sz rs sn s =
              (rx_done_entry E payload sz rs sn s)\<lparr>rx_payload_in_use := False\<rparr>
            \<and> flag_set REJOIN_IN_PROGRESS (ctrl_flags (process_reception E payload sz rs sn s)))
       \<and> queue (process_reception E payload sz rs sn s)
           = queue (rx_done_entry E payload sz rs sn s)
       \<and> mac_log (process_reception E payload sz rs sn s)
           = mac_log (rx_done_entry E payload sz rs sn s)
       \<and> rx_msg (process_reception E payload sz rs sn s) = rx_msg s
       \<and> rx_metadata (process_reception E payload sz rs sn s) = rx_metadata s
       \<and> \<not> rx_payload_in_use (process_reception E payload sz rs sn s)
       \<and> (App_event RX_DONE \<in> set (queue (process_reception E payload sz rs sn s)))
            = (App_event RX_DONE \<in> set (queue s))"
proof -
  have a: "null_allowed \<or> data \<noteq> None \<longrightarrow>
            handle_tx E p data len flags null_allowed allow_port_0 s
              = (Status LORAWAN_STATUS_BUSY, s)"
    using rj init by (auto simp: handle_tx_def)
  have b: "data \<noteq> None \<longrightarrow> send E p data len flags' s = (Status LORAWAN_STATUS_BUSY, s)"
    using rj init by (auto simp: send_def handle_tx_def)
  note sc = process_reception_short_circuit [OF rj, of E payload sz rs sn]
  define r where "r = rx_done_entry E payload sz rs sn s"
  have ru: "rx_msg r = rx_msg s" "rx_metadata r = rx_metadata s"
    "flag_set REJOIN_IN_PROGRESS (ctrl_flags r)"
    "(App_event RX_DONE \<in> set (queue r)) = (App_event RX_DONE \<in> set (queue s))"
    using sc(1) rj by (simp_all add: rx_untouched_def r_def)
  have pj: "process_reception E payload sz rs sn s =
              r\<lparr>ctrl_flags := ctrl_flags r AND NOT REJOIN_IN_PROGRESS, rx_payload_in_use := False\<rparr>"
    if "nwk_joined (loramac s)"
    using sc(2) [OF that] by (simp add: r_def)
  have pn: "process_reception E payload sz rs sn s = r\<lparr>rx_payload_in_use := False\<rparr>"
    if "\<not> nwk_joined (loramac s)"
    using sc(3) [OF that] by (simp add: r_def)
  have c: "queue (process_reception E payload sz rs sn s) = queue r
         \<and> mac_log (process_reception E payload sz rs sn s) = mac_log r
         \<and> rx_msg (process_reception E payload sz rs sn s) = rx_msg s
         \<and> rx_metadata (process_reception E payload sz rs sn s) = rx_metadata s
         \<and> \<not> rx_payload_in_use (process_reception E payload sz rs sn s)
         \<and> (App_event RX_DONE \<in> set (queue (process_reception E payload sz rs sn s)))
              = (App_event RX_DONE \<in> set (queue s))"
    using pj pn ru by (cases "nwk_joined (loramac s)") simp_all
  have d: "flag_set REJOIN_IN_PROGRESS (ctrl_flags (process_reception E payload sz rs sn s))"
    if "\<not> nwk_joined (loramac s)"
    using pn [OF that] ru(3) by simp
  show ?thesis
    using a b c d process_reception_rejoin [OF rj, of E payload sz rs sn] sc(2,3)
    unfolding r_def by blast
qed

theorem rejoin_in_progress_busy_and_dropped_witness:
  "flag_set REJOIN_IN_PROGRESS (ctrl_flags example_rejoining)
   \<and> device_current_state example_rejoining \<noteq> DEVICE_STATE_NOT_INITIALIZED
   \<and> nwk_joined (loramac example_rejoining)
   \<and> send example_env 5 (Some [1]) 1 MSG_UNCONFIRMED_FLAG example_rejoining
       = (Status LORAWAN_STATUS_BUSY, example_rejoining)
   \<and> \<not> flag_set REJOIN_IN_PROGRESS
         (ctrl_flags (process_reception example_env [7, 7] 2 (- 50) 9 example_rejoining))
   \<and> rx_msg (process_reception example_env [7, 7] 2 (- 50) 9 example_rejoining)
       = rx_msg example_rejoining
   \<and> rx_metadata (process_reception example_env [7, 7] 2 (- 50) 9 example_rejoining)
       = rx_metadata example_rejoining
   \<and> queue (process_reception example_env [7, 7] 2 (- 50) 9 example_rejoining)
       = queue example_rejoining
   \<and> queue (process_reception example_env_join_accept [7, 7] 2 (- 50) 9 example_rejoining)
       = queue (rx_done_entry example_env_join_accept [7, 7] 2 (- 50) 9 example_rejoining)
   \<and> \<not> flag_set REJOIN_IN_PROGRESS
         (ctrl_flags (process_reception example_env_join_accept [7, 7] 2 (- 50) 9
                        example_rejoining))"
proof -
  have rj: "flag_set REJOIN_IN_PROGRESS (ctrl_flags example_rejoining)"
    and init: "device_current_state example_rejoining \<noteq> DEVICE_STATE_NOT_INITIALIZED"
    and jn: "nwk_joined (loramac example_rejoining)"
    by code_simp+
  have nc: "mac_confirms example_env
              (On_radio_rx_done [7, 7] 2 (- 50) 9 (rx_timestamp example_rejoining))
              (loramac example_rejoining) = []"
    by (simp add: example_env_def)
  have d: "Some [1 :: u8] \<noteq> None" by simp
  note t = rejoin_in_progress_busy_and_dropped [OF rj init, where data = "Some [1]"
        and E = example_env and p = 5 and len = 1 and flags' = MSG_UNCONFIRMED_FLAG
        and payload = "[7, 7]" and sz = 2 and rs = "- 50" and sn = 9]
  note u = rejoin_in_progress_busy_and_dropped [OF rj init, where data = "Some [1]"
        and E = example_env_join_accept and p = 5 and len = 1 and flags' = MSG_UNCONFIRMED_FLAG
        and payload = "[7, 7]" and sz = 2 and rs = "- 50" and sn = 9]
  have 1: "send example_env 5 (Some [1]) 1 MSG_UNCONFIRMED_FLAG example_rejoining
             = (Status LORAWAN_STATUS_BUSY, example_rejoining)
   \<and> \<not> flag_set REJOIN_IN_PROGRESS
         (ctrl_flags (process_reception example_env [7, 7] 2 (- 50) 9 example_rejoining))
   \<and> rx_msg (process_reception example_env [7, 7] 2 (- 50) 9 example_rejoining)
       = rx_msg example_rejoining
   \<and> rx_metadata (process_reception example_env [7, 7] 2 (- 50) 9 example_rejoining)
       = rx_metadata example_rejoining
   \<and> queue (process_reception example_env [7, 7] 2 (- 50) 9 example_rejoining)
       = queue example_rejoining"
    using jn nc d t by blast
  have 2: "queue (process_reception example_env_join_accept [7, 7] 2 (- 50) 9 example_rejoining)
       = queue (rx_done_entry example_env_join_accept [7, 7] 2 (- 50) 9 example_rejoining)
   \<and> \<not> flag_set REJOIN_IN_PROGRESS
         (ctrl_flags (process_reception example_env_join_accept [7, 7] 2 (- 50) 9
                        example_rejoining))"
    using jn u by blast
  show ?thesis using rj init jn 1 2 by blast
qed

text \<open>
  C4 as stated fails. With the flag set, an application \<^verbatim>\<open>send\<close> with a \<^verbatim>\<open>NULL\<close> data
  pointer returns \<^verbatim>\<open>LORAWAN_STATUS_PARAMETER_INVALID\<close>, not \<^verbatim>\<open>LORAWAN_STATUS_BUSY\<close>: the
  pointer is checked before the flag. And a reception in which the MAC decodes a join
  accept and hands its confirmation to the stack queues \<^verbatim>\<open>CONNECTED\<close> for the
  application, although the flag is set: the confirmation is handled before the flag is
  tested.
\<close>

theorem rejoin_in_progress_null_data:
  "flag_set REJOIN_IN_PROGRESS (ctrl_flags example_rejoining)
   \<and> device_current_state example_rejoining = DEVICE_STATE_IDLE
   \<and> nwk_joined (loramac example_rejoining)
   \<and> send example_env 5 None 0 MSG_UNCONFIRMED_FLAG example_rejoining
       = (Status LORAWAN_STATUS_PARAMETER_INVALID, example_rejoining)
   \<and> fst (send example_env 5 None 0 MSG_UNCONFIRMED_FLAG example_rejoining)
       \<noteq> Status LORAWAN_STATUS_BUSY
   \<and> queue (process_reception example_env_join_accept [7, 7] 2 (- 50) 9 example_rejoining)
       = queue example_rejoining @ [App_event CONNECTED]"
proof -
  have rj: "flag_set REJOIN_IN_PROGRESS (ctrl_flags example_rejoining)"
    and st: "device_current_state example_rejoining = DEVICE_STATE_IDLE"
    and jn: "nwk_joined (loramac example_rejoining)"
    by code_simp+
  have "send example_env 5 None 0 MSG_UNCONFIRMED_FLAG example_rejoining
          = (Status LORAWAN_STATUS_PARAMETER_INVALID, example_rejoining)"
    using st by (simp add: send_def handle_tx_def)
  moreover have "queue (process_reception example_env_join_accept [7, 7] 2 (- 50) 9
                          example_rejoining)
                 = queue example_rejoining @ [App_event CONNECTED]"
    by code_simp
  ultimately show ?thesis using rj st jn by simp
qed

subsection \<open>When the retries of a confirmed message are declared exhausted\<close>

lemma retry_disjoint:
  "RETRY_EXHAUSTED_FLAG AND TX_DONE_FLAG = 0"
  "TX_DONE_FLAG AND RETRY_EXHAUSTED_FLAG = 0"
  "RETRY_EXHAUSTED_FLAG \<noteq> 0"
  by (simp_all add: TX_DONE_FLAG_def RETRY_EXHAUSTED_FLAG_def)

lemma make_tx_metadata_fields [simp]:
  "ctrl_flags (make_tx_metadata_available s) = ctrl_flags s"
  "device_current_state (make_tx_metadata_available s) = device_current_state s"
  "loramac (make_tx_metadata_available s) = loramac s"
  by (simp_all add: make_tx_metadata_available_def Let_def)

lemma mcps_confirm_handler_flags [simp]:
  "ctrl_flags (mcps_confirm_handler s) = ctrl_flags s"
  by (simp add: mcps_confirm_handler_def split: loramac_event_info_status.splits)

lemma run_to_completion_flags [simp]:
  "ctrl_flags (state_machine_run_to_completion s) = ctrl_flags s"
  by (simp add: state_machine_run_to_completion_def)

lemma retries_exhausted_flags:
  "flag_set RETRY_EXHAUSTED_FLAG (ctrl_flags (retries_exhausted E s))"
  "\<not> flag_set TX_DONE_FLAG (ctrl_flags (retries_exhausted E s))"
  by (simp_all add: retries_exhausted_def flag_set_or_same retry_disjoint flag_set_or_other
      flag_set_and_not_same)

lemma with_reception_no_ack:
  assumes "req_type (get_mcps_confirmation (loramac s)) = MCPS_CONFIRMED"
    and "\<not> is_ack_recvd (get_mcps_indication (loramac s))"
  shows "post_process_tx_with_reception E s =
           (if \<not> mac_bool E Continue_sending_process (loramac s)
               \<and> get_current_slot (mac_effect E Continue_sending_process (loramac s))
                   \<noteq> RX_SLOT_WIN_1
            then snd (state_controller E DEVICE_STATE_STATUS_CHECK (retries_exhausted E s))
            else mac_do E Continue_sending_process s)"
  using assms
  by (simp add: post_process_tx_with_reception_def retries_exhausted_def Let_def mac_do_def)

lemma with_reception_ack:
  assumes "req_type (get_mcps_confirmation (loramac s)) = MCPS_CONFIRMED"
    and "is_ack_recvd (get_mcps_indication (loramac s))"
  shows "post_process_tx_with_reception E s =
           snd (state_controller E DEVICE_STATE_STATUS_CHECK
                  (make_tx_metadata_available
                     (mac_do E Post_process_mcps_req
                        (s\<lparr>ctrl_flags := (ctrl_flags s OR TX_DONE_FLAG)
                                           AND NOT RETRY_EXHAUSTED_FLAG\<rparr>))))"
  using assms by (simp add: post_process_tx_with_reception_def Let_def)

lemma no_reception_confirmed:
  assumes "req_type (get_mcps_confirmation (loramac s)) = MCPS_CONFIRMED"
    and "\<not> flag_set REJOIN_IN_PROGRESS (ctrl_flags s)"
  shows "post_process_tx_no_reception E s =
           (if mac_bool E Continue_sending_process (loramac s)
            then (mac_do E Continue_sending_process s)
                   \<lparr>ctrl_flags := (ctrl_flags s AND NOT TX_DONE_FLAG) AND NOT RETRY_EXHAUSTED_FLAG\<rparr>
            else state_machine_run_to_completion
                   (snd (state_controller E DEVICE_STATE_STATUS_CHECK (retries_exhausted E s))))"
  using assms
  by (simp add: post_process_tx_no_reception_def no_reception_tail_def retries_exhausted_def
      Let_def)

lemma status_check_keeps_retry:
  assumes "device_current_state t = DEVICE_STATE_SENDING
           \<or> device_current_state t = DEVICE_STATE_AWAITING_ACK"
  shows "flag_set RETRY_EXHAUSTED_FLAG
           (ctrl_flags (snd (state_controller E DEVICE_STATE_STATUS_CHECK t)))
         = flag_set RETRY_EXHAUSTED_FLAG (ctrl_flags t)"
  using assms
  by (auto simp: state_controller_def process_status_check_state_def flag_set_and_not_other
      retry_disjoint)

lemma retries_exhausted_state [simp]:
  "device_current_state (retries_exhausted E s) = device_current_state s"
  by (simp add: retries_exhausted_def)

lemma no_reception_final_flag:
  assumes cf: "req_type (get_mcps_confirmation (loramac s)) = MCPS_CONFIRMED"
    and rj: "\<not> flag_set REJOIN_IN_PROGRESS (ctrl_flags s)"
    and st: "device_current_state s = DEVICE_STATE_SENDING
             \<or> device_current_state s = DEVICE_STATE_AWAITING_ACK"
  shows "flag_set RETRY_EXHAUSTED_FLAG (ctrl_flags (post_process_tx_no_reception E s))
         = (\<not> mac_bool E Continue_sending_process (loramac s))"
proof (cases "mac_bool E Continue_sending_process (loramac s)")
  case True
  then show ?thesis
    by (simp add: no_reception_confirmed [OF cf rj] flag_set_and_not_same)
next
  case False
  have "device_current_state (retries_exhausted E s) = DEVICE_STATE_SENDING
        \<or> device_current_state (retries_exhausted E s) = DEVICE_STATE_AWAITING_ACK"
    using st by simp
  from status_check_keeps_retry [OF this, of E] False show ?thesis
    by (simp add: no_reception_confirmed [OF cf rj] retries_exhausted_flags)
qed

lemma poll_rejoin_retry:
  "flag_set RETRY_EXHAUSTED_FLAG (ctrl_flags (poll_rejoin E s))
   = flag_set RETRY_EXHAUSTED_FLAG (ctrl_flags s)"
proof -
  have d: "RETRY_EXHAUSTED_FLAG AND REJOIN_IN_PROGRESS = 0"
    by (simp add: RETRY_EXHAUSTED_FLAG_def REJOIN_IN_PROGRESS_def)
  show ?thesis
    by (simp add: poll_rejoin_def Let_def enqueue_def flag_set_or_other d)
qed

lemma rx_timeout_entry_fields [simp]:
  "ctrl_flags (rx_timeout_entry E b s) = ctrl_flags s"
  "device_current_state (rx_timeout_entry E b s) = device_current_state s"
  "mac_log (rx_timeout_entry E b s) = mac_log s @ [On_radio_rx_timeout b]"
  "queue (rx_timeout_entry E b s) = queue s"
  by (simp_all add: rx_timeout_entry_def mac_do_def)

lemma reception_timeout_other_slot:
  assumes "get_current_slot (loramac s) \<noteq> RX_SLOT_WIN_2"
  shows "process_reception_timeout E b s = rx_timeout_entry E b s"
  using assms by (simp add: process_reception_timeout_def rx_timeout_entry_def Let_def)

lemma reception_timeout_rx2:
  assumes "get_current_slot (loramac s) = RX_SLOT_WIN_2"
    and "nwk_joined (loramac (rx_timeout_entry E b s))"
  shows "process_reception_timeout E b s =
           (let s4 = state_machine_run_to_completion
                       (snd (state_controller E DEVICE_STATE_STATUS_CHECK
                               (post_process_tx_no_reception E (rx_timeout_entry E b s))))
            in if MBED_CONF_LORA_VERSION_1_1 E then poll_rejoin E s4 else s4)"
  using assms by (simp add: process_reception_timeout_def rx_timeout_entry_def Let_def)

lemma status_check_idle:
  "device_current_state t = DEVICE_STATE_IDLE \<Longrightarrow>
   snd (state_controller E DEVICE_STATE_STATUS_CHECK t) = t"
  by (simp add: state_controller_def process_status_check_state_def)

lemma reception_timeout_rx2_flag:
  assumes sl: "get_current_slot (loramac s) = RX_SLOT_WIN_2"
    and jn: "nwk_joined (loramac (rx_timeout_entry E b s))"
    and cf: "req_type (get_mcps_confirmation (loramac (rx_timeout_entry E b s))) = MCPS_CONFIRMED"
    and rj: "\<not> flag_set REJOIN_IN_PROGRESS (ctrl_flags s)"
    and st: "device_current_state s = DEVICE_STATE_SENDING
             \<or> device_current_state s = DEVICE_STATE_AWAITING_ACK"
    and cl: "get_device_class
               (loramac (post_process_tx_no_reception E (rx_timeout_entry E b s))) \<noteq> CLASS_C"
  shows "flag_set RETRY_EXHAUSTED_FLAG (ctrl_flags (process_reception_timeout E b s))
         = (\<not> mac_bool E Continue_sending_process (loramac (rx_timeout_entry E b s)))"
proof -
  define t where "t = rx_timeout_entry E b s"
  define u where "u = post_process_tx_no_reception E t"
  have rjt: "\<not> flag_set REJOIN_IN_PROGRESS (ctrl_flags t)" using rj by (simp add: t_def)
  have stt: "device_current_state t = DEVICE_STATE_SENDING
             \<or> device_current_state t = DEVICE_STATE_AWAITING_ACK"
    using st by (simp add: t_def)
  have cft: "req_type (get_mcps_confirmation (loramac t)) = MCPS_CONFIRMED"
    using cf by (simp add: t_def)
  have fu: "flag_set RETRY_EXHAUSTED_FLAG (ctrl_flags u)
            = (\<not> mac_bool E Continue_sending_process (loramac t))"
    unfolding u_def by (rule no_reception_final_flag [OF cft rjt stt])
  have keep: "flag_set RETRY_EXHAUSTED_FLAG
                (ctrl_flags (snd (state_controller E DEVICE_STATE_STATUS_CHECK u)))
              = flag_set RETRY_EXHAUSTED_FLAG (ctrl_flags u)"
  proof (cases "mac_bool E Continue_sending_process (loramac t)")
    case True
    then have "device_current_state u = device_current_state t"
      by (simp add: u_def no_reception_confirmed [OF cft rjt])
    then show ?thesis using stt status_check_keeps_retry [of u E] by simp
  next
    case False
    then have e: "u = state_machine_run_to_completion
                        (snd (state_controller E DEVICE_STATE_STATUS_CHECK
                                (retries_exhausted E t)))"
      by (simp add: u_def no_reception_confirmed [OF cft rjt])
    define v where "v = snd (state_controller E DEVICE_STATE_STATUS_CHECK (retries_exhausted E t))"
    have uv: "u = state_machine_run_to_completion v" using e by (simp add: v_def)
    have "loramac u = loramac v" by (simp add: uv state_machine_run_to_completion_def)
    moreover have "get_device_class (loramac u) \<noteq> CLASS_C" using cl by (simp add: u_def t_def)
    ultimately have "get_device_class (loramac v) \<noteq> CLASS_C" by simp
    then have "device_current_state u = DEVICE_STATE_IDLE"
      by (simp add: uv state_machine_run_to_completion_def)
    then show ?thesis by (simp add: status_check_idle)
  qed
  have "flag_set RETRY_EXHAUSTED_FLAG (ctrl_flags (process_reception_timeout E b s))
        = flag_set RETRY_EXHAUSTED_FLAG
            (ctrl_flags (snd (state_controller E DEVICE_STATE_STATUS_CHECK u)))"
    using reception_timeout_rx2 [OF sl jn]
    by (simp add: Let_def poll_rejoin_retry u_def t_def)
  then show ?thesis using keep fu by (simp add: t_def)
qed

text \<open>
  C5. For a confirmed message (\<open>req_type = MCPS_CONFIRMED\<close>):
  \<^item> \<open>post_process_tx_with_reception\<close>, no acknowledgement received: it enters the status
    check in the state \<open>retries_exhausted\<close>, where \<open>RETRY_EXHAUSTED_FLAG\<close> is set, exactly
    when \<^verbatim>\<open>continue_sending_process()\<close> returns false and the current slot is not RX1;
    otherwise it changes no control flag. With an acknowledgement it enters the status
    check with the flag cleared.
  \<^item> Non-reception is \<open>process_reception_timeout\<close>. In a slot other than RX2, RX1 among
    them, it returns once the MAC has handled the timeout and changes no control flag.
    In RX2, on a joined network, it runs \<open>post_process_tx_no_reception\<close>: when no rejoin
    is in progress that function clears the flag and returns if
    \<^verbatim>\<open>continue_sending_process()\<close> returns true, and enters the status check in the state
    \<open>retries_exhausted\<close> if it returns false; for a stack that is sending or awaiting the
    acknowledgement the flag is set in the state it returns exactly when
    \<^verbatim>\<open>continue_sending_process()\<close> returned false.
  \<^item> So for a timeout in RX1 or RX2, on a device that is not of class C, awaits the
    acknowledgement and has no rejoin in progress, \<open>process_reception_timeout\<close> leaves
    the flag set exactly when \<^verbatim>\<open>continue_sending_process()\<close> returned false and the slot
    was not RX1.
\<close>

theorem retry_exhausted_decision:
  "(req_type (get_mcps_confirmation (loramac s)) = MCPS_CONFIRMED
      \<and> \<not> is_ack_recvd (get_mcps_indication (loramac s)) \<longrightarrow>
      post_process_tx_with_reception E s =
        (if \<not> mac_bool E Continue_sending_process (loramac s)
            \<and> get_current_slot (mac_effect E Continue_sending_process (loramac s))
                \<noteq> RX_SLOT_WIN_1
         then snd (state_controller E DEVICE_STATE_STATUS_CHECK (retries_exhausted E s))
         else mac_do E Continue_sending_process s))
   \<and> flag_set RETRY_EXHAUSTED_FLAG (ctrl_flags (retries_exhausted E s))
   \<and> ctrl_flags (mac_do E Continue_sending_process s) = ctrl_flags s
   \<and> (req_type (get_mcps_confirmation (loramac s)) = MCPS_CONFIRMED
      \<and> is_ack_recvd (get_mcps_indication (loramac s)) \<longrightarrow>
      post_process_tx_with_reception E s =
        snd (state_controller E DEVICE_STATE_STATUS_CHECK
               (make_tx_metadata_available
                  (mac_do E Post_process_mcps_req
                     (s\<lparr>ctrl_flags := (ctrl_flags s OR TX_DONE_FLAG)
                                        AND NOT RETRY_EXHAUSTED_FLAG\<rparr>))))
      \<and> \<not> flag_set RETRY_EXHAUSTED_FLAG
            ((ctrl_flags s OR TX_DONE_FLAG) AND NOT RETRY_EXHAUSTED_FLAG))
   \<and> (get_current_slot (loramac s) \<noteq> RX_SLOT_WIN_2 \<longrightarrow>
        process_reception_timeout E b s = rx_timeout_entry E b s)
   \<and> ctrl_flags (rx_timeout_entry E b s) = ctrl_flags s
   \<and> mac_log (rx_timeout_entry E b s) = mac_log s @ [On_radio_rx_timeout b]
   \<and> (get_current_slot (loramac s) = RX_SLOT_WIN_2
      \<and> nwk_joined (loramac (rx_timeout_entry E b s)) \<longrightarrow>
        process_reception_timeout E b s =
          (let s4 = state_machine_run_to_completion
                      (snd (state_controller E DEVICE_STATE_STATUS_CHECK
                              (post_process_tx_no_reception E (rx_timeout_entry E b s))))
           in if MBED_CONF_LORA_VERSION_1_1 E then poll_rejoin E s4 else s4))
   \<and> (req_type (get_mcps_confirmation (loramac s)) = MCPS_CONFIRMED
      \<and> \<not> flag_set REJOIN_IN_PROGRESS (ctrl_flags s) \<longrightarrow>
        post_process_tx_no_reception E s =
          (if mac_bool E Continue_sending_process (loramac s)
           then (mac_do E Continue_sending_process s)
                  \<lparr>ctrl_flags := (ctrl_flags s AND NOT TX_DONE_FLAG)
                                   AND NOT RETRY_EXHAUSTED_FLAG\<rparr>
           else state_machine_run_to_completion
                  (snd (state_controller E DEVICE_STATE_STATUS_CHECK
                          (retries_exhausted E s)))))
   \<and> (req_type (get_mcps_confirmation (loramac s)) = MCPS_CONFIRMED
      \<and> \<not> flag_set REJOIN_IN_PROGRESS (ctrl_flags s)
      \<and> (device_current_state s = DEVICE_STATE_SENDING
           \<or> device_current_state s = DEVICE_STATE_AWAITING_ACK) \<longrightarrow>
        flag_set RETRY_EXHAUSTED_FLAG (ctrl_flags (post_process_tx_no_reception E s))
          = (\<not> mac_bool E Continue_sending_process (loramac s)))
   \<and> ((get_current_slot (loramac s) = RX_SLOT_WIN_1
          \<or> get_current_slot (loramac s) = RX_SLOT_WIN_2)
      \<and> \<not> flag_set RETRY_EXHAUSTED_FLAG (ctrl_flags s)
      \<and> \<not> flag_set REJOIN_IN_PROGRESS (ctrl_flags s)
      \<and> (device_current_state s = DEVICE_STATE_SENDING
           \<or> device_current_state s = DEVICE_STATE_AWAITING_ACK)
      \<and> nwk_joined (loramac (rx_timeout_entry E b s))
      \<and> req_type (get_mcps_confirmation (loramac (rx_timeout_entry E b s))) = MCPS_CONFIRMED
      \<and> get_device_class
            (loramac (post_process_tx_no_reception E (rx_timeout_entry E b s))) \<noteq> CLASS_C
      \<longrightarrow>
        flag_set RETRY_EXHAUSTED_FLAG (ctrl_flags (process_reception_timeout E b s))
          = (\<not> mac_bool E Continue_sending_process (loramac (rx_timeout_entry E b s))
             \<and> get_current_slot (loramac s) \<noteq> RX_SLOT_WIN_1))"
proof -
  have 1: "flag_set RETRY_EXHAUSTED_FLAG (ctrl_flags (retries_exhausted E s))"
    by (rule retries_exhausted_flags)
  have 2: "ctrl_flags (mac_do E Continue_sending_process s) = ctrl_flags s" by simp
  have 3: "\<not> flag_set RETRY_EXHAUSTED_FLAG
             ((ctrl_flags s OR TX_DONE_FLAG) AND NOT RETRY_EXHAUSTED_FLAG)"
    by (rule flag_set_and_not_same)
  have 4: "ctrl_flags (rx_timeout_entry E b s) = ctrl_flags s"
    "mac_log (rx_timeout_entry E b s) = mac_log s @ [On_radio_rx_timeout b]"
    by simp_all
  have 5: "flag_set RETRY_EXHAUSTED_FLAG (ctrl_flags (process_reception_timeout E b s))
          = (\<not> mac_bool E Continue_sending_process (loramac (rx_timeout_entry E b s))
             \<and> get_current_slot (loramac s) \<noteq> RX_SLOT_WIN_1)"
    if h: "(get_current_slot (loramac s) = RX_SLOT_WIN_1
             \<or> get_current_slot (loramac s) = RX_SLOT_WIN_2)
      \<and> \<not> flag_set RETRY_EXHAUSTED_FLAG (ctrl_flags s)
      \<and> \<not> flag_set REJOIN_IN_PROGRESS (ctrl_flags s)
      \<and> (device_current_state s = DEVICE_STATE_SENDING
           \<or> device_current_state s = DEVICE_STATE_AWAITING_ACK)
      \<and> nwk_joined (loramac (rx_timeout_entry E b s))
      \<and> req_type (get_mcps_confirmation (loramac (rx_timeout_entry E b s))) = MCPS_CONFIRMED
      \<and> get_device_class
            (loramac (post_process_tx_no_reception E (rx_timeout_entry E b s))) \<noteq> CLASS_C"
  proof (cases "get_current_slot (loramac s) = RX_SLOT_WIN_2")
    case True
    then show ?thesis
      using h reception_timeout_rx2_flag [of s E b] by simp
  next
    case False
    then have "get_current_slot (loramac s) = RX_SLOT_WIN_1" using h by blast
    then show ?thesis
      using h reception_timeout_other_slot [OF False, of E b] by simp
  qed
  show ?thesis
    using 1 2 3 4 5 with_reception_no_ack [of s E] with_reception_ack [of s E]
      no_reception_confirmed [of s E] no_reception_final_flag [of s E]
      reception_timeout_other_slot [of s E b] reception_timeout_rx2 [of s E b]
    by blast
qed

lemma example_awaiting_ack_state:
  "req_type (get_mcps_confirmation (loramac example_awaiting_ack)) = MCPS_CONFIRMED"
  "\<not> is_ack_recvd (get_mcps_indication (loramac example_awaiting_ack))"
  "get_current_slot (loramac example_awaiting_ack) = RX_SLOT_WIN_1"
  "device_current_state example_awaiting_ack = DEVICE_STATE_AWAITING_ACK"
  "\<not> flag_set REJOIN_IN_PROGRESS (ctrl_flags example_awaiting_ack)"
  "\<not> flag_set RETRY_EXHAUSTED_FLAG (ctrl_flags example_awaiting_ack)"
  "nwk_joined (loramac (rx_timeout_entry example_env_windows True example_awaiting_ack))"
  "req_type (get_mcps_confirmation
     (loramac (rx_timeout_entry example_env_windows True example_awaiting_ack))) = MCPS_CONFIRMED"
  "get_device_class
     (loramac (post_process_tx_no_reception example_env_windows
                 (rx_timeout_entry example_env_windows True example_awaiting_ack))) \<noteq> CLASS_C"
  by code_simp+

lemma example_rx1_timed_out_state:
  "req_type (get_mcps_confirmation (loramac example_rx1_timed_out)) = MCPS_CONFIRMED"
  "\<not> is_ack_recvd (get_mcps_indication (loramac example_rx1_timed_out))"
  "get_current_slot (loramac example_rx1_timed_out) = RX_SLOT_WIN_2"
  "device_current_state example_rx1_timed_out = DEVICE_STATE_AWAITING_ACK"
  "\<not> flag_set REJOIN_IN_PROGRESS (ctrl_flags example_rx1_timed_out)"
  "\<not> flag_set RETRY_EXHAUSTED_FLAG (ctrl_flags example_rx1_timed_out)"
  "nwk_joined (loramac (rx_timeout_entry example_env_windows True example_rx1_timed_out))"
  "req_type (get_mcps_confirmation
     (loramac (rx_timeout_entry example_env_windows True example_rx1_timed_out))) = MCPS_CONFIRMED"
  "get_device_class
     (loramac (post_process_tx_no_reception example_env_windows
                 (rx_timeout_entry example_env_windows True example_rx1_timed_out))) \<noteq> CLASS_C"
  "nwk_joined (loramac (rx_timeout_entry example_env_retrying True example_rx1_timed_out))"
  "req_type (get_mcps_confirmation
     (loramac (rx_timeout_entry example_env_retrying True example_rx1_timed_out))) = MCPS_CONFIRMED"
  "get_device_class
     (loramac (post_process_tx_no_reception example_env_retrying
                 (rx_timeout_entry example_env_retrying True example_rx1_timed_out))) \<noteq> CLASS_C"
  by code_simp+

theorem retry_exhausted_decision_witness:
  "req_type (get_mcps_confirmation (loramac example_awaiting_ack)) = MCPS_CONFIRMED
   \<and> \<not> is_ack_recvd (get_mcps_indication (loramac example_awaiting_ack))
   \<and> get_current_slot (loramac example_awaiting_ack) = RX_SLOT_WIN_1
   \<and> \<not> mac_bool example_env_windows Continue_sending_process (loramac example_awaiting_ack)
   \<and> post_process_tx_with_reception example_env_windows example_awaiting_ack =
       mac_do example_env_windows Continue_sending_process example_awaiting_ack
   \<and> ctrl_flags (mac_do example_env_windows Continue_sending_process example_awaiting_ack) =
       ctrl_flags example_awaiting_ack
   \<and> \<not> flag_set RETRY_EXHAUSTED_FLAG (ctrl_flags example_awaiting_ack)
   \<and> \<not> flag_set RETRY_EXHAUSTED_FLAG
         (ctrl_flags (process_reception_timeout example_env_windows True example_awaiting_ack))
   \<and> get_current_slot (loramac example_rx1_timed_out) = RX_SLOT_WIN_2
   \<and> post_process_tx_with_reception example_env_windows example_rx1_timed_out =
       snd (state_controller example_env_windows DEVICE_STATE_STATUS_CHECK
              (retries_exhausted example_env_windows example_rx1_timed_out))
   \<and> flag_set RETRY_EXHAUSTED_FLAG
       (ctrl_flags (retries_exhausted example_env_windows example_rx1_timed_out))
   \<and> flag_set RETRY_EXHAUSTED_FLAG
       (ctrl_flags (process_reception_timeout example_env_windows True example_rx1_timed_out))
   \<and> \<not> flag_set RETRY_EXHAUSTED_FLAG
         (ctrl_flags (process_reception_timeout example_env_retrying True
                        example_rx1_timed_out))"
proof -
  note a = example_awaiting_ack_state
  note r = example_rx1_timed_out_state
  have nb: "\<not> mac_bool example_env_windows Continue_sending_process (loramac example_awaiting_ack)"
    and nb1: "\<not> mac_bool example_env_windows Continue_sending_process
                  (loramac example_rx1_timed_out)"
    and nb2: "\<not> mac_bool example_env_windows Continue_sending_process
                  (loramac (rx_timeout_entry example_env_windows True example_rx1_timed_out))"
    and yb: "mac_bool example_env_retrying Continue_sending_process
               (loramac (rx_timeout_entry example_env_retrying True example_rx1_timed_out))"
    by (simp_all add: example_env_def example_env_windows_def example_env_retrying_def)
  have sl: "get_current_slot
              (mac_effect example_env_windows Continue_sending_process
                 (loramac example_awaiting_ack)) = RX_SLOT_WIN_1"
    using a(3) by (simp add: example_env_windows_def)
  have sl1: "get_current_slot
               (mac_effect example_env_windows Continue_sending_process
                  (loramac example_rx1_timed_out)) = RX_SLOT_WIN_2"
    using r(3) by (simp add: example_env_windows_def)
  note t = retry_exhausted_decision [of example_awaiting_ack example_env_windows True]
  note u = retry_exhausted_decision [of example_rx1_timed_out example_env_windows True]
  note v = retry_exhausted_decision [of example_rx1_timed_out example_env_retrying True]
  have 1: "post_process_tx_with_reception example_env_windows example_awaiting_ack =
             mac_do example_env_windows Continue_sending_process example_awaiting_ack"
    using t [THEN conjunct1] a(1,2) sl by simp
  have 2: "ctrl_flags (mac_do example_env_windows Continue_sending_process example_awaiting_ack)
           = ctrl_flags example_awaiting_ack"
    using t by blast
  have 3: "\<not> flag_set RETRY_EXHAUSTED_FLAG
             (ctrl_flags (process_reception_timeout example_env_windows True
                            example_awaiting_ack))"
    using t a by blast
  have 4: "post_process_tx_with_reception example_env_windows example_rx1_timed_out =
             snd (state_controller example_env_windows DEVICE_STATE_STATUS_CHECK
                    (retries_exhausted example_env_windows example_rx1_timed_out))"
    using u [THEN conjunct1] r(1,2) nb1 sl1 by simp
  have 5: "flag_set RETRY_EXHAUSTED_FLAG
             (ctrl_flags (retries_exhausted example_env_windows example_rx1_timed_out))"
    using u by blast
  have rx: "RX_SLOT_WIN_2 \<noteq> RX_SLOT_WIN_1" by simp
  have 6: "flag_set RETRY_EXHAUSTED_FLAG
             (ctrl_flags (process_reception_timeout example_env_windows True
                            example_rx1_timed_out))"
    using u r(3,4,5,6,7,8,9) nb2 rx by (metis (no_types, lifting))
  have 7: "\<not> flag_set RETRY_EXHAUSTED_FLAG
             (ctrl_flags (process_reception_timeout example_env_retrying True
                            example_rx1_timed_out))"
    using v r(3,4,5,6,10,11,12) yb by blast
  show ?thesis
    using a(1,2,3,6) nb 1 2 3 r(3) 4 5 6 7 by blast
qed

end
